theory Spec2Isabelle
  imports Complex_Main "HOL-Library.Word"
begin

unbundle bit_operations_syntax

section \<open>Bit-packing codecs of device\_imu.c\<close>

text \<open>
  The codecs take a \<^verbatim>\<open>const uint8_t*\<close>; the model takes the bytes behind the pointer
  as a list and reads \<open>data ! i\<close> where the source reads \<^verbatim>\<open>data[i]\<close>. Every call
  site of the source passes a fixed-size byte array of the sample packet that is long
  enough; a shorter list has no counterpart in the program (the C read would be out of
  bounds) and nothing is claimed about it.

  A \<^verbatim>\<open>uint8_t\<close> operand is promoted to \<^verbatim>\<open>int\<close> before it is shifted, so
  no bit is lost by the shift; the model widens with \<open>ucast\<close> first. The final cast to
  the signed type keeps the bit pattern: the functions return the word, and \<open>sint\<close>
  reads its two's-complement value.
\<close>

type_synonym u8 = "8 word"
type_synonym u16 = "16 word"
type_synonym u32 = "32 word"
type_synonym u64 = "64 word"

definition pack32bit_signed :: "u8 list \<Rightarrow> u32" where
  "pack32bit_signed data =
     (let unsigned_value =
            ucast (data ! 0) OR push_bit 8 (ucast (data ! 1)) OR
            push_bit 16 (ucast (data ! 2)) OR push_bit 24 (ucast (data ! 3))
      in unsigned_value)"

definition pack24bit_signed :: "u8 list \<Rightarrow> u32" where
  "pack24bit_signed data =
     (let unsigned_value =
            ucast (data ! 0) OR push_bit 8 (ucast (data ! 1)) OR
            push_bit 16 (ucast (data ! 2));
          unsigned_value =
            (if (data ! 2) AND 0x80 \<noteq> 0 then unsigned_value OR push_bit 24 0xFF
             else unsigned_value)
      in unsigned_value)"

definition pack16bit_signed :: "u8 list \<Rightarrow> u16" where
  "pack16bit_signed data =
     (let unsigned_value = push_bit 8 (ucast (data ! 1)) OR ucast (data ! 0)
      in unsigned_value)"

definition pack32bit_signed_swap :: "u8 list \<Rightarrow> u32" where
  "pack32bit_signed_swap data =
     (let unsigned_value =
            push_bit 24 (ucast (data ! 0)) OR push_bit 16 (ucast (data ! 1)) OR
            push_bit 8 (ucast (data ! 2)) OR ucast (data ! 3)
      in unsigned_value)"

definition pack16bit_signed_swap :: "u8 list \<Rightarrow> u16" where
  "pack16bit_signed_swap data =
     (let unsigned_value = push_bit 8 (ucast (data ! 0)) OR ucast (data ! 1)
      in unsigned_value)"

definition pack16bit_signed_bizarre :: "u8 list \<Rightarrow> u16" where
  "pack16bit_signed_bizarre data =
     (let unsigned_value = ucast (data ! 0) OR push_bit 8 (ucast ((data ! 1) XOR 0x80))
      in unsigned_value)"

text \<open>
  The reference the codecs are compared with: the value of a byte pair read as a
  two's-complement 16-bit integer, low byte first. It is written with integer
  arithmetic only, independently of the bit operations of the source.
\<close>

definition le16_signed :: "u8 \<Rightarrow> u8 \<Rightarrow> int" where
  "le16_signed lo hi =
     (let u = uint lo + 256 * uint hi in if u < 32768 then u else u - 65536)"

section \<open>Floating-point values and the Fusion value types\<close>

text \<open>
  A C \<^verbatim>\<open>float\<close> is modelled by \<open>flt\<close>: a finite value, the two infinities, or NaN.
  Comparisons, NaN tests and the special cases of the four operations (division by
  zero, operations on infinities and on NaN) follow IEEE 754. On finite operands the
  operations are exact: rounding, overflow to infinity and the sign of zero are not
  modelled. Nothing stated below about this program depends on a rounded digit; the
  statements are about which value is compared with which, and about NaN tests.
\<close>

datatype flt = Fin real | PInf | NInf | NaN

definition isnan :: "flt \<Rightarrow> bool" where
  "isnan v = (v = NaN)"

fun flt_less :: "flt \<Rightarrow> flt \<Rightarrow> bool" where
  "flt_less NaN _ = False"
| "flt_less _ NaN = False"
| "flt_less (Fin a) (Fin b) = (a < b)"
| "flt_less (Fin a) PInf = True"
| "flt_less (Fin a) NInf = False"
| "flt_less PInf _ = False"
| "flt_less NInf NInf = False"
| "flt_less NInf _ = True"

definition flt_greater :: "flt \<Rightarrow> flt \<Rightarrow> bool" where
  "flt_greater a b = flt_less b a"

fun flt_neg :: "flt \<Rightarrow> flt" where
  "flt_neg (Fin a) = Fin (- a)"
| "flt_neg PInf = NInf"
| "flt_neg NInf = PInf"
| "flt_neg NaN = NaN"

fun flt_add :: "flt \<Rightarrow> flt \<Rightarrow> flt" where
  "flt_add NaN _ = NaN"
| "flt_add _ NaN = NaN"
| "flt_add (Fin a) (Fin b) = Fin (a + b)"
| "flt_add (Fin a) PInf = PInf"
| "flt_add (Fin a) NInf = NInf"
| "flt_add PInf NInf = NaN"
| "flt_add PInf _ = PInf"
| "flt_add NInf PInf = NaN"
| "flt_add NInf _ = NInf"

definition flt_sub :: "flt \<Rightarrow> flt \<Rightarrow> flt" where
  "flt_sub a b = flt_add a (flt_neg b)"

text \<open>The sign of an infinite product or quotient: \<open>True\<close> for a negative operand.\<close>

fun flt_negative :: "flt \<Rightarrow> bool" where
  "flt_negative (Fin a) = (a < 0)"
| "flt_negative NInf = True"
| "flt_negative _ = False"

fun flt_mul :: "flt \<Rightarrow> flt \<Rightarrow> flt" where
  "flt_mul NaN _ = NaN"
| "flt_mul _ NaN = NaN"
| "flt_mul (Fin a) (Fin b) = Fin (a * b)"
| "flt_mul a b =
     (if a = Fin 0 \<or> b = Fin 0 then NaN
      else if flt_negative a = flt_negative b then PInf else NInf)"

fun flt_div :: "flt \<Rightarrow> flt \<Rightarrow> flt" where
  "flt_div NaN _ = NaN"
| "flt_div _ NaN = NaN"
| "flt_div (Fin a) (Fin b) =
     (if b = 0 then (if a = 0 then NaN else if a < 0 then NInf else PInf)
      else Fin (a / b))"
| "flt_div (Fin a) _ = Fin 0"
| "flt_div a (Fin b) = (if flt_negative a = (b < 0) then PInf else NInf)"
| "flt_div _ _ = NaN"

definition FLT_MIN :: flt where
  "FLT_MIN = Fin (1 / 2 ^ 126)"

definition FLT_MAX :: flt where
  "FLT_MAX = Fin ((2 - 1 / 2 ^ 23) * 2 ^ 127)"

text \<open>
  \<^verbatim>\<open>FusionVector\<close> is a union of \<^verbatim>\<open>array[3]\<close> and \<^verbatim>\<open>axis.{x,y,z}\<close>,
  \<^verbatim>\<open>FusionMatrix\<close> of \<^verbatim>\<open>array[3][3]\<close> and \<^verbatim>\<open>element.{xx,..,zz}\<close>,
  \<^verbatim>\<open>FusionQuaternion\<close> of \<^verbatim>\<open>array[4]\<close> and \<^verbatim>\<open>element.{w,x,y,z}\<close>
  (types of the Fusion library, which the source includes).
\<close>

record FusionVector =
  axis_x :: flt
  axis_y :: flt
  axis_z :: flt

record FusionMatrix =
  element_xx :: flt
  element_xy :: flt
  element_xz :: flt
  element_yx :: flt
  element_yy :: flt
  element_yz :: flt
  element_zx :: flt
  element_zy :: flt
  element_zz :: flt

record FusionQuaternion =
  element_w :: flt
  element_x :: flt
  element_y :: flt
  element_z :: flt

definition array :: "FusionVector \<Rightarrow> nat \<Rightarrow> flt" where
  "array v i = (if i = 0 then axis_x v else if i = 1 then axis_y v else axis_z v)"

definition array_update :: "nat \<Rightarrow> flt \<Rightarrow> FusionVector \<Rightarrow> FusionVector" where
  "array_update i f v =
     (if i = 0 then v\<lparr>axis_x := f\<rparr>
      else if i = 1 then v\<lparr>axis_y := f\<rparr>
      else v\<lparr>axis_z := f\<rparr>)"

definition FUSION_VECTOR_ZERO :: FusionVector where
  "FUSION_VECTOR_ZERO = \<lparr>axis_x = Fin 0, axis_y = Fin 0, axis_z = Fin 0\<rparr>"

definition FUSION_VECTOR_ONES :: FusionVector where
  "FUSION_VECTOR_ONES = \<lparr>axis_x = Fin 1, axis_y = Fin 1, axis_z = Fin 1\<rparr>"

definition FUSION_MATRIX_ZERO :: FusionMatrix where
  "FUSION_MATRIX_ZERO =
     \<lparr>element_xx = Fin 0, element_xy = Fin 0, element_xz = Fin 0,
      element_yx = Fin 0, element_yy = Fin 0, element_yz = Fin 0,
      element_zx = Fin 0, element_zy = Fin 0, element_zz = Fin 0\<rparr>"

definition FUSION_IDENTITY_MATRIX :: FusionMatrix where
  "FUSION_IDENTITY_MATRIX =
     \<lparr>element_xx = Fin 1, element_xy = Fin 0, element_xz = Fin 0,
      element_yx = Fin 0, element_yy = Fin 1, element_yz = Fin 0,
      element_zx = Fin 0, element_zy = Fin 0, element_zz = Fin 1\<rparr>"

definition FUSION_IDENTITY_QUATERNION :: FusionQuaternion where
  "FUSION_IDENTITY_QUATERNION =
     \<lparr>element_w = Fin 1, element_x = Fin 0, element_y = Fin 0, element_z = Fin 0\<rparr>"

section \<open>The online iron-offset estimator\<close>

text \<open>
  The macros \<^verbatim>\<open>min\<close> and \<^verbatim>\<open>max\<close> of the source:
  \<^verbatim>\<open>((x) < (y)? (x) : (y))\<close> and \<^verbatim>\<open>((x) > (y)? (x) : (y))\<close>.
\<close>

definition min_macro :: "flt \<Rightarrow> flt \<Rightarrow> flt" where
  "min_macro a b = (if flt_less a b then a else b)"

definition max_macro :: "flt \<Rightarrow> flt \<Rightarrow> flt" where
  "max_macro a b = (if flt_greater a b then a else b)"

text \<open>
  The two \<^verbatim>\<open>static\<close> locals of \<^verbatim>\<open>iterate_iron_offset_estimation\<close> live as
  long as the process; the model passes them in and returns them. \<open>iron_initial\<close> is
  their value when the program starts:
  \<^verbatim>\<open>max = { FLT_MIN, FLT_MIN, FLT_MIN }\<close>, \<^verbatim>\<open>min = { FLT_MAX, FLT_MAX, FLT_MAX }\<close>.
\<close>

record iron_static =
  iron_max :: FusionVector
  iron_min :: FusionVector

definition iron_initial :: iron_static where
  "iron_initial =
     \<lparr>iron_max = \<lparr>axis_x = FLT_MIN, axis_y = FLT_MIN, axis_z = FLT_MIN\<rparr>,
      iron_min = \<lparr>axis_x = FLT_MAX, axis_y = FLT_MAX, axis_z = FLT_MAX\<rparr>\<rparr>"

definition iron_loop_body :: "FusionVector \<Rightarrow> nat \<Rightarrow> iron_static \<Rightarrow> iron_static" where
  "iron_loop_body magnetometer i s =
     (let s = s\<lparr>iron_max :=
                 array_update i (max_macro (array (iron_max s) i) (array magnetometer i))
                   (iron_max s)\<rparr>;
          s = s\<lparr>iron_min :=
                 array_update i (min_macro (array (iron_min s) i) (array magnetometer i))
                   (iron_min s)\<rparr>
      in s)"

text \<open>
  Returns the statics, the soft-iron matrix and the hard-iron offset. The matrix is
  cleared with \<^verbatim>\<open>memset\<close> (all bytes zero is \<open>0.0\<close>) before its diagonal is set.
\<close>

definition iterate_iron_offset_estimation ::
    "iron_static \<Rightarrow> FusionVector \<Rightarrow> iron_static \<times> FusionMatrix \<times> FusionVector" where
  "iterate_iron_offset_estimation s0 magnetometer =
     (let s = fold (iron_loop_body magnetometer) [0, 1, 2] s0;
          mx = flt_div (flt_sub (axis_x (iron_max s)) (axis_x (iron_min s))) (Fin 2);
          my = flt_div (flt_sub (axis_y (iron_max s)) (axis_y (iron_min s))) (Fin 2);
          mz = flt_div (flt_sub (axis_z (iron_max s)) (axis_z (iron_min s))) (Fin 2);
          cx = flt_div (flt_add (axis_x (iron_min s)) (axis_x (iron_max s))) (Fin 2);
          cy = flt_div (flt_add (axis_y (iron_min s)) (axis_y (iron_max s))) (Fin 2);
          cz = flt_div (flt_add (axis_z (iron_min s)) (axis_z (iron_max s))) (Fin 2);
          softIronMatrix = FUSION_MATRIX_ZERO;
          softIronMatrix = softIronMatrix\<lparr>element_xx := flt_div (Fin 1) mx\<rparr>;
          softIronMatrix = softIronMatrix\<lparr>element_yy := flt_div (Fin 1) my\<rparr>;
          softIronMatrix = softIronMatrix\<lparr>element_zz := flt_div (Fin 1) mz\<rparr>;
          hardIronOffset = \<lparr>axis_x = cx, axis_y = cy, axis_z = cz\<rparr>
      in (s, softIronMatrix, hardIronOffset))"

text \<open>Feeding a sequence of samples, one call per sample; the last outputs are kept.\<close>

fun feed_iron ::
    "iron_static \<times> FusionMatrix \<times> FusionVector \<Rightarrow> FusionVector list \<Rightarrow>
     iron_static \<times> FusionMatrix \<times> FusionVector" where
  "feed_iron r [] = r"
| "feed_iron (s, soft, hard) (m # ms) = feed_iron (iterate_iron_offset_estimation s m) ms"

text \<open>
  The estimator as the specification words it, for comparison: the extrema are the
  running minimum and maximum of the samples observed (seeded with the first sample),
  \<open>softIron = diag (1 / ((max - min) / 2))\<close> and \<open>hardIron = (max + min) / 2\<close>.
\<close>

fun running_max :: "flt list \<Rightarrow> flt" where
  "running_max [] = NaN"
| "running_max (v # vs) = fold (\<lambda>b a. max_macro a b) vs v"

fun running_min :: "flt list \<Rightarrow> flt" where
  "running_min [] = NaN"
| "running_min (v # vs) = fold (\<lambda>b a. min_macro a b) vs v"

definition spec_soft_iron :: "flt list \<Rightarrow> flt" where
  "spec_soft_iron vs =
     flt_div (Fin 1) (flt_div (flt_sub (running_max vs) (running_min vs)) (Fin 2))"

definition spec_hard_iron :: "flt list \<Rightarrow> flt" where
  "spec_hard_iron vs = flt_div (flt_add (running_max vs) (running_min vs)) (Fin 2)"

definition spec_iron_estimate :: "FusionVector list \<Rightarrow> FusionMatrix \<times> FusionVector" where
  "spec_iron_estimate ms =
     (FUSION_MATRIX_ZERO\<lparr>element_xx := spec_soft_iron (map axis_x ms),
                         element_yy := spec_soft_iron (map axis_y ms),
                         element_zz := spec_soft_iron (map axis_z ms)\<rparr>,
      \<lparr>axis_x = spec_hard_iron (map axis_x ms),
       axis_y = spec_hard_iron (map axis_y ms),
       axis_z = spec_hard_iron (map axis_z ms)\<rparr>)"

section \<open>The HID transport\<close>

text \<open>
  The transport (hidapi) is outside the program. A device handle is modelled by what the
  transport will do: the reports it delivers, in order, one per read call, and the
  return value of each write call. Two logs record what the program asked of it.

  A read call consumes the next event. \<open>Report bs\<close> copies at most the requested
  number of bytes of a report into the buffer and returns their count; \<open>NoData\<close>
  returns 0; \<open>HidError\<close> returns -1. When no event is left, the blocking
  \<^verbatim>\<open>hid_read\<close> never returns (\<open>None\<close>), and \<^verbatim>\<open>hid_read_timeout\<close> runs into
  its timeout and returns 0.

  \<open>write_result h k n\<close> is what the \<open>k\<close>-th \<^verbatim>\<open>hid_write\<close> on the handle
  returns when it is given \<open>n\<close> bytes.

  Throughout, a result \<open>None\<close> stands for a call that does not return a value: it
  blocks forever in the transport, or its behaviour is undefined in C.
\<close>

datatype hid_event = Report "u8 list" | NoData | HidError

record hid_device =
  incoming :: "hid_event list"
  write_result :: "nat \<Rightarrow> nat \<Rightarrow> int"
  written :: "u8 list list"
  read_sizes :: "nat list"

text \<open>\<open>store off bs buf\<close>: the buffer after \<open>bs\<close> has been copied to offset \<open>off\<close>.\<close>

definition store :: "nat \<Rightarrow> u8 list \<Rightarrow> u8 list \<Rightarrow> u8 list" where
  "store off bs buf = take off buf @ bs @ drop (off + length bs) buf"

definition hid_write :: "hid_device \<Rightarrow> u8 list \<Rightarrow> int \<times> hid_device" where
  "hid_write h bytes =
     (write_result h (length (written h)) (length bytes),
      h\<lparr>written := written h @ [bytes]\<rparr>)"

definition deliver :: "hid_event \<Rightarrow> nat \<Rightarrow> u8 list \<Rightarrow> int \<times> u8 list" where
  "deliver ev n buf =
     (case ev of
        Report bs \<Rightarrow> (int (length (take n bs)), store 0 (take n bs) buf)
      | NoData \<Rightarrow> (0, buf)
      | HidError \<Rightarrow> (- 1, buf))"

definition hid_read ::
    "hid_device \<Rightarrow> u8 list \<Rightarrow> nat \<Rightarrow> (int \<times> u8 list \<times> hid_device) option" where
  "hid_read h buf n =
     (case incoming h of
        [] \<Rightarrow> None
      | ev # rest \<Rightarrow>
          (let (transferred, buf) = deliver ev n buf
           in Some (transferred, buf,
                    h\<lparr>incoming := rest, read_sizes := read_sizes h @ [n]\<rparr>)))"

definition hid_read_timeout ::
    "hid_device \<Rightarrow> u8 list \<Rightarrow> nat \<Rightarrow> int \<Rightarrow> int \<times> u8 list \<times> hid_device" where
  "hid_read_timeout h buf n timeout =
     (case incoming h of
        [] \<Rightarrow> (0, buf, h\<lparr>read_sizes := read_sizes h @ [n]\<rparr>)
      | ev # rest \<Rightarrow>
          (let (transferred, buf) = deliver ev n buf
           in (transferred, buf,
               h\<lparr>incoming := rest, read_sizes := read_sizes h @ [n]\<rparr>)))"

section \<open>The framing protocol\<close>

definition MAX_PACKET_SIZE :: nat where
  "MAX_PACKET_SIZE = 64"

text \<open>
  The parameter \<^verbatim>\<open>uint8_t size\<close> is \<open>size8\<close>; the callers pass a 16-bit length,
  which the call truncates to eight bits.
\<close>

definition send_payload :: "hid_device \<Rightarrow> nat \<Rightarrow> u8 list \<Rightarrow> bool \<times> hid_device" where
  "send_payload h size8 payload =
     (let payload_size = (if size8 > MAX_PACKET_SIZE then MAX_PACKET_SIZE else size8);
          (transferred, h) = hid_write h (take payload_size payload)
      in if transferred \<noteq> int payload_size then (False, h)
         else (transferred = int size8, h))"

definition recv_payload ::
    "hid_device \<Rightarrow> nat \<Rightarrow> u8 list \<Rightarrow> (bool \<times> u8 list \<times> hid_device) option" where
  "recv_payload h size8 payload =
     (let payload_size = (if size8 > MAX_PACKET_SIZE then MAX_PACKET_SIZE else size8)
      in case hid_read h payload payload_size of
           None \<Rightarrow> None
         | Some (transferred, payload, h) \<Rightarrow>
             (let transferred =
                    (if transferred \<ge> int payload_size then int payload_size else transferred)
              in if transferred = 0 then Some (False, payload, h)
                 else if transferred \<noteq> int payload_size then Some (False, payload, h)
                 else Some (transferred = int size8, payload, h)))"

text \<open>
  \<^verbatim>\<open>struct __attribute__((__packed__)) device_imu_payload_packet_t\<close>. The fields are
  the values the program reads through the field names; \<open>packet_bytes\<close> is the object
  as the transport sees it through \<^verbatim>\<open>(uint8_t*) (&packet)\<close>: the fields in
  declaration order without padding, multi-byte fields low byte first (the host is
  little-endian, where \<^verbatim>\<open>htole16\<close> and \<^verbatim>\<open>htole32\<close> return their argument).
  \<open>packet_of_bytes\<close> reads the fields back from such an image.
\<close>

record device_imu_payload_packet =
  head :: u8
  checksum :: u32
  length_field :: u16
  msgid_field :: u8
  data_field :: "u8 list"

definition le16 :: "u16 \<Rightarrow> u8 list" where
  "le16 w = [ucast w, ucast (drop_bit 8 w)]"

definition le32 :: "u32 \<Rightarrow> u8 list" where
  "le32 w = [ucast w, ucast (drop_bit 8 w), ucast (drop_bit 16 w), ucast (drop_bit 24 w)]"

definition load_le16 :: "u8 list \<Rightarrow> u16" where
  "load_le16 bs = ucast (bs ! 0) OR push_bit 8 (ucast (bs ! 1))"

definition load_le32 :: "u8 list \<Rightarrow> u32" where
  "load_le32 bs = ucast (bs ! 0) OR push_bit 8 (ucast (bs ! 1)) OR
                  push_bit 16 (ucast (bs ! 2)) OR push_bit 24 (ucast (bs ! 3))"

text \<open>The bytes of the object from the address of the field \<^verbatim>\<open>length\<close> on.\<close>

definition bytes_from_length :: "device_imu_payload_packet \<Rightarrow> u8 list" where
  "bytes_from_length p = le16 (length_field p) @ [msgid_field p] @ data_field p"

definition packet_bytes :: "device_imu_payload_packet \<Rightarrow> u8 list" where
  "packet_bytes p = [head p] @ le32 (checksum p) @ bytes_from_length p"

definition packet_of_bytes :: "u8 list \<Rightarrow> device_imu_payload_packet" where
  "packet_of_bytes bs =
     \<lparr>head = bs ! 0, checksum = load_le32 (drop 1 bs), length_field = load_le16 (drop 5 bs),
      msgid_field = bs ! 7, data_field = drop 8 bs\<rparr>"

definition zero_packet :: device_imu_payload_packet where
  "zero_packet =
     \<lparr>head = 0, checksum = 0, length_field = 0, msgid_field = 0, data_field = replicate 56 0\<rparr>"

text \<open>
  The state with static storage duration: the \<^verbatim>\<open>static\<close> packets of
  \<^verbatim>\<open>send_payload_msg\<close> and \<^verbatim>\<open>recv_payload_msg\<close> and the extrema of the iron
  estimator. \<open>statics_initial\<close> is their value when the program starts.
\<close>

record statics =
  send_packet :: device_imu_payload_packet
  recv_packet :: device_imu_payload_packet
  iron :: iron_static

definition statics_initial :: statics where
  "statics_initial =
     \<lparr>send_packet = zero_packet, recv_packet = zero_packet, iron = iron_initial\<rparr>"

text \<open>
  The parameters \<^verbatim>\<open>uint8_t len, const uint8_t* data\<close> of \<^verbatim>\<open>send_payload_msg\<close>
  are the list \<open>payload\<close> of \<open>len\<close> bytes. More than 56 bytes do not fit into
  \<^verbatim>\<open>packet.data\<close>: the \<^verbatim>\<open>memcpy\<close> would write past the object. The checksum
  function of \<^verbatim>\<open>crc32.h\<close> is the parameter \<open>crc32_checksum\<close>; it is given the
  \<^verbatim>\<open>packet.length\<close> bytes that start at the field \<^verbatim>\<open>length\<close>.
\<close>

definition send_payload_msg ::
    "(u8 list \<Rightarrow> u32) \<Rightarrow> statics \<Rightarrow> hid_device \<Rightarrow> u8 \<Rightarrow> u8 list \<Rightarrow>
     (bool \<times> statics \<times> hid_device) option" where
  "send_payload_msg crc32_checksum st h msgid payload =
     (let len = length payload
      in if len > 56 then None
         else
           (let packet = send_packet st;
                packet_len = 3 + len;
                payload_len = 5 + packet_len;
                packet = packet\<lparr>head := 0xAA\<rparr>;
                packet = packet\<lparr>length_field := of_nat packet_len\<rparr>;
                packet = packet\<lparr>msgid_field := msgid\<rparr>;
                packet = packet\<lparr>data_field := payload @ drop len (data_field packet)\<rparr>;
                packet = packet\<lparr>checksum :=
                           crc32_checksum
                             (take (unat (length_field packet)) (bytes_from_length packet))\<rparr>;
                (ok, h) = send_payload h (payload_len mod 256) (packet_bytes packet)
            in Some (ok, st\<lparr>send_packet := packet\<rparr>, h)))"

definition send_payload_msg_signal ::
    "(u8 list \<Rightarrow> u32) \<Rightarrow> statics \<Rightarrow> hid_device \<Rightarrow> u8 \<Rightarrow> u8 \<Rightarrow>
     (bool \<times> statics \<times> hid_device) option" where
  "send_payload_msg_signal crc32_checksum st h msgid signal =
     send_payload_msg crc32_checksum st h msgid [signal]"

text \<open>
  \<^verbatim>\<open>recv_payload_msg\<close> returns \<open>Some bytes\<close> for \<^verbatim>\<open>true\<close>, with the
  \<open>len\<close> bytes it has copied to the caller's \<^verbatim>\<open>data\<close>, and \<open>None\<close> for
  \<^verbatim>\<open>false\<close>, where the caller's buffer is untouched. A \<open>len\<close> above 56 would
  make the final \<^verbatim>\<open>memcpy\<close> read past the packet.
\<close>

definition recv_payload_msg ::
    "statics \<Rightarrow> hid_device \<Rightarrow> u8 \<Rightarrow> u8 \<Rightarrow> (u8 list option \<times> statics \<times> hid_device) option" where
  "recv_payload_msg st h msgid len =
     (let packet = recv_packet st;
          packet = packet\<lparr>head := 0\<rparr>;
          packet = packet\<lparr>length_field := 0\<rparr>;
          packet = packet\<lparr>msgid_field := 0\<rparr>;
          packet_len = 3 + unat len;
          payload_len = 5 + packet_len
      in case recv_payload h (payload_len mod 256) (packet_bytes packet) of
           None \<Rightarrow> None
         | Some (ok, bytes, h) \<Rightarrow>
             (let packet = packet_of_bytes bytes;
                  st = st\<lparr>recv_packet := packet\<rparr>
              in if \<not> ok then Some (None, st, h)
                 else if msgid_field packet \<noteq> msgid then Some (None, st, h)
                 else if unat len > 56 then None
                 else Some (Some (take (unat len) (data_field packet)), st, h)))"


section \<open>The device session\<close>

text \<open>
  The enumerations of \<^verbatim>\<open>device_imu.h\<close>, with the members the source names.
\<close>

datatype device_imu_error_type =
    DEVICE_IMU_ERROR_NO_ERROR
  | DEVICE_IMU_ERROR_NO_DEVICE
  | DEVICE_IMU_ERROR_NO_HANDLE
  | DEVICE_IMU_ERROR_NO_ALLOCATION
  | DEVICE_IMU_ERROR_WRONG_SIZE
  | DEVICE_IMU_ERROR_FILE_NOT_OPEN
  | DEVICE_IMU_ERROR_FILE_NOT_CLOSED
  | DEVICE_IMU_ERROR_LOADING_FAILED
  | DEVICE_IMU_ERROR_SAVING_FAILED
  | DEVICE_IMU_ERROR_UNPLUGGED
  | DEVICE_IMU_ERROR_UNEXPECTED
  | DEVICE_IMU_ERROR_WRONG_SIGNATURE
  | DEVICE_IMU_ERROR_INVALID_VALUE
  | DEVICE_IMU_ERROR_NOT_INITIALIZED
  | DEVICE_IMU_ERROR_PAYLOAD_FAILED

datatype device_imu_event_type = DEVICE_IMU_EVENT_INIT | DEVICE_IMU_EVENT_UPDATE

record device_imu_calibration =
  gyroscopeMisalignment :: FusionMatrix
  gyroscopeSensitivity :: FusionVector
  gyroscopeOffset :: FusionVector
  accelerometerMisalignment :: FusionMatrix
  accelerometerSensitivity :: FusionVector
  accelerometerOffset :: FusionVector
  magnetometerMisalignment :: FusionMatrix
  magnetometerSensitivity :: FusionVector
  magnetometerOffset :: FusionVector
  softIronMatrix :: FusionMatrix
  hardIronOffset :: FusionVector
  noises :: FusionQuaternion

text \<open>
  The fields of \<^verbatim>\<open>device_imu_packet_type\<close> that the source reads. The type is
  declared in \<^verbatim>\<open>device_imu.h\<close>; how its fields lie in the 64 bytes of a report is
  the parameter \<open>as_packet\<close> below. \<open>timestamp\<close> is the value after
  \<^verbatim>\<open>le64toh\<close>.
\<close>

record device_imu_packet =
  signature :: "u8 list"
  packet_temperature :: "u8 list"
  timestamp :: u64
  angular_multiplier :: "u8 list"
  angular_divisor :: "u8 list"
  angular_velocity_x :: "u8 list"
  angular_velocity_y :: "u8 list"
  angular_velocity_z :: "u8 list"
  acceleration_multiplier :: "u8 list"
  acceleration_divisor :: "u8 list"
  acceleration_x :: "u8 list"
  acceleration_y :: "u8 list"
  acceleration_z :: "u8 list"
  magnetic_multiplier :: "u8 list"
  magnetic_divisor :: "u8 list"
  magnetic_x :: "u8 list"
  magnetic_y :: "u8 list"
  magnetic_z :: "u8 list"

text \<open>
  A parsed JSON document (json-c). \<^verbatim>\<open>NULL\<close> is \<open>None\<close>. The accessors follow
  json-c: they accept \<^verbatim>\<open>NULL\<close> and objects of another type and then return
  \<^verbatim>\<open>NULL\<close>, \<^verbatim>\<open>false\<close> or 0. The tokener and the conversion of a scalar to
  \<^verbatim>\<open>double\<close> are parameters.
\<close>

datatype json_object =
    Json_object "(string \<times> json_object) list"
  | Json_array "json_object list"
  | Json_scalar string

definition json_object_object_get :: "json_object option \<Rightarrow> string \<Rightarrow> json_object option" where
  "json_object_object_get obj key =
     (case obj of Some (Json_object members) \<Rightarrow> map_of members key | _ \<Rightarrow> None)"

definition json_object_is_array :: "json_object option \<Rightarrow> bool" where
  "json_object_is_array obj = (case obj of Some (Json_array _) \<Rightarrow> True | _ \<Rightarrow> False)"

definition json_object_array_length :: "json_object option \<Rightarrow> nat" where
  "json_object_array_length obj = (case obj of Some (Json_array vs) \<Rightarrow> length vs | _ \<Rightarrow> 0)"

definition json_object_array_get_idx :: "json_object option \<Rightarrow> nat \<Rightarrow> json_object option" where
  "json_object_array_get_idx obj i =
     (case obj of
        Some (Json_array vs) \<Rightarrow> (if i < length vs then Some (vs ! i) else None)
      | _ \<Rightarrow> None)"

text \<open>An entry of the list \<^verbatim>\<open>hid_enumerate\<close> returns.\<close>

record hid_device_info =
  info_product_id :: u16
  interface_number :: int
  path :: string

text \<open>
  What the program takes from outside its source file: the constants and functions of
  \<^verbatim>\<open>device_imu.h\<close>, \<^verbatim>\<open>device.h\<close>, \<^verbatim>\<open>hid_ids.h\<close>, \<^verbatim>\<open>crc32.h\<close> and
  json-c, hidapi's enumeration, and the allocator. \<open>malloc_succeeds k\<close> tells whether
  the \<open>k\<close>-th \<^verbatim>\<open>malloc\<close> of \<^verbatim>\<open>device_imu_open\<close> (counted from 0: the
  calibration record, the download buffer, the drift tracker, the attitude filter)
  returns memory; \<open>fresh_calibration\<close> and \<open>fresh_bytes\<close> are the indeterminate
  contents of the record and of the buffer it returns.
\<close>

record externals =
  crc32_checksum :: "u8 list \<Rightarrow> u32"
  DEVICE_IMU_MSG_GET_CAL_DATA_LENGTH :: u8
  DEVICE_IMU_MSG_CAL_DATA_GET_NEXT_SEGMENT :: u8
  DEVICE_IMU_MSG_START_IMU_DATA :: u8
  DEVICE_IMU_MSG_GET_STATIC_ID :: u8
  xreal_vendor_id :: u16
  xreal_imu_interface_id :: "u16 \<Rightarrow> int"
  sizeof_device_imu_packet_type :: nat
  as_packet :: "u8 list \<Rightarrow> device_imu_packet"
  json_tokener_parse_ex :: "u8 list \<Rightarrow> json_object option"
  json_object_get_double :: "json_object option \<Rightarrow> flt"
  device_init :: bool
  hid_enumerate :: "u16 \<Rightarrow> u16 \<Rightarrow> hid_device_info list"
  hid_open_path :: "string \<Rightarrow> hid_device option"
  malloc_succeeds :: "nat \<Rightarrow> bool"
  fresh_calibration :: device_imu_calibration
  fresh_bytes :: "nat \<Rightarrow> u8"

text \<open>
  The Fusion library: the vector operations, and the two engines (attitude filter
  \<open>'ahrs\<close>, gyroscope drift tracker \<open>'offs\<close>) as state types with their update and
  query operations. They are parameters as well.
\<close>

datatype FusionAxesAlignment = FusionAxesAlignmentNXNZNY | FusionAxesAlignmentPZPXPY

datatype FusionConvention = FusionConventionNed

record FusionAhrsSettings =
  convention :: FusionConvention
  gain :: flt
  accelerationRejection :: flt
  magneticRejection :: flt
  recoveryTriggerPeriod :: nat

record ('ahrs, 'offs) fusion =
  FusionAxesSwap :: "FusionVector \<Rightarrow> FusionAxesAlignment \<Rightarrow> FusionVector"
  FusionCalibrationInertial ::
    "FusionVector \<Rightarrow> FusionMatrix \<Rightarrow> FusionVector \<Rightarrow> FusionVector \<Rightarrow> FusionVector"
  FusionCalibrationMagnetic :: "FusionVector \<Rightarrow> FusionMatrix \<Rightarrow> FusionVector \<Rightarrow> FusionVector"
  FusionVectorAdd :: "FusionVector \<Rightarrow> FusionVector \<Rightarrow> FusionVector"
  FusionVectorSubtract :: "FusionVector \<Rightarrow> FusionVector \<Rightarrow> FusionVector"
  FusionVectorMultiplyScalar :: "FusionVector \<Rightarrow> flt \<Rightarrow> FusionVector"
  FusionRadiansToDegrees :: "flt \<Rightarrow> flt"
  FusionDegreesToRadians :: "flt \<Rightarrow> flt"
  FusionQuaternionMultiply :: "FusionQuaternion \<Rightarrow> FusionQuaternion \<Rightarrow> FusionQuaternion"
  FusionQuaternionToMatrix :: "FusionQuaternion \<Rightarrow> FusionMatrix"
  FusionOffsetInitialise :: "nat \<Rightarrow> 'offs"
  FusionOffsetUpdate :: "'offs \<Rightarrow> FusionVector \<Rightarrow> FusionVector \<times> 'offs"
  FusionAhrsInitialise :: "'ahrs"
  FusionAhrsSetSettings :: "'ahrs \<Rightarrow> FusionAhrsSettings \<Rightarrow> 'ahrs"
  FusionAhrsUpdateNoMagnetometer :: "'ahrs \<Rightarrow> FusionVector \<Rightarrow> FusionVector \<Rightarrow> flt \<Rightarrow> 'ahrs"
  FusionAhrsGetQuaternion :: "'ahrs \<Rightarrow> FusionQuaternion"

text \<open>
  \<^verbatim>\<open>device_imu_type\<close>. A pointer field is an \<open>option\<close> (\<open>None\<close> for
  \<^verbatim>\<open>NULL\<close>) of the object it points to; \<open>callback\<close> tells whether the function
  pointer is set. The events a call hands to the callback are returned by the model,
  each with its timestamp.
\<close>

record ('ahrs, 'offs) device_imu =
  vendor_id :: u16
  product_id :: u16
  handle :: "hid_device option"
  callback :: bool
  static_id :: u32
  last_timestamp :: u64
  temperature :: flt
  offset :: "'offs option"
  ahrs :: "'ahrs option"
  calibration :: "device_imu_calibration option"

record device_imu_quat_type =
  quat_x :: flt
  quat_y :: flt
  quat_z :: flt
  quat_w :: flt

type_synonym events = "(u64 \<times> device_imu_event_type) list"

definition GRAVITY_G :: flt where
  "GRAVITY_G = Fin (9806 / 1000)"

definition device_imu_reset_calibration ::
    "('ahrs, 'offs) device_imu \<Rightarrow> ('ahrs, 'offs) device_imu" where
  "device_imu_reset_calibration device =
     (case calibration device of
        None \<Rightarrow> device
      | Some c \<Rightarrow>
          (let c = c\<lparr>gyroscopeMisalignment := FUSION_IDENTITY_MATRIX\<rparr>;
               c = c\<lparr>gyroscopeSensitivity := FUSION_VECTOR_ONES\<rparr>;
               c = c\<lparr>gyroscopeOffset := FUSION_VECTOR_ZERO\<rparr>;
               c = c\<lparr>accelerometerMisalignment := FUSION_IDENTITY_MATRIX\<rparr>;
               c = c\<lparr>accelerometerSensitivity := FUSION_VECTOR_ONES\<rparr>;
               c = c\<lparr>accelerometerOffset := FUSION_VECTOR_ZERO\<rparr>;
               c = c\<lparr>magnetometerMisalignment := FUSION_IDENTITY_MATRIX\<rparr>;
               c = c\<lparr>magnetometerSensitivity := FUSION_VECTOR_ONES\<rparr>;
               c = c\<lparr>magnetometerOffset := FUSION_VECTOR_ZERO\<rparr>;
               c = c\<lparr>softIronMatrix := FUSION_IDENTITY_MATRIX\<rparr>;
               c = c\<lparr>hardIronOffset := FUSION_VECTOR_ZERO\<rparr>;
               c = c\<lparr>noises := FUSION_IDENTITY_QUATERNION\<rparr>;
               c = c\<lparr>noises := (noises c)\<lparr>element_w := Fin 0\<rparr>\<rparr>
           in device\<lparr>calibration := Some c\<rparr>))"

definition device_imu_callback ::
    "('ahrs, 'offs) device_imu \<Rightarrow> u64 \<Rightarrow> device_imu_event_type \<Rightarrow> events" where
  "device_imu_callback device ts event =
     (if \<not> callback device then [] else [(ts, event)])"

definition int_to_float :: "int \<Rightarrow> flt" where
  "int_to_float i = Fin (of_int i)"

definition readIMU_from_packet ::
    "device_imu_packet \<Rightarrow> FusionVector \<times> FusionVector \<times> FusionVector" where
  "readIMU_from_packet packet =
     (let vel_m = sint (pack16bit_signed (angular_multiplier packet));
          vel_d = sint (pack32bit_signed (angular_divisor packet));
          vel_x = sint (pack24bit_signed (angular_velocity_x packet));
          vel_y = sint (pack24bit_signed (angular_velocity_y packet));
          vel_z = sint (pack24bit_signed (angular_velocity_z packet));
          gyroscope =
            \<lparr>axis_x = flt_div (flt_mul (int_to_float vel_x) (int_to_float vel_m)) (int_to_float vel_d),
             axis_y = flt_div (flt_mul (int_to_float vel_y) (int_to_float vel_m)) (int_to_float vel_d),
             axis_z = flt_div (flt_mul (int_to_float vel_z) (int_to_float vel_m)) (int_to_float vel_d)\<rparr>;
          accel_m = sint (pack16bit_signed (acceleration_multiplier packet));
          accel_d = sint (pack32bit_signed (acceleration_divisor packet));
          accel_x = sint (pack24bit_signed (acceleration_x packet));
          accel_y = sint (pack24bit_signed (acceleration_y packet));
          accel_z = sint (pack24bit_signed (acceleration_z packet));
          accelerometer =
            \<lparr>axis_x = flt_div (flt_mul (int_to_float accel_x) (int_to_float accel_m)) (int_to_float accel_d),
             axis_y = flt_div (flt_mul (int_to_float accel_y) (int_to_float accel_m)) (int_to_float accel_d),
             axis_z = flt_div (flt_mul (int_to_float accel_z) (int_to_float accel_m)) (int_to_float accel_d)\<rparr>;
          magnet_m = sint (pack16bit_signed_swap (magnetic_multiplier packet));
          magnet_d = sint (pack32bit_signed_swap (magnetic_divisor packet));
          magnet_x = sint (pack16bit_signed_bizarre (magnetic_x packet));
          magnet_y = sint (pack16bit_signed_bizarre (magnetic_y packet));
          magnet_z = sint (pack16bit_signed_bizarre (magnetic_z packet));
          magnetometer =
            \<lparr>axis_x = flt_div (flt_mul (int_to_float magnet_x) (int_to_float magnet_m)) (int_to_float magnet_d),
             axis_y = flt_div (flt_mul (int_to_float magnet_y) (int_to_float magnet_m)) (int_to_float magnet_d),
             axis_z = flt_div (flt_mul (int_to_float magnet_z) (int_to_float magnet_m)) (int_to_float magnet_d)\<rparr>
      in (gyroscope, accelerometer, magnetometer))"

definition pre_biased_coordinate_system ::
    "('ahrs, 'offs) fusion \<Rightarrow> FusionVector \<Rightarrow> FusionVector" where
  "pre_biased_coordinate_system F v = FusionAxesSwap F v FusionAxesAlignmentNXNZNY"

definition post_biased_coordinate_system ::
    "('ahrs, 'offs) fusion \<Rightarrow> FusionVector \<Rightarrow> FusionVector" where
  "post_biased_coordinate_system F v = FusionAxesSwap F v FusionAxesAlignmentPZPXPY"

text \<open>
  \<^verbatim>\<open>apply_calibration\<close> returns the statics, the device (whose calibration record it
  writes through the pointer) and the three vectors it stores through its arguments.
  The primed names are the local copies the source makes of the calibration fields.
\<close>

definition apply_calibration ::
    "('ahrs, 'offs) fusion \<Rightarrow> statics \<Rightarrow> ('ahrs, 'offs) device_imu \<Rightarrow>
     FusionVector \<Rightarrow> FusionVector \<Rightarrow> FusionVector \<Rightarrow>
     statics \<times> ('ahrs, 'offs) device_imu \<times> FusionVector \<times> FusionVector \<times> FusionVector" where
  "apply_calibration F st device gyroscope accelerometer magnetometer =
     (let cal = calibration device;
          gyroscopeMisalignment' =
            (case cal of Some c \<Rightarrow> gyroscopeMisalignment c | None \<Rightarrow> FUSION_IDENTITY_MATRIX);
          gyroscopeSensitivity' =
            (case cal of Some c \<Rightarrow> gyroscopeSensitivity c | None \<Rightarrow> FUSION_VECTOR_ONES);
          gyroscopeOffset' =
            (case cal of Some c \<Rightarrow> gyroscopeOffset c | None \<Rightarrow> FUSION_VECTOR_ZERO);
          accelerometerMisalignment' =
            (case cal of Some c \<Rightarrow> accelerometerMisalignment c | None \<Rightarrow> FUSION_IDENTITY_MATRIX);
          accelerometerSensitivity' =
            (case cal of Some c \<Rightarrow> accelerometerSensitivity c | None \<Rightarrow> FUSION_VECTOR_ONES);
          accelerometerOffset' =
            (case cal of Some c \<Rightarrow> accelerometerOffset c | None \<Rightarrow> FUSION_VECTOR_ZERO);
          magnetometerMisalignment' =
            (case cal of Some c \<Rightarrow> magnetometerMisalignment c | None \<Rightarrow> FUSION_IDENTITY_MATRIX);
          magnetometerSensitivity' =
            (case cal of Some c \<Rightarrow> magnetometerSensitivity c | None \<Rightarrow> FUSION_VECTOR_ONES);
          magnetometerOffset' =
            (case cal of Some c \<Rightarrow> magnetometerOffset c | None \<Rightarrow> FUSION_VECTOR_ZERO);
          gyroscopeOffset' =
            FusionVectorMultiplyScalar F gyroscopeOffset' (FusionRadiansToDegrees F (Fin 1));
          accelerometerOffset' =
            FusionVectorMultiplyScalar F accelerometerOffset' (flt_div (Fin 1) GRAVITY_G);
          g = pre_biased_coordinate_system F gyroscope;
          a = pre_biased_coordinate_system F accelerometer;
          m = pre_biased_coordinate_system F magnetometer;
          g = FusionCalibrationInertial F g
                gyroscopeMisalignment' gyroscopeSensitivity' gyroscopeOffset';
          a = FusionCalibrationInertial F a
                accelerometerMisalignment' accelerometerSensitivity' accelerometerOffset';
          m = FusionCalibrationInertial F m
                magnetometerMisalignment' magnetometerSensitivity' magnetometerOffset';
          (iron', softIronMatrix', hardIronOffset') = iterate_iron_offset_estimation (iron st) m;
          st = st\<lparr>iron := iron'\<rparr>;
          device =
            (case cal of
               Some c \<Rightarrow>
                 device\<lparr>calibration :=
                   Some (c\<lparr>softIronMatrix := softIronMatrix',
                            hardIronOffset := hardIronOffset'\<rparr>)\<rparr>
             | None \<Rightarrow> device);
          m = FusionCalibrationMagnetic F m softIronMatrix' hardIronOffset'
      in (st, device,
          post_biased_coordinate_system F g,
          post_biased_coordinate_system F a,
          post_biased_coordinate_system F m))"

definition device_imu_get_orientation ::
    "('ahrs, 'offs) fusion \<Rightarrow> 'ahrs option \<Rightarrow> device_imu_quat_type" where
  "device_imu_get_orientation F ahrs_ptr =
     (let quaternion =
            (case ahrs_ptr of
               Some a \<Rightarrow> FusionAhrsGetQuaternion F a
             | None \<Rightarrow> FUSION_IDENTITY_QUATERNION)
      in \<lparr>quat_x = element_x quaternion, quat_y = element_y quaternion,
          quat_z = element_z quaternion, quat_w = element_w quaternion\<rparr>)"


text \<open>
  \<^verbatim>\<open>device_imu_read\<close> from the computation of \<^verbatim>\<open>delta\<close> to its end: what it
  does with a frame whose signature is \<^verbatim>\<open>(0x01, 0x02)\<close>. \<open>ts\<close> is the frame's
  timestamp.
\<close>

definition device_imu_read_sample ::
    "('ahrs, 'offs) fusion \<Rightarrow> statics \<Rightarrow> ('ahrs, 'offs) device_imu \<Rightarrow> device_imu_packet \<Rightarrow>
     device_imu_error_type \<times> statics \<times> ('ahrs, 'offs) device_imu \<times> events" where
  "device_imu_read_sample F st device packet =
     (let ts = timestamp packet;
          delta = ts - last_timestamp device;
          deltaTime = Fin (real (unat delta) / 1000000000);
          device = device\<lparr>last_timestamp := ts\<rparr>;
          temperature' = sint (pack16bit_signed (packet_temperature packet));
          device = device\<lparr>temperature :=
                     flt_add (flt_div (int_to_float temperature') (Fin (13248 / 100))) (Fin 25)\<rparr>;
          (gyroscope, accelerometer, magnetometer) = readIMU_from_packet packet;
          (st, device, gyroscope, accelerometer, magnetometer) =
            apply_calibration F st device gyroscope accelerometer magnetometer;
          (gyroscope, device) =
            (case offset device of
               Some fo \<Rightarrow>
                 (let (gyroscope, fo) = FusionOffsetUpdate F fo gyroscope
                  in (gyroscope, device\<lparr>offset := Some fo\<rparr>))
             | None \<Rightarrow> (gyroscope, device))
      in case ahrs device of
           Some a \<Rightarrow>
             (let a =
                    (if isnan (axis_x magnetometer) \<or> isnan (axis_x magnetometer)
                        \<or> isnan (axis_x magnetometer)
                     then FusionAhrsUpdateNoMagnetometer F a gyroscope accelerometer deltaTime
                     else FusionAhrsUpdateNoMagnetometer F a gyroscope accelerometer deltaTime);
                  device = device\<lparr>ahrs := Some a\<rparr>;
                  orientation = device_imu_get_orientation F (ahrs device)
              in if isnan (quat_x orientation) \<or> isnan (quat_y orientation)
                    \<or> isnan (quat_z orientation) \<or> isnan (quat_w orientation)
                 then (DEVICE_IMU_ERROR_INVALID_VALUE, st, device, [])
                 else (DEVICE_IMU_ERROR_NO_ERROR, st, device,
                       device_imu_callback device ts DEVICE_IMU_EVENT_UPDATE))
         | None \<Rightarrow>
             (DEVICE_IMU_ERROR_NO_ERROR, st, device,
              device_imu_callback device ts DEVICE_IMU_EVENT_UPDATE))"

text \<open>
  \<^verbatim>\<open>device_imu_read\<close> for a device pointer that is not \<^verbatim>\<open>NULL\<close>
  (\<open>device_imu_read_device\<close>) and the whole function (\<open>device_imu_read\<close>). The
  local packet is cleared, then filled by the transport.
\<close>

definition device_imu_read_device ::
    "externals \<Rightarrow> ('ahrs, 'offs) fusion \<Rightarrow> statics \<Rightarrow> ('ahrs, 'offs) device_imu \<Rightarrow> int \<Rightarrow>
     device_imu_error_type \<times> statics \<times> ('ahrs, 'offs) device_imu \<times> events" where
  "device_imu_read_device P F st device timeout =
     (case handle device of
        None \<Rightarrow> (DEVICE_IMU_ERROR_NO_HANDLE, st, device, [])
      | Some h \<Rightarrow>
          if MAX_PACKET_SIZE \<noteq> sizeof_device_imu_packet_type P
          then (DEVICE_IMU_ERROR_WRONG_SIZE, st, device, [])
          else
            (let packet = replicate (sizeof_device_imu_packet_type P) 0;
                 (transferred, packet, h) = hid_read_timeout h packet MAX_PACKET_SIZE timeout;
                 device = device\<lparr>handle := Some h\<rparr>
             in if transferred = - 1 then (DEVICE_IMU_ERROR_UNPLUGGED, st, device, [])
                else if transferred = 0 then (DEVICE_IMU_ERROR_NO_ERROR, st, device, [])
                else if int MAX_PACKET_SIZE \<noteq> transferred
                then (DEVICE_IMU_ERROR_UNEXPECTED, st, device, [])
                else
                  (let packet = as_packet P packet;
                       ts = timestamp packet
                   in if signature packet ! 0 = 0xaa \<and> signature packet ! 1 = 0x53
                      then (DEVICE_IMU_ERROR_NO_ERROR, st, device,
                            device_imu_callback device ts DEVICE_IMU_EVENT_INIT)
                      else if signature packet ! 0 \<noteq> 0x01 \<or> signature packet ! 1 \<noteq> 0x02
                      then (DEVICE_IMU_ERROR_WRONG_SIGNATURE, st, device, [])
                      else device_imu_read_sample F st device packet)))"

definition device_imu_read ::
    "externals \<Rightarrow> ('ahrs, 'offs) fusion \<Rightarrow> statics \<Rightarrow> ('ahrs, 'offs) device_imu option \<Rightarrow> int \<Rightarrow>
     device_imu_error_type \<times> statics \<times> ('ahrs, 'offs) device_imu option \<times> events" where
  "device_imu_read P F st device_ptr timeout =
     (case device_ptr of
        None \<Rightarrow> (DEVICE_IMU_ERROR_NO_DEVICE, st, None, [])
      | Some device \<Rightarrow>
          (let (e, st, device, evs) = device_imu_read_device P F st device timeout
           in (e, st, Some device, evs)))"

definition device_imu_clear ::
    "externals \<Rightarrow> ('ahrs, 'offs) fusion \<Rightarrow> statics \<Rightarrow> ('ahrs, 'offs) device_imu option \<Rightarrow>
     device_imu_error_type \<times> statics \<times> ('ahrs, 'offs) device_imu option \<times> events" where
  "device_imu_clear P F st device_ptr = device_imu_read P F st device_ptr 10"

text \<open>
  The same function as the claim about the fusion update words it: the
  magnetometer-free update is invoked without a test. It differs from
  \<open>device_imu_read_sample\<close> in that one place only.
\<close>

definition device_imu_read_sample_unconditional ::
    "('ahrs, 'offs) fusion \<Rightarrow> statics \<Rightarrow> ('ahrs, 'offs) device_imu \<Rightarrow> device_imu_packet \<Rightarrow>
     device_imu_error_type \<times> statics \<times> ('ahrs, 'offs) device_imu \<times> events" where
  "device_imu_read_sample_unconditional F st device packet =
     (let ts = timestamp packet;
          delta = ts - last_timestamp device;
          deltaTime = Fin (real (unat delta) / 1000000000);
          device = device\<lparr>last_timestamp := ts\<rparr>;
          temperature' = sint (pack16bit_signed (packet_temperature packet));
          device = device\<lparr>temperature :=
                     flt_add (flt_div (int_to_float temperature') (Fin (13248 / 100))) (Fin 25)\<rparr>;
          (gyroscope, accelerometer, magnetometer) = readIMU_from_packet packet;
          (st, device, gyroscope, accelerometer, magnetometer) =
            apply_calibration F st device gyroscope accelerometer magnetometer;
          (gyroscope, device) =
            (case offset device of
               Some fo \<Rightarrow>
                 (let (gyroscope, fo) = FusionOffsetUpdate F fo gyroscope
                  in (gyroscope, device\<lparr>offset := Some fo\<rparr>))
             | None \<Rightarrow> (gyroscope, device))
      in case ahrs device of
           Some a \<Rightarrow>
             (let a = FusionAhrsUpdateNoMagnetometer F a gyroscope accelerometer deltaTime;
                  device = device\<lparr>ahrs := Some a\<rparr>;
                  orientation = device_imu_get_orientation F (ahrs device)
              in if isnan (quat_x orientation) \<or> isnan (quat_y orientation)
                    \<or> isnan (quat_z orientation) \<or> isnan (quat_w orientation)
                 then (DEVICE_IMU_ERROR_INVALID_VALUE, st, device, [])
                 else (DEVICE_IMU_ERROR_NO_ERROR, st, device,
                       device_imu_callback device ts DEVICE_IMU_EVENT_UPDATE))
         | None \<Rightarrow>
             (DEVICE_IMU_ERROR_NO_ERROR, st, device,
              device_imu_callback device ts DEVICE_IMU_EVENT_UPDATE))"


section \<open>Active calibration\<close>

text \<open>
  The locals of \<^verbatim>\<open>device_imu_calibrate\<close> that live across loop iterations. The
  source declares them without an initial value (except \<^verbatim>\<open>initialized\<close>); their
  indeterminate start values are the argument \<open>indeterminate\<close> of the model.
\<close>

record calibrate_locals =
  cal_gyroscope :: FusionVector
  cal_accelerometer :: FusionVector
  prev_accel :: FusionVector
  local_softIronMatrix :: FusionMatrix
  local_hardIronOffset :: FusionVector
  initialized :: bool

text \<open>
  The \<^verbatim>\<open>while (iterations > 0)\<close> loop. It returns \<open>Some e\<close> in the first
  component where the source returns the error \<open>e\<close> from inside the loop, and
  \<open>None\<close> there when the loop ends. Each turn takes one event from the transport;
  when none is left, \<^verbatim>\<open>hid_read\<close> blocks and so does the loop.
\<close>

function calibrate_loop ::
    "externals \<Rightarrow> ('ahrs, 'offs) fusion \<Rightarrow> statics \<Rightarrow> hid_device \<Rightarrow> calibrate_locals \<Rightarrow> nat \<Rightarrow>
     (device_imu_error_type option \<times> statics \<times> hid_device \<times> calibrate_locals) option" where
  "calibrate_loop P F st h loc iterations =
     (if iterations > 0 then
        (case hid_read h (replicate (sizeof_device_imu_packet_type P) 0) MAX_PACKET_SIZE of
           None \<Rightarrow> None
         | Some (transferred, bytes, h') \<Rightarrow>
             if transferred = - 1 then Some (Some DEVICE_IMU_ERROR_UNPLUGGED, st, h', loc)
             else if transferred = 0 then calibrate_loop P F st h' loc iterations
             else if int MAX_PACKET_SIZE \<noteq> transferred
             then Some (Some DEVICE_IMU_ERROR_UNEXPECTED, st, h', loc)
             else if signature (as_packet P bytes) ! 0 \<noteq> 0x01
                   \<or> signature (as_packet P bytes) ! 1 \<noteq> 0x02
             then calibrate_loop P F st h' loc iterations
             else
               (let (gyroscope, accelerometer, magnetometer) =
                      readIMU_from_packet (as_packet P bytes);
                    gyroscope = pre_biased_coordinate_system F gyroscope;
                    accelerometer = pre_biased_coordinate_system F accelerometer;
                    magnetometer = pre_biased_coordinate_system F magnetometer;
                    loc =
                      (if initialized loc
                       then loc\<lparr>cal_gyroscope := FusionVectorAdd F (cal_gyroscope loc) gyroscope,
                                cal_accelerometer :=
                                  FusionVectorAdd F (cal_accelerometer loc)
                                    (FusionVectorSubtract F accelerometer (prev_accel loc))\<rparr>
                       else loc\<lparr>cal_gyroscope := gyroscope,
                                cal_accelerometer := FUSION_VECTOR_ZERO\<rparr>);
                    loc = loc\<lparr>prev_accel := accelerometer\<rparr>;
                    r = iterate_iron_offset_estimation (iron st) magnetometer;
                    st' = st\<lparr>iron := fst r\<rparr>;
                    loc = loc\<lparr>local_softIronMatrix := fst (snd r),
                             local_hardIronOffset := snd (snd r)\<rparr>
                in calibrate_loop P F st' h' loc (iterations - 1)))
      else Some (None, st, h, loc))"
  by pat_completeness auto


termination
  by (relation "measure (\<lambda>(P, F, st, h, loc, iterations). length (incoming h))")
     (auto simp: hid_read_def split: list.splits prod.splits)

declare calibrate_loop.simps [simp del]


definition device_imu_calibrate ::
    "externals \<Rightarrow> ('ahrs, 'offs) fusion \<Rightarrow> calibrate_locals \<Rightarrow> statics \<Rightarrow>
     ('ahrs, 'offs) device_imu option \<Rightarrow> u32 \<Rightarrow> bool \<Rightarrow> bool \<Rightarrow> bool \<Rightarrow>
     (device_imu_error_type \<times> statics \<times> ('ahrs, 'offs) device_imu option) option" where
  "device_imu_calibrate P F indeterminate st device_ptr iterations gyro accel magnet =
     (case device_ptr of
        None \<Rightarrow> Some (DEVICE_IMU_ERROR_NO_DEVICE, st, None)
      | Some device \<Rightarrow>
          (case handle device of
             None \<Rightarrow> Some (DEVICE_IMU_ERROR_NO_HANDLE, st, Some device)
           | Some h \<Rightarrow>
               (case calibration device of
                  None \<Rightarrow> Some (DEVICE_IMU_ERROR_NO_ALLOCATION, st, Some device)
                | Some c \<Rightarrow>
                    if MAX_PACKET_SIZE \<noteq> sizeof_device_imu_packet_type P
                    then Some (DEVICE_IMU_ERROR_WRONG_SIZE, st, Some device)
                    else
                      (let loc = indeterminate\<lparr>initialized := False\<rparr>;
                           factor =
                             (if iterations > 0
                              then flt_div (Fin 1) (int_to_float (uint iterations))
                              else Fin 0)
                       in case calibrate_loop P F st h loc (unat iterations) of
                            None \<Rightarrow> None
                          | Some (Some e, st, h, loc) \<Rightarrow>
                              Some (e, st, Some (device\<lparr>handle := Some h\<rparr>))
                          | Some (None, st, h, loc) \<Rightarrow>
                              (let c =
                                     (if flt_greater factor (Fin 0) then
                                        (let c =
                                               (if gyro
                                                then c\<lparr>gyroscopeOffset :=
                                                       FusionVectorAdd F (gyroscopeOffset c)
                                                         (FusionVectorMultiplyScalar F
                                                            (cal_gyroscope loc)
                                                            (FusionDegreesToRadians F factor))\<rparr>
                                                else c);
                                             c =
                                               (if accel
                                                then c\<lparr>accelerometerOffset :=
                                                       FusionVectorAdd F (accelerometerOffset c)
                                                         (FusionVectorMultiplyScalar F
                                                            (cal_accelerometer loc)
                                                            (flt_mul factor GRAVITY_G))\<rparr>
                                                else c);
                                             c =
                                               (if magnet
                                                then c\<lparr>softIronMatrix := local_softIronMatrix loc,
                                                       hardIronOffset := local_hardIronOffset loc\<rparr>
                                                else c)
                                         in c)
                                      else c)
                               in Some (DEVICE_IMU_ERROR_NO_ERROR, st,
                                        Some (device\<lparr>handle := Some h,
                                                     calibration := Some c\<rparr>)))))))"

text \<open>
  A transport event that the loop of \<^verbatim>\<open>device_imu_calibrate\<close> counts: a report that
  fills the packet and carries the signature \<open>(0x01, 0x02)\<close>.
\<close>

definition is_data_frame :: "externals \<Rightarrow> hid_event \<Rightarrow> bool" where
  "is_data_frame P ev =
     (let (transferred, bytes) =
            deliver ev MAX_PACKET_SIZE (replicate (sizeof_device_imu_packet_type P) 0)
      in transferred = int MAX_PACKET_SIZE
         \<and> signature (as_packet P bytes) ! 0 = 0x01
         \<and> signature (as_packet P bytes) ! 1 = 0x02)"

section \<open>Opening a session\<close>

definition json_object_get_vector :: "externals \<Rightarrow> json_object option \<Rightarrow> FusionVector" where
  "json_object_get_vector P obj =
     (if \<not> json_object_is_array obj \<or> json_object_array_length obj \<noteq> 3
      then FUSION_VECTOR_ZERO
      else \<lparr>axis_x = json_object_get_double P (json_object_array_get_idx obj 0),
            axis_y = json_object_get_double P (json_object_array_get_idx obj 1),
            axis_z = json_object_get_double P (json_object_array_get_idx obj 2)\<rparr>)"

definition json_object_get_quaternion :: "externals \<Rightarrow> json_object option \<Rightarrow> FusionQuaternion" where
  "json_object_get_quaternion P obj =
     (if \<not> json_object_is_array obj \<or> json_object_array_length obj \<noteq> 4
      then FUSION_IDENTITY_QUATERNION
      else \<lparr>element_w = json_object_get_double P (json_object_array_get_idx obj 3),
            element_x = json_object_get_double P (json_object_array_get_idx obj 0),
            element_y = json_object_get_double P (json_object_array_get_idx obj 1),
            element_z = json_object_get_double P (json_object_array_get_idx obj 2)\<rparr>)"

text \<open>
  \<^verbatim>\<open>device_imu_open\<close> is modelled in four parts, in the order of the source: the
  start of the streaming and the set-up of the engines (\<open>device_imu_open_start\<close>), the
  calibration download (\<open>device_imu_open_calibration\<close>, with its loop
  \<open>download_loop\<close> and the assignments \<open>install_calibration\<close> that follow the
  parse), the static id (\<open>device_imu_open_static_id\<close>), and the beginning of the
  function (\<open>device_imu_open\<close>), each part ending in the next. The parts pass the
  handle \<open>h\<close> along and store it in the device where the function returns; \<open>evs\<close>
  are the events that \<^verbatim>\<open>device_imu_clear\<close> has handed to the callback.
\<close>

definition device_imu_open_start ::
    "externals \<Rightarrow> ('ahrs, 'offs) fusion \<Rightarrow> statics \<Rightarrow> ('ahrs, 'offs) device_imu \<Rightarrow> hid_device \<Rightarrow>
     events \<Rightarrow>
     (device_imu_error_type \<times> statics \<times> ('ahrs, 'offs) device_imu option \<times> events) option" where
  "device_imu_open_start P F st device h evs =
     (case send_payload_msg_signal (crc32_checksum P) st h (DEVICE_IMU_MSG_START_IMU_DATA P) 0x1 of
        None \<Rightarrow> None
      | Some (ok, st, h) \<Rightarrow>
          (let device = device\<lparr>handle := Some h\<rparr>
           in if \<not> ok then Some (DEVICE_IMU_ERROR_PAYLOAD_FAILED, st, Some device, evs)
              else
                (let SAMPLE_RATE = 1000;
                     device = device\<lparr>offset :=
                                (if malloc_succeeds P 2
                                 then Some (FusionOffsetInitialise F SAMPLE_RATE) else None)\<rparr>
                 in if \<not> malloc_succeeds P 3 then None
                    else
                      (let settings =
                             \<lparr>convention = FusionConventionNed,
                              gain = Fin (1 / 2),
                              accelerationRejection = Fin 10,
                              magneticRejection = Fin 20,
                              recoveryTriggerPeriod = 5 * SAMPLE_RATE\<rparr>;
                           device = device\<lparr>ahrs :=
                                      Some (FusionAhrsSetSettings F (FusionAhrsInitialise F)
                                              settings)\<rparr>
                       in Some (DEVICE_IMU_ERROR_NO_ERROR, st, Some device, evs)))))"

text \<open>
  The download loop. \<open>position\<close> never exceeds \<open>calibration_len\<close>, so the 32-bit
  counters of the source do not wrap and are natural numbers here.
\<close>

function download_loop ::
    "externals \<Rightarrow> statics \<Rightarrow> hid_device \<Rightarrow> nat \<Rightarrow> nat \<Rightarrow> u8 list \<Rightarrow>
     (statics \<times> hid_device \<times> nat \<times> u8 list) option" where
  "download_loop P st h calibration_len position calibration_data =
     (if position < calibration_len then
        (let remaining = calibration_len - position
         in case send_payload_msg (crc32_checksum P) st h
                   (DEVICE_IMU_MSG_CAL_DATA_GET_NEXT_SEGMENT P) [] of
              None \<Rightarrow> None
            | Some (ok, st, h) \<Rightarrow>
                if \<not> ok then Some (st, h, position, calibration_data)
                else
                  (let next = (if remaining > 56 then 56 else remaining)
                   in case recv_payload_msg st h
                             (DEVICE_IMU_MSG_CAL_DATA_GET_NEXT_SEGMENT P) (of_nat next) of
                        None \<Rightarrow> None
                      | Some (None, st, h) \<Rightarrow> Some (st, h, position, calibration_data)
                      | Some (Some bytes, st, h) \<Rightarrow>
                          download_loop P st h calibration_len (position + next)
                            (store position bytes calibration_data)))
      else Some (st, h, position, calibration_data))"
  by pat_completeness auto
termination
  by (relation "measure (\<lambda>(P, st, h, calibration_len, position, calibration_data).
                           calibration_len - position)")
     auto

declare download_loop.simps [simp del]

definition install_calibration ::
    "externals \<Rightarrow> ('ahrs, 'offs) fusion \<Rightarrow> json_object option \<Rightarrow> device_imu_calibration \<Rightarrow>
     device_imu_calibration" where
  "install_calibration P F root_obj c =
     (let imu = json_object_object_get root_obj ''IMU'';
          dev1 = json_object_object_get imu ''device_1'';
          accel_bias = json_object_get_vector P (json_object_object_get dev1 ''accel_bias'');
          accel_q_gyro = json_object_get_quaternion P (json_object_object_get dev1 ''accel_q_gyro'');
          gyro_bias = json_object_get_vector P (json_object_object_get dev1 ''gyro_bias'');
          gyro_q_mag = json_object_get_quaternion P (json_object_object_get dev1 ''gyro_q_mag'');
          mag_bias = json_object_get_vector P (json_object_object_get dev1 ''mag_bias'');
          imu_noises = json_object_get_quaternion P (json_object_object_get dev1 ''imu_noises'');
          scale_accel = json_object_get_vector P (json_object_object_get dev1 ''scale_accel'');
          scale_gyro = json_object_get_vector P (json_object_object_get dev1 ''scale_gyro'');
          scale_mag = json_object_get_vector P (json_object_object_get dev1 ''scale_mag'');
          accel_q_mag = FusionQuaternionMultiply F accel_q_gyro gyro_q_mag;
          c = c\<lparr>gyroscopeMisalignment := FusionQuaternionToMatrix F accel_q_gyro\<rparr>;
          c = c\<lparr>gyroscopeSensitivity := scale_gyro\<rparr>;
          c = c\<lparr>gyroscopeOffset := gyro_bias\<rparr>;
          c = c\<lparr>accelerometerMisalignment := FUSION_IDENTITY_MATRIX\<rparr>;
          c = c\<lparr>accelerometerSensitivity := scale_accel\<rparr>;
          c = c\<lparr>accelerometerOffset := accel_bias\<rparr>;
          c = c\<lparr>magnetometerMisalignment := FusionQuaternionToMatrix F accel_q_mag\<rparr>;
          c = c\<lparr>magnetometerSensitivity := scale_mag\<rparr>;
          c = c\<lparr>magnetometerOffset := mag_bias\<rparr>;
          c = c\<lparr>noises := imu_noises\<rparr>
      in c)"

text \<open>
  From the request for the calibration length to the end of the \<^verbatim>\<open>if\<close> block that
  downloads, parses and installs the calibration. The buffer has
  \<^verbatim>\<open>calibration_len + 1\<close> bytes, computed in 32 bits; with a length of
  \<open>2^32 - 1\<close> it has none and the terminating zero is written outside of it.
  Without a buffer, or without a calibration record to assign to, the program
  dereferences \<^verbatim>\<open>NULL\<close>.
\<close>

definition device_imu_open_calibration ::
    "externals \<Rightarrow> ('ahrs, 'offs) fusion \<Rightarrow> statics \<Rightarrow> ('ahrs, 'offs) device_imu \<Rightarrow> hid_device \<Rightarrow>
     events \<Rightarrow>
     (device_imu_error_type \<times> statics \<times> ('ahrs, 'offs) device_imu option \<times> events) option" where
  "device_imu_open_calibration P F st device h evs =
     (case send_payload_msg (crc32_checksum P) st h (DEVICE_IMU_MSG_GET_CAL_DATA_LENGTH P) [] of
        None \<Rightarrow> None
      | Some (ok, st, h) \<Rightarrow>
          if \<not> ok
          then Some (DEVICE_IMU_ERROR_PAYLOAD_FAILED, st, Some (device\<lparr>handle := Some h\<rparr>), evs)
          else
            (case recv_payload_msg st h (DEVICE_IMU_MSG_GET_CAL_DATA_LENGTH P) 4 of
               None \<Rightarrow> None
             | Some (None, st, h) \<Rightarrow> device_imu_open_start P F st device h evs
             | Some (Some bytes, st, h) \<Rightarrow>
                 (let calibration_len = load_le32 bytes
                  in if calibration_len + 1 = 0 \<or> \<not> malloc_succeeds P 1 then None
                     else
                       (let calibration_data =
                              map (fresh_bytes P) [0..<unat (calibration_len + 1)]
                        in case download_loop P st h (unat calibration_len) 0 calibration_data of
                             None \<Rightarrow> None
                           | Some (st, h, position, calibration_data) \<Rightarrow>
                               (let calibration_data =
                                      calibration_data[unat calibration_len := 0];
                                    root_obj = json_tokener_parse_ex P
                                             (take (unat calibration_len) calibration_data)
                                in case calibration device of
                                     None \<Rightarrow> None
                                   | Some c \<Rightarrow>
                                       device_imu_open_start P F st
                                         (device\<lparr>calibration :=
                                                    Some (install_calibration P F root_obj c)\<rparr>)
                                         h evs)))))"

text \<open>From the request for the static id to the reset of the calibration record.\<close>

definition device_imu_open_static_id ::
    "externals \<Rightarrow> ('ahrs, 'offs) fusion \<Rightarrow> statics \<Rightarrow> ('ahrs, 'offs) device_imu \<Rightarrow> hid_device \<Rightarrow>
     events \<Rightarrow>
     (device_imu_error_type \<times> statics \<times> ('ahrs, 'offs) device_imu option \<times> events) option" where
  "device_imu_open_static_id P F st device h evs =
     (case send_payload_msg (crc32_checksum P) st h (DEVICE_IMU_MSG_GET_STATIC_ID P) [] of
        None \<Rightarrow> None
      | Some (ok, st, h) \<Rightarrow>
          if \<not> ok
          then Some (DEVICE_IMU_ERROR_PAYLOAD_FAILED, st, Some (device\<lparr>handle := Some h\<rparr>), evs)
          else
            (case recv_payload_msg st h (DEVICE_IMU_MSG_GET_STATIC_ID P) 4 of
               None \<Rightarrow> None
             | Some (res, st, h) \<Rightarrow>
                 (let device =
                        (case res of
                           Some bytes \<Rightarrow> device\<lparr>static_id := load_le32 bytes\<rparr>
                         | None \<Rightarrow> device\<lparr>static_id := 0x20220101\<rparr>);
                      device = device\<lparr>calibration :=
                                 (if malloc_succeeds P 0 then Some (fresh_calibration P)
                                  else None)\<rparr>;
                      device = device_imu_reset_calibration device
                  in device_imu_open_calibration P F st device h evs)))"


text \<open>
  The beginning of \<^verbatim>\<open>device_imu_open\<close>: the device is cleared, the transport is
  searched for the interface of the sensor, the stream is stopped and a stale frame is
  read away with \<^verbatim>\<open>device_imu_clear\<close>, whose result the source ignores. The device
  pointer is not \<^verbatim>\<open>NULL\<close> there, so that call is \<open>device_imu_read_device\<close> with
  the timeout 10.
\<close>

definition zero_device :: "('ahrs, 'offs) device_imu" where
  "zero_device =
     \<lparr>vendor_id = 0, product_id = 0, handle = None, callback = False, static_id = 0,
      last_timestamp = 0, temperature = Fin 0, offset = None, ahrs = None,
      calibration = None\<rparr>"

fun enumerate_loop ::
    "externals \<Rightarrow> ('ahrs, 'offs) device_imu \<Rightarrow> hid_device_info list \<Rightarrow> ('ahrs, 'offs) device_imu" where
  "enumerate_loop P device [] = device"
| "enumerate_loop P device (it # rest) =
     (let interface_id = xreal_imu_interface_id P (info_product_id it)
      in if interface_id \<noteq> - 1 \<and> interface_number it = interface_id
         then device\<lparr>product_id := info_product_id it, handle := hid_open_path P (path it)\<rparr>
         else enumerate_loop P device rest)"

definition device_imu_open ::
    "externals \<Rightarrow> ('ahrs, 'offs) fusion \<Rightarrow> statics \<Rightarrow> ('ahrs, 'offs) device_imu option \<Rightarrow> bool \<Rightarrow>
     (device_imu_error_type \<times> statics \<times> ('ahrs, 'offs) device_imu option \<times> events) option" where
  "device_imu_open P F st device_ptr callback' =
     (case device_ptr of
        None \<Rightarrow> Some (DEVICE_IMU_ERROR_NO_DEVICE, st, None, [])
      | Some _ \<Rightarrow>
          (let device = zero_device;
               device = device\<lparr>vendor_id := xreal_vendor_id P\<rparr>;
               device = device\<lparr>product_id := 0\<rparr>;
               device = device\<lparr>callback := callback'\<rparr>
           in if \<not> device_init P
              then Some (DEVICE_IMU_ERROR_NOT_INITIALIZED, st, Some device, [])
              else
                (let info = hid_enumerate P (vendor_id device) (product_id device);
                     device = enumerate_loop P device info
                 in case handle device of
                      None \<Rightarrow> Some (DEVICE_IMU_ERROR_NO_HANDLE, st, Some device, [])
                    | Some h \<Rightarrow>
                        (case send_payload_msg_signal (crc32_checksum P) st h
                                (DEVICE_IMU_MSG_START_IMU_DATA P) 0x0 of
                           None \<Rightarrow> None
                         | Some (ok, st, h) \<Rightarrow>
                             (let device = device\<lparr>handle := Some h\<rparr>
                              in if \<not> ok
                                 then Some (DEVICE_IMU_ERROR_PAYLOAD_FAILED, st, Some device, [])
                                 else
                                   (let (e, st, device, evs) =
                                          device_imu_read_device P F st device 10
                                    in case handle device of
                                         None \<Rightarrow> None
                                       | Some h \<Rightarrow>
                                           device_imu_open_static_id P F st device h evs))))))"

section \<open>The frame on the wire, as the specification describes it\<close>

text \<open>
  \<open>frame_region\<close> is the checksummed region of a frame: the length field (3 plus the
  payload length, low byte first), the message id and the payload. \<open>frame\<close> is the
  whole frame: the head byte \<open>0xAA\<close>, the checksum of the region (low byte first),
  and the region.
\<close>

definition frame_region :: "u8 \<Rightarrow> u8 list \<Rightarrow> u8 list" where
  "frame_region msgid payload = le16 (of_nat (3 + length payload)) @ [msgid] @ payload"

definition frame :: "(u8 list \<Rightarrow> u32) \<Rightarrow> u8 \<Rightarrow> u8 list \<Rightarrow> u8 list" where
  "frame crc msgid payload =
     [0xAA] @ le32 (crc (frame_region msgid payload)) @ frame_region msgid payload"

section \<open>The inputs of the fusion update\<close>

text \<open>
  Names for what \<^verbatim>\<open>device_imu_read\<close> passes to the fusion engine, written from
  the gyroscope and accelerometer fields of the packet and from the calibration
  record: the time since the last frame in seconds, the calibrated gyroscope and
  accelerometer, and the gyroscope after the drift tracker. \<open>with_magnetometer\<close>
  replaces the five magnetometer fields of a packet.
\<close>

definition delta_time :: "('ahrs, 'offs) device_imu \<Rightarrow> device_imu_packet \<Rightarrow> flt" where
  "delta_time device packet =
     Fin (real (unat (timestamp packet - last_timestamp device)) / 1000000000)"

definition calibrated_gyroscope ::
    "('ahrs, 'offs) fusion \<Rightarrow> ('ahrs, 'offs) device_imu \<Rightarrow> device_imu_packet \<Rightarrow> FusionVector" where
  "calibrated_gyroscope F device packet =
     post_biased_coordinate_system F
       (FusionCalibrationInertial F
          (pre_biased_coordinate_system F (fst (readIMU_from_packet packet)))
          (case calibration device of
             Some c \<Rightarrow> gyroscopeMisalignment c | None \<Rightarrow> FUSION_IDENTITY_MATRIX)
          (case calibration device of
             Some c \<Rightarrow> gyroscopeSensitivity c | None \<Rightarrow> FUSION_VECTOR_ONES)
          (FusionVectorMultiplyScalar F
             (case calibration device of
                Some c \<Rightarrow> gyroscopeOffset c | None \<Rightarrow> FUSION_VECTOR_ZERO)
             (FusionRadiansToDegrees F (Fin 1))))"

definition calibrated_accelerometer ::
    "('ahrs, 'offs) fusion \<Rightarrow> ('ahrs, 'offs) device_imu \<Rightarrow> device_imu_packet \<Rightarrow> FusionVector" where
  "calibrated_accelerometer F device packet =
     post_biased_coordinate_system F
       (FusionCalibrationInertial F
          (pre_biased_coordinate_system F (fst (snd (readIMU_from_packet packet))))
          (case calibration device of
             Some c \<Rightarrow> accelerometerMisalignment c | None \<Rightarrow> FUSION_IDENTITY_MATRIX)
          (case calibration device of
             Some c \<Rightarrow> accelerometerSensitivity c | None \<Rightarrow> FUSION_VECTOR_ONES)
          (FusionVectorMultiplyScalar F
             (case calibration device of
                Some c \<Rightarrow> accelerometerOffset c | None \<Rightarrow> FUSION_VECTOR_ZERO)
             (flt_div (Fin 1) GRAVITY_G)))"

definition tracked_gyroscope ::
    "('ahrs, 'offs) fusion \<Rightarrow> ('ahrs, 'offs) device_imu \<Rightarrow> device_imu_packet \<Rightarrow> FusionVector" where
  "tracked_gyroscope F device packet =
     (case offset device of
        Some fo \<Rightarrow> fst (FusionOffsetUpdate F fo (calibrated_gyroscope F device packet))
      | None \<Rightarrow> calibrated_gyroscope F device packet)"

definition with_magnetometer ::
    "device_imu_packet \<Rightarrow> u8 list \<Rightarrow> u8 list \<Rightarrow> u8 list \<Rightarrow> u8 list \<Rightarrow> u8 list \<Rightarrow>
     device_imu_packet" where
  "with_magnetometer packet mm md mx my mz =
     packet\<lparr>magnetic_multiplier := mm, magnetic_divisor := md,
            magnetic_x := mx, magnetic_y := my, magnetic_z := mz\<rparr>"

definition is_finite :: "flt \<Rightarrow> bool" where
  "is_finite v = (case v of Fin _ \<Rightarrow> True | _ \<Rightarrow> False)"



section \<open>Exchanges with the device\<close>

text \<open>
  \<open>carries msgid payload bs\<close>: the report \<open>bs\<close> is long enough for a reply with this
  payload, has \<open>msgid\<close> at offset 7 and the payload from offset 8 on.
  \<open>exchanged h frames sizes rest\<close>: the transport \<open>h\<close> after the buffers \<open>frames\<close> have
  been written, reads of the sizes \<open>sizes\<close> have been issued and the events before
  \<open>rest\<close> have been consumed.
\<close>

definition carries :: "u8 \<Rightarrow> u8 list \<Rightarrow> u8 list \<Rightarrow> bool" where
  "carries msgid payload bs =
     (5 + 3 + length payload \<le> length bs \<and> bs ! 7 = msgid
      \<and> take (length payload) (drop 8 bs) = payload)"

definition exchanged ::
    "hid_device \<Rightarrow> u8 list list \<Rightarrow> nat list \<Rightarrow> hid_event list \<Rightarrow> hid_device" where
  "exchanged h frames sizes rest =
     h\<lparr>incoming := rest, written := written h @ frames,
       read_sizes := read_sizes h @ sizes\<rparr>"

text \<open>
  The session record of \<^verbatim>\<open>device_imu_open\<close> after the \<^verbatim>\<open>memset\<close> and the three
  assignments that follow it, and after the enumeration loop.
\<close>

definition cleared_device :: "externals \<Rightarrow> bool \<Rightarrow> ('ahrs, 'offs) device_imu" where
  "cleared_device P cb =
     zero_device\<lparr>vendor_id := xreal_vendor_id P, product_id := 0, callback := cb\<rparr>"

definition found_device :: "externals \<Rightarrow> bool \<Rightarrow> ('ahrs, 'offs) device_imu" where
  "found_device P cb =
     enumerate_loop P (cleared_device P cb) (hid_enumerate P (xreal_vendor_id P) 0)"

section \<open>Concrete inputs\<close>

text \<open>
  Values at which the theorems below are instantiated: vectors with finite components, a
  stand-in for the checksum function (any function will do, the theorems hold for all),
  and transports that start with empty logs.
\<close>

definition vec3 :: "real \<Rightarrow> real \<Rightarrow> real \<Rightarrow> FusionVector" where
  "vec3 a b c = \<lparr>axis_x = Fin a, axis_y = Fin b, axis_z = Fin c\<rparr>"

definition length_crc :: "u8 list \<Rightarrow> u32" where
  "length_crc bs = of_nat (length bs)"

definition transport :: "hid_event list \<Rightarrow> (nat \<Rightarrow> nat \<Rightarrow> int) \<Rightarrow> hid_device" where
  "transport evs wr = \<lparr>incoming = evs, write_result = wr, written = [], read_sizes = []\<rparr>"

definition accept_all :: "nat \<Rightarrow> nat \<Rightarrow> int" where
  "accept_all k n = int n"

definition accept_one_less :: "nat \<Rightarrow> nat \<Rightarrow> int" where
  "accept_one_less k n = int n - 1"

text \<open>
  A layout of the 64 bytes of a report, parameters for everything outside the source
  file, and a stand-in for the Fusion library whose attitude state is a quaternion:
  its update copies the x component of the gyroscope into the x component of the
  state and its vector operations return their first argument. They serve as inputs
  only. \<open>zero_divisor_report\<close> is a data frame whose angular divisor is zero while the
  raw angular velocity on x and the multiplier are 1; \<open>nan_report\<close> is a data frame
  of zeros; \<open>streaming_device\<close> is an open session with a callback.
\<close>

definition load_le64 :: "u8 list \<Rightarrow> u64" where
  "load_le64 bs =
     ucast (bs ! 0) OR push_bit 8 (ucast (bs ! 1)) OR push_bit 16 (ucast (bs ! 2)) OR
     push_bit 24 (ucast (bs ! 3)) OR push_bit 32 (ucast (bs ! 4)) OR
     push_bit 40 (ucast (bs ! 5)) OR push_bit 48 (ucast (bs ! 6)) OR
     push_bit 56 (ucast (bs ! 7))"

definition example_layout :: "u8 list \<Rightarrow> device_imu_packet" where
  "example_layout bs =
     \<lparr>signature = take 2 bs,
      packet_temperature = take 2 (drop 2 bs),
      timestamp = load_le64 (drop 4 bs),
      angular_multiplier = take 2 (drop 12 bs),
      angular_divisor = take 4 (drop 14 bs),
      angular_velocity_x = take 3 (drop 18 bs),
      angular_velocity_y = take 3 (drop 21 bs),
      angular_velocity_z = take 3 (drop 24 bs),
      acceleration_multiplier = take 2 (drop 27 bs),
      acceleration_divisor = take 4 (drop 29 bs),
      acceleration_x = take 3 (drop 33 bs),
      acceleration_y = take 3 (drop 36 bs),
      acceleration_z = take 3 (drop 39 bs),
      magnetic_multiplier = take 2 (drop 42 bs),
      magnetic_divisor = take 4 (drop 44 bs),
      magnetic_x = take 2 (drop 48 bs),
      magnetic_y = take 2 (drop 50 bs),
      magnetic_z = take 2 (drop 52 bs)\<rparr>"

definition example_calibration :: device_imu_calibration where
  "example_calibration =
     \<lparr>gyroscopeMisalignment = FUSION_IDENTITY_MATRIX,
      gyroscopeSensitivity = FUSION_VECTOR_ONES,
      gyroscopeOffset = FUSION_VECTOR_ZERO,
      accelerometerMisalignment = FUSION_IDENTITY_MATRIX,
      accelerometerSensitivity = FUSION_VECTOR_ONES,
      accelerometerOffset = FUSION_VECTOR_ZERO,
      magnetometerMisalignment = FUSION_IDENTITY_MATRIX,
      magnetometerSensitivity = FUSION_VECTOR_ONES,
      magnetometerOffset = FUSION_VECTOR_ZERO,
      softIronMatrix = FUSION_IDENTITY_MATRIX,
      hardIronOffset = FUSION_VECTOR_ZERO,
      noises = \<lparr>element_w = Fin 0, element_x = Fin 0, element_y = Fin 0, element_z = Fin 0\<rparr>\<rparr>"

definition example_externals :: "hid_device \<Rightarrow> externals" where
  "example_externals h =
     \<lparr>crc32_checksum = length_crc,
      DEVICE_IMU_MSG_GET_CAL_DATA_LENGTH = 0x14,
      DEVICE_IMU_MSG_CAL_DATA_GET_NEXT_SEGMENT = 0x15,
      DEVICE_IMU_MSG_START_IMU_DATA = 0x19,
      DEVICE_IMU_MSG_GET_STATIC_ID = 0x1A,
      xreal_vendor_id = 0x3318,
      xreal_imu_interface_id = (\<lambda>product. 3),
      sizeof_device_imu_packet_type = 64,
      as_packet = example_layout,
      json_tokener_parse_ex = (\<lambda>text. None),
      json_object_get_double = (\<lambda>obj. Fin 0),
      device_init = True,
      hid_enumerate =
        (\<lambda>vendor product. [\<lparr>info_product_id = 0x0424, interface_number = 3, path = ''imu''\<rparr>]),
      hid_open_path = (\<lambda>p. Some h),
      malloc_succeeds = (\<lambda>k. True),
      fresh_calibration = example_calibration,
      fresh_bytes = (\<lambda>i. 0)\<rparr>"

definition mirror_fusion :: "(FusionQuaternion, unit) fusion" where
  "mirror_fusion =
     \<lparr>FusionAxesSwap = (\<lambda>v alignment. v),
      FusionCalibrationInertial = (\<lambda>v misalignment sensitivity off. v),
      FusionCalibrationMagnetic = (\<lambda>v soft hard. v),
      FusionVectorAdd = (\<lambda>v w. v),
      FusionVectorSubtract = (\<lambda>v w. v),
      FusionVectorMultiplyScalar = (\<lambda>v k. v),
      FusionRadiansToDegrees = (\<lambda>r. r),
      FusionDegreesToRadians = (\<lambda>d. d),
      FusionQuaternionMultiply = (\<lambda>p q. p),
      FusionQuaternionToMatrix = (\<lambda>q. FUSION_IDENTITY_MATRIX),
      FusionOffsetInitialise = (\<lambda>rate. ()),
      FusionOffsetUpdate = (\<lambda>fo v. (v, fo)),
      FusionAhrsInitialise = FUSION_IDENTITY_QUATERNION,
      FusionAhrsSetSettings = (\<lambda>a settings. a),
      FusionAhrsUpdateNoMagnetometer = (\<lambda>a g acc dt. a\<lparr>element_x := axis_x g\<rparr>),
      FusionAhrsGetQuaternion = (\<lambda>a. a)\<rparr>"

definition zero_divisor_report :: "u8 list" where
  "zero_divisor_report =
     [0x01, 0x02] @ replicate 10 0 @ [0x01, 0x00] @ replicate 4 0 @ [0x01, 0x00, 0x00]
       @ replicate 43 0"

definition streaming_device :: "hid_device \<Rightarrow> (FusionQuaternion, unit) device_imu" where
  "streaming_device h =
     zero_device\<lparr>handle := Some h, callback := True,
                 ahrs := Some FUSION_IDENTITY_QUATERNION,
                 calibration := Some example_calibration\<rparr>"

definition nan_report :: "u8 list" where
  "nan_report = [0x01, 0x02] @ replicate 62 0"

text \<open>Start values for the locals of \<^verbatim>\<open>device_imu_calibrate\<close>.\<close>

definition blank_locals :: calibrate_locals where
  "blank_locals =
     \<lparr>cal_gyroscope = FUSION_VECTOR_ZERO, cal_accelerometer = FUSION_VECTOR_ZERO,
      prev_accel = FUSION_VECTOR_ZERO, local_softIronMatrix = FUSION_IDENTITY_MATRIX,
      local_hardIronOffset = FUSION_VECTOR_ZERO, initialized = False\<rparr>"

text \<open>
  Transports for \<^verbatim>\<open>device_imu_open\<close>. \<open>refuse_write j\<close> accepts every write but the
  one with index \<open>j\<close>, counted from 0. In \<open>unsent_static_id_run\<close> the request for the
  static id, the second write, is refused. In \<open>failed_segment_run\<close> the input is empty
  when it is drained, the static id and the calibration length 130 are received, and
  the read for the first segment fails. \<open>download_transport\<close> answers with the length
  130 and with \<open>example_blob\<close> in three segments.
\<close>

definition refuse_write :: "nat \<Rightarrow> nat \<Rightarrow> nat \<Rightarrow> int" where
  "refuse_write j k n = (if k = j then - 1 else int n)"

definition unsent_static_id_run ::
    "(device_imu_error_type \<times> statics \<times> (FusionQuaternion, unit) device_imu option \<times> events)
       option" where
  "unsent_static_id_run =
     device_imu_open (example_externals (transport [] (refuse_write 1))) mirror_fusion
       statics_initial (Some zero_device) True"

definition static_id_reply :: "u8 list" where
  "static_id_reply = replicate 7 0 @ [0x1A] @ [0x01, 0x02, 0x03, 0x04]"

definition length_reply :: "u8 list" where
  "length_reply = replicate 7 0 @ [0x14] @ [130, 0, 0, 0]"

definition failed_segment_run ::
    "(device_imu_error_type \<times> statics \<times> (FusionQuaternion, unit) device_imu option \<times> events)
       option" where
  "failed_segment_run =
     device_imu_open
       (example_externals
          (transport [NoData, Report static_id_reply, Report length_reply, HidError] accept_all))
       mirror_fusion statics_initial (Some zero_device) True"

definition example_blob :: "u8 list" where
  "example_blob = map of_nat [0..<130]"

definition reply_report :: "u8 \<Rightarrow> u8 list \<Rightarrow> u8 list" where
  "reply_report msgid payload = replicate 7 0 @ [msgid] @ payload"

definition download_transport :: hid_device where
  "download_transport =
     transport
       [Report (reply_report 0x14 (le32 130)),
        Report (reply_report 0x15 (take 56 example_blob)),
        Report (reply_report 0x15 (take 56 (drop 56 example_blob))),
        Report (reply_report 0x15 (drop 112 example_blob))]
       accept_all"

section \<open>Verification\<close>

subsection \<open>Facts about the codecs\<close>

lemma uint_cat16: "uint (word_cat (b::u8) (a::u8) :: u16) = uint a + 256 * uint b"
proof -
  have a: "uint a < 256" using uint_lt2p [of a] by simp
  have b: "uint b < 256" using uint_lt2p [of b] by simp
  have "uint (word_cat b a :: u16) = concat_bit 8 (uint a) (uint b) mod 2 ^ 16"
    by (simp add: word_cat_eq' uint_word_of_int)
  also have "concat_bit 8 (uint a) (uint b) = uint a + 256 * uint b"
    using a by (simp add: concat_bit_eq take_bit_eq_mod push_bit_eq_mult)
  also have "(uint a + 256 * uint b) mod 2 ^ 16 = uint a + 256 * uint b"
    using a b by simp
  finally show ?thesis .
qed

lemma sint16_uint:
  "sint (w :: u16) = (if uint w < 32768 then uint w else uint w - 65536)"
proof -
  have lt: "uint w < 65536" using uint_lt2p [of w] by simp
  have ge: "0 \<le> uint w" by simp
  have "sint w = signed_take_bit 15 (uint w)" by (simp add: sint_uint)
  also have "\<dots> = (uint w + 32768) mod 65536 - 32768"
    by (simp add: signed_take_bit_eq_take_bit_shift take_bit_eq_mod)
  also have "\<dots> = (if uint w < 32768 then uint w else uint w - 65536)"
  proof (cases "uint w < 32768")
    case True
    then have "(uint w + 32768) mod 65536 = uint w + 32768"
      using ge by simp
    then show ?thesis using True by simp
  next
    case False
    have "uint w + 32768 = uint w - 32768 + 65536"
      by arith
    then have "(uint w + 32768) mod 65536 = (uint w - 32768 + 65536) mod 65536"
      by (rule arg_cong)
    also have "\<dots> = (uint w - 32768) mod 65536"
      by (simp only: mod_add_self2)
    also have "\<dots> = uint w - 32768"
      using False lt by simp
    finally show ?thesis using False by simp
  qed
  finally show ?thesis .
qed

lemma pack16bit_signed_cat: "pack16bit_signed [a, b] = word_cat b a"
  by (simp add: pack16bit_signed_def word_cat_eq_push_bit_or)

lemma sint_pack16bit_signed: "sint (pack16bit_signed [a, b]) = le16_signed a b"
  by (simp only: pack16bit_signed_cat sint16_uint uint_cat16 le16_signed_def Let_def)

text \<open>
  C7: for every byte pair \<open>(a, b)\<close>, \<open>pack16bit_signed_bizarre [a, b]\<close> is the signed
  16-bit little-endian decoding of the byte pair \<open>(a, b XOR 0x80)\<close>: it is the same
  16-bit word as \<open>pack16bit_signed [a, b XOR 0x80]\<close>, and its signed value is the
  integer \<open>le16_signed a (b XOR 0x80)\<close>. For the bytes \<open>0x34, 0x02\<close> that value is
  the one of the pair \<open>(0x34, 0x82)\<close>, which is \<open>-32204\<close>.
\<close>

theorem pack16bit_signed_bizarre_is_le16_xor:
  "pack16bit_signed_bizarre [a, b] = pack16bit_signed [a, b XOR 0x80]
   \<and> sint (pack16bit_signed_bizarre [a, b]) = le16_signed a (b XOR 0x80)
   \<and> sint (pack16bit_signed_bizarre [0x34, 0x02]) = sint (pack16bit_signed [0x34, 0x82])
   \<and> sint (pack16bit_signed_bizarre [0x34, 0x02]) = - 32204"
proof -
  have eq: "pack16bit_signed_bizarre [x, y] = pack16bit_signed [x, y XOR 0x80]" for x y
    by (simp add: pack16bit_signed_bizarre_def pack16bit_signed_def or.commute)
  have val: "sint (pack16bit_signed_bizarre [x, y]) = le16_signed x (y XOR 0x80)" for x y
    by (simp only: eq sint_pack16bit_signed)
  have ex1: "sint (pack16bit_signed_bizarre [0x34, 0x02]) = sint (pack16bit_signed [0x34, 0x82])"
    by (simp add: eq)
  have ex2: "sint (pack16bit_signed_bizarre [0x34, 0x02]) = - 32204"
    by (simp add: val le16_signed_def)
  show ?thesis using eq val ex1 ex2 by blast
qed

subsection \<open>The iron-offset estimator\<close>

lemmas iron_eval =
  iterate_iron_offset_estimation_def iron_loop_body_def array_def array_update_def
  max_macro_def min_macro_def flt_greater_def flt_sub_def FLT_MIN_def FLT_MAX_def
  iron_initial_def FUSION_MATRIX_ZERO_def Let_def vec3_def

text \<open>
  The sample sequence of the specification, fed to the estimator in its initial state:
  the extrema end at \<open>(1, 1, 1)\<close> and \<open>(-1, -1, -1)\<close>, the hard-iron offset is zero
  and the soft-iron matrix is the identity.
\<close>

lemma iron_estimator_six_samples:
  "feed_iron (iron_initial, FUSION_IDENTITY_MATRIX, FUSION_VECTOR_ZERO)
     [vec3 1 0 0, vec3 (-1) 0 0, vec3 0 1 0, vec3 0 (-1) 0, vec3 0 0 1, vec3 0 0 (-1)]
   = (\<lparr>iron_max = vec3 1 1 1, iron_min = vec3 (-1) (-1) (-1)\<rparr>,
      FUSION_IDENTITY_MATRIX, FUSION_VECTOR_ZERO)"
  by (simp add: iron_eval FUSION_IDENTITY_MATRIX_def FUSION_VECTOR_ZERO_def)

text \<open>
  C3 says that after each sample the estimator yields
  \<open>softIron = diag (1 / ((max - min) / 2))\<close> and \<open>hardIron = (max + min) / 2\<close> for the
  running per-axis minimum and maximum of all samples observed. The code starts the
  maximum at \<^verbatim>\<open>FLT_MIN\<close>, the smallest positive normal \<^verbatim>\<open>float\<close>, not at the
  most negative one. Fed the two samples \<open>(-3, -3, -3)\<close> and \<open>(-1, -1, -1)\<close> from its
  initial state, the estimator keeps \<^verbatim>\<open>FLT_MIN\<close> as maximum on every axis, while
  the maximum of the samples is \<open>-1\<close>; the claim's formulas give the identity matrix
  and the offset \<open>(-2, -2, -2)\<close>, and the code returns something else.
\<close>

theorem iron_estimator_maximum_stuck_at_FLT_MIN:
  "fst (feed_iron (iron_initial, FUSION_IDENTITY_MATRIX, FUSION_VECTOR_ZERO)
          [vec3 (-3) (-3) (-3), vec3 (-1) (-1) (-1)])
     = \<lparr>iron_max = \<lparr>axis_x = FLT_MIN, axis_y = FLT_MIN, axis_z = FLT_MIN\<rparr>,
        iron_min = vec3 (-3) (-3) (-3)\<rparr>
   \<and> running_max (map axis_x [vec3 (-3) (-3) (-3), vec3 (-1) (-1) (-1)]) = Fin (-1)
   \<and> spec_iron_estimate [vec3 (-3) (-3) (-3), vec3 (-1) (-1) (-1)]
       = (FUSION_IDENTITY_MATRIX, vec3 (-2) (-2) (-2))
   \<and> snd (feed_iron (iron_initial, FUSION_IDENTITY_MATRIX, FUSION_VECTOR_ZERO)
          [vec3 (-3) (-3) (-3), vec3 (-1) (-1) (-1)])
       \<noteq> spec_iron_estimate [vec3 (-3) (-3) (-3), vec3 (-1) (-1) (-1)]"
  by (simp add: iron_eval FUSION_IDENTITY_MATRIX_def spec_iron_estimate_def
      spec_soft_iron_def spec_hard_iron_def)

subsection \<open>The framing protocol\<close>

lemma length_le16 [simp]: "length (le16 w) = 2"
  by (simp add: le16_def)

lemma length_le32 [simp]: "length (le32 w) = 4"
  by (simp add: le32_def)

lemma load_le16_le16: "load_le16 (le16 w @ r) = w"
  unfolding load_le16_def le16_def
  by (rule bit_word_eqI) (auto simp: bit_simps)

lemma load_le32_le32: "load_le32 (le32 w @ r) = w"
  unfolding load_le32_def le32_def
proof (rule bit_word_eqI)
  fix n assume n: "n < LENGTH(32)"
  consider "n < 8" | "8 \<le> n" "n < 16" | "16 \<le> n" "n < 24" | "24 \<le> n" "n < 32"
    using n by fastforce
  then show "bit (ucast (([ucast w, ucast (drop_bit 8 w), ucast (drop_bit 16 w), ucast (drop_bit 24 w)] @ r) ! 0) OR
        push_bit 8 (ucast (([ucast w, ucast (drop_bit 8 w), ucast (drop_bit 16 w), ucast (drop_bit 24 w)] @ r) ! 1)) OR
        push_bit 16 (ucast (([ucast w, ucast (drop_bit 8 w), ucast (drop_bit 16 w), ucast (drop_bit 24 w)] @ r) ! 2)) OR
        push_bit 24 (ucast (([ucast w, ucast (drop_bit 8 w), ucast (drop_bit 16 w), ucast (drop_bit 24 w)] @ r) ! 3)) :: u32) n = bit w n"
    by cases (auto simp: bit_simps)
qed

lemma take_prefix: "length a = k \<Longrightarrow> take k (a @ b) = a"
  by simp

lemma unat_packet_len:
  assumes "n \<le> 56"
  shows "unat (word_of_nat (3 + n) :: u16) = 3 + n"
proof -
  have "3 + n < 2 ^ LENGTH(16)" using assms by simp
  then show ?thesis by (simp only: unat_of_nat mod_less)
qed

lemma send_payload_exact:
  assumes "size8 \<le> 64" "length bytes \<ge> size8"
  shows "send_payload h size8 bytes =
           (write_result h (length (written h)) size8 = int size8,
            h\<lparr>written := written h @ [take size8 bytes]\<rparr>)"
  using assms by (simp add: send_payload_def MAX_PACKET_SIZE_def hid_write_def Let_def)

lemma send_payload_msg_eq:
  assumes "length payload \<le> 56"
  shows "\<exists>st'. send_payload_msg crc st h msgid payload =
           Some (write_result h (length (written h)) (5 + (3 + length payload))
                   = int (5 + (3 + length payload)),
                 st', h\<lparr>written := written h @ [frame crc msgid payload]\<rparr>)"
proof -
  define L :: u16 where "L = word_of_nat (3 + length payload)"
  have u: "unat L = 3 + length payload"
    unfolding L_def using assms by (rule unat_packet_len)
  show ?thesis
    unfolding send_payload_msg_def frame_def frame_region_def Let_def L_def [symmetric]
    using assms
    by (simp add: u send_payload_exact packet_bytes_def bytes_from_length_def take_Cons'
        del: of_nat_add)
qed

lemma frame_layout:
  assumes "length payload \<le> 56"
  shows "frame crc msgid payload ! 0 = 0xAA"
    and "load_le32 (drop 1 (frame crc msgid payload)) =
           crc (take (3 + length payload) (drop 5 (frame crc msgid payload)))"
    and "unat (load_le16 (drop 5 (frame crc msgid payload))) = 3 + length payload"
    and "frame crc msgid payload ! 7 = msgid"
    and "drop 8 (frame crc msgid payload) = payload"
    and "length (frame crc msgid payload) = 5 + (3 + length payload)"
proof -
  define L :: u16 where "L = word_of_nat (3 + length payload)"
  have u: "unat L = 3 + length payload"
    unfolding L_def using assms by (rule unat_packet_len)
  define R where "R = le16 L @ [msgid] @ payload"
  have f: "frame crc msgid payload = [0xAA] @ le32 (crc R) @ R"
    by (simp add: frame_def frame_region_def R_def L_def)
  have lenR: "length R = 3 + length payload" by (simp add: R_def)
  have d5: "drop 5 (frame crc msgid payload) = R" by (simp add: f)
  show "frame crc msgid payload ! 0 = 0xAA" by (simp add: f)
  show "load_le32 (drop 1 (frame crc msgid payload)) =
           crc (take (3 + length payload) (drop 5 (frame crc msgid payload)))"
    unfolding d5 using lenR by (simp add: f load_le32_le32)
  show "unat (load_le16 (drop 5 (frame crc msgid payload))) = 3 + length payload"
    unfolding d5 R_def by (simp only: load_le16_le16 u)
  show "frame crc msgid payload ! 7 = msgid"
    by (simp add: f R_def nth_append le32_def le16_def)
  show "drop 8 (frame crc msgid payload) = payload"
    by (simp add: f R_def)
  show "length (frame crc msgid payload) = 5 + (3 + length payload)"
    by (simp add: f lenR)
qed

text \<open>
  C2: for every message id and every payload of at most 56 bytes,
  \<open>send_payload_msg\<close> hands one buffer to the transport, the frame: its byte 0 is
  \<open>0xAA\<close>; its bytes 5 and 6 hold \<open>3 + len\<close>, low byte first; its bytes 1 to 4
  hold, low byte first, the checksum of the \<open>3 + len\<close> bytes that start at byte 5,
  which are the length field, the message id and the payload; it has
  \<open>5 + (3 + len)\<close> bytes. The call returns \<open>true\<close> exactly when the transport
  reports that many bytes written; as a write never accepts more bytes than it was
  given, the call fails exactly when the transport accepts fewer bytes than requested.
\<close>

theorem send_payload_msg_builds_checksummed_frame:
  assumes "length payload \<le> 56"
  shows "\<exists>ok st'.
           send_payload_msg crc st h msgid payload =
             Some (ok, st', h\<lparr>written := written h @ [frame crc msgid payload]\<rparr>)
         \<and> frame crc msgid payload ! 0 = 0xAA
         \<and> unat (load_le16 (drop 5 (frame crc msgid payload))) = 3 + length payload
         \<and> load_le32 (drop 1 (frame crc msgid payload)) =
             crc (take (3 + length payload) (drop 5 (frame crc msgid payload)))
         \<and> take (3 + length payload) (drop 5 (frame crc msgid payload)) =
             le16 (of_nat (3 + length payload)) @ [msgid] @ payload
         \<and> length (frame crc msgid payload) = 5 + (3 + length payload)
         \<and> (ok \<longleftrightarrow>
              write_result h (length (written h)) (5 + (3 + length payload))
                = int (5 + (3 + length payload)))
         \<and> (write_result h (length (written h)) (5 + (3 + length payload))
                \<le> int (5 + (3 + length payload)) \<longrightarrow>
             (\<not> ok \<longleftrightarrow>
                write_result h (length (written h)) (5 + (3 + length payload))
                  < int (5 + (3 + length payload))))"
proof -
  obtain st' where s: "send_payload_msg crc st h msgid payload =
           Some (write_result h (length (written h)) (5 + (3 + length payload))
                   = int (5 + (3 + length payload)),
                 st', h\<lparr>written := written h @ [frame crc msgid payload]\<rparr>)"
    using send_payload_msg_eq [OF assms] by blast
  have r: "take (3 + length payload) (drop 5 (frame crc msgid payload)) =
             le16 (of_nat (3 + length payload)) @ [msgid] @ payload"
    by (simp add: frame_def frame_region_def del: of_nat_add)
  show ?thesis
    using s r frame_layout [OF assms, of crc msgid] by auto
qed

lemma recv_payload_msg_Nil:
  "incoming h = [] \<Longrightarrow> recv_payload_msg st h msgid len = None"
  by (simp add: recv_payload_msg_def recv_payload_def hid_read_def Let_def)

lemma recv_payload_Cons:
  assumes "n \<le> 64" "0 < n" "incoming h = ev # rest"
  shows "recv_payload h n buf =
           Some (case ev of Report bs \<Rightarrow> n \<le> length bs | _ \<Rightarrow> False,
                 case ev of Report bs \<Rightarrow> take n bs @ drop (length (take n bs)) buf | _ \<Rightarrow> buf,
                 h\<lparr>incoming := rest, read_sizes := read_sizes h @ [n]\<rparr>) "
  using assms
  by (cases ev)
     (auto simp: recv_payload_def hid_read_def deliver_def store_def Let_def MAX_PACKET_SIZE_def)

lemma recv_payload_msg_Cons:
  assumes len: "unat len \<le> 56" and inc: "incoming h = ev # rest"
  shows "\<exists>st'. recv_payload_msg st h msgid len =
           Some (case ev of
                   Report bs \<Rightarrow>
                     if 5 + 3 + unat len \<le> length bs \<and> bs ! 7 = msgid
                     then Some (take (unat len) (drop 8 bs)) else None
                 | _ \<Rightarrow> None,
                 st', h\<lparr>incoming := rest, read_sizes := read_sizes h @ [5 + 3 + unat len]\<rparr>)"
proof -
  have m: "(5 + (3 + unat len)) mod 256 = 8 + unat len" using len by simp
  have n64: "8 + unat len \<le> 64" and n0: "0 < 8 + unat len" using len by simp_all
  note rp = recv_payload_Cons [OF n64 n0 inc]
  show ?thesis
  proof (cases ev)
    case (Report bs)
    show ?thesis
    proof (cases "8 + unat len \<le> length bs")
      case True
      have b7: "(take (8 + unat len) bs @ r) ! 7 = bs ! 7" for r
        using True by (simp add: nth_append)
      have dr: "take (unat len) (drop 8 (take (8 + unat len) bs @ r)) = take (unat len) (drop 8 bs)" for r
        using True by (simp add: drop_take)
      show ?thesis
        unfolding recv_payload_msg_def Let_def m rp
        using True len
        by (simp add: Report packet_of_bytes_def b7 dr drop_take)
    next
      case False
      show ?thesis
        unfolding recv_payload_msg_def Let_def m rp
        using False len
        by (simp add: Report)
    qed
  next
    case NoData
    show ?thesis
      unfolding recv_payload_msg_def Let_def m rp
      by (simp add: NoData)
  next
    case HidError
    show ?thesis
      unfolding recv_payload_msg_def Let_def m rp
      by (simp add: HidError)
  qed
qed

text \<open>
  C5: \<open>recv_payload_msg\<close> with an expected length of at most 56 makes one read of
  exactly \<open>5 + 3 + len\<close> bytes, which takes one event from the transport, and
  nothing more: what follows in the transport is left as it was, so no
  resynchronisation is attempted. The call succeeds exactly when the event is a report
  of at least that many bytes whose message id (byte 7) is the expected one, and then
  delivers the \<open>len\<close> bytes after the message id; in every other case, a report with
  another message id among them, it reports failure and delivers nothing. When the
  transport has nothing to deliver, the blocking read does not return.
\<close>

theorem recv_payload_msg_one_read_no_resync:
  assumes "unat len \<le> 56"
  shows "case incoming h of
           [] \<Rightarrow> recv_payload_msg st h msgid len = None
         | ev # rest \<Rightarrow>
             (\<exists>res st'.
                recv_payload_msg st h msgid len =
                  Some (res, st',
                        h\<lparr>incoming := rest, read_sizes := read_sizes h @ [5 + 3 + unat len]\<rparr>)
              \<and> (res \<noteq> None \<longleftrightarrow>
                   (\<exists>bs. ev = Report bs \<and> 5 + 3 + unat len \<le> length bs \<and> bs ! 7 = msgid))
              \<and> (\<forall>bs. ev = Report bs \<and> 5 + 3 + unat len \<le> length bs \<and> bs ! 7 = msgid \<longrightarrow>
                   res = Some (take (unat len) (drop 8 bs))))"
proof (cases "incoming h")
  case Nil
  then show ?thesis by (simp add: recv_payload_msg_Nil)
next
  case (Cons ev rest)
  obtain st' where "recv_payload_msg st h msgid len =
           Some (case ev of
                   Report bs \<Rightarrow>
                     if 5 + 3 + unat len \<le> length bs \<and> bs ! 7 = msgid
                     then Some (take (unat len) (drop 8 bs)) else None
                 | _ \<Rightarrow> None,
                 st', h\<lparr>incoming := rest, read_sizes := read_sizes h @ [5 + 3 + unat len]\<rparr>)"
    using recv_payload_msg_Cons [OF assms Cons] by blast
  then show ?thesis
    using Cons by (cases ev) auto
qed

text \<open>
  An instance of the theorem for C2: a one-byte payload, and a transport that accepts
  one byte less than it is given. The call fails.
\<close>

theorem send_payload_msg_builds_checksummed_frame_witness:
  "length [0x01 :: u8] \<le> 56
   \<and> write_result (transport [] accept_one_less) (length (written (transport [] accept_one_less)))
         (5 + (3 + length [0x01 :: u8])) \<le> int (5 + (3 + length [0x01 :: u8]))
   \<and> (\<exists>st'. send_payload_msg length_crc statics_initial (transport [] accept_one_less) 0x19 [0x01]
               = Some (False, st',
                       (transport [] accept_one_less)
                         \<lparr>written := [[0xAA, 4, 0, 0, 0, 4, 0, 0x19, 0x01]]\<rparr>))"
proof -
  have f: "frame length_crc 0x19 [0x01] = [0xAA, 4, 0, 0, 0, 4, 0, 0x19, 0x01]"
    by (simp add: frame_def frame_region_def length_crc_def le32_def le16_def)
  show ?thesis
    using send_payload_msg_builds_checksummed_frame
            [where payload = "[0x01]" and crc = length_crc and st = statics_initial
               and h = "transport [] accept_one_less" and msgid = "0x19"]
    by (auto simp: f transport_def accept_one_less_def)
qed

text \<open>
  An instance of the theorem for C5: four bytes are expected under the message id
  \<open>0x1A\<close>, and the transport delivers a report with the message id 0 and then one
  with the message id \<open>0x1A\<close>. The call fails and leaves the second report.
\<close>

theorem recv_payload_msg_one_read_no_resync_witness:
  "unat (4 :: u8) \<le> 56
   \<and> (\<exists>st'. recv_payload_msg statics_initial
                (transport [Report (replicate 12 0), Report (replicate 12 0x1A)] accept_all) 0x1A 4
               = Some (None, st',
                       (transport [Report (replicate 12 0), Report (replicate 12 0x1A)] accept_all)
                         \<lparr>incoming := [Report (replicate 12 0x1A)], read_sizes := [12]\<rparr>))"
proof -
  have n: "(replicate 12 (0::u8)) ! 7 \<noteq> 0x1A" by simp
  show ?thesis
    using recv_payload_msg_one_read_no_resync
            [where len = 4 and st = statics_initial and msgid = "0x1A"
               and h = "transport [Report (replicate 12 0), Report (replicate 12 0x1A)] accept_all"]
            n
    by (auto simp: transport_def)
qed

subsection \<open>Reading a sample\<close>

lemma hid_read_timeout_full_report:
  assumes "incoming h = Report bs # rest" "64 \<le> length bs"
  shows "hid_read_timeout h (replicate 64 0) 64 timeout =
           (64, take 64 bs, h\<lparr>incoming := rest, read_sizes := read_sizes h @ [64]\<rparr>)"
  using assms
  by (simp add: hid_read_timeout_def deliver_def store_def)

lemma device_imu_read_device_accepted:
  assumes "handle device = Some h"
    and "sizeof_device_imu_packet_type P = 64"
    and "incoming h = Report bs # rest" and "64 \<le> length bs"
    and "signature (as_packet P (take 64 bs)) ! 0 = 0x01"
    and "signature (as_packet P (take 64 bs)) ! 1 = 0x02"
  shows "device_imu_read_device P F st device timeout =
           device_imu_read_sample F st
             (device\<lparr>handle := Some (h\<lparr>incoming := rest, read_sizes := read_sizes h @ [64]\<rparr>)\<rparr>)
             (as_packet P (take 64 bs))"
  using assms
  by (simp add: device_imu_read_device_def hid_read_timeout_full_report Let_def
      MAX_PACKET_SIZE_def)

lemma device_imu_read_sample_unconditional_eq:
  "device_imu_read_sample F st device packet =
   device_imu_read_sample_unconditional F st device packet"
  unfolding device_imu_read_sample_def device_imu_read_sample_unconditional_def
  by (simp only: if_cancel)


lemma apply_calibration_outputs:
  "apply_calibration F st device g a m = (st', device', g', a', m') \<Longrightarrow>
     ahrs device' = ahrs device \<and> offset device' = offset device
     \<and> callback device' = callback device \<and> handle device' = handle device
     \<and> static_id device' = static_id device
     \<and> g' = post_biased_coordinate_system F
            (FusionCalibrationInertial F (pre_biased_coordinate_system F g)
              (case calibration device of
                 Some c \<Rightarrow> gyroscopeMisalignment c | None \<Rightarrow> FUSION_IDENTITY_MATRIX)
              (case calibration device of
                 Some c \<Rightarrow> gyroscopeSensitivity c | None \<Rightarrow> FUSION_VECTOR_ONES)
              (FusionVectorMultiplyScalar F
                 (case calibration device of
                    Some c \<Rightarrow> gyroscopeOffset c | None \<Rightarrow> FUSION_VECTOR_ZERO)
                 (FusionRadiansToDegrees F (Fin 1))))
     \<and> a' = post_biased_coordinate_system F
            (FusionCalibrationInertial F (pre_biased_coordinate_system F a)
              (case calibration device of
                 Some c \<Rightarrow> accelerometerMisalignment c | None \<Rightarrow> FUSION_IDENTITY_MATRIX)
              (case calibration device of
                 Some c \<Rightarrow> accelerometerSensitivity c | None \<Rightarrow> FUSION_VECTOR_ONES)
              (FusionVectorMultiplyScalar F
                 (case calibration device of
                    Some c \<Rightarrow> accelerometerOffset c | None \<Rightarrow> FUSION_VECTOR_ZERO)
                 (flt_div (Fin 1) GRAVITY_G)))"
  by (auto simp: apply_calibration_def Let_def split: prod.splits option.splits)


lemma device_imu_read_sample_result:
  assumes a: "ahrs device = Some a"
  shows "\<exists>st' d.
           device_imu_read_sample F st device packet =
             (if isnan (element_x (FusionAhrsGetQuaternion F
                   (FusionAhrsUpdateNoMagnetometer F a (tracked_gyroscope F device packet)
                      (calibrated_accelerometer F device packet) (delta_time device packet))))
               \<or> isnan (element_y (FusionAhrsGetQuaternion F
                   (FusionAhrsUpdateNoMagnetometer F a (tracked_gyroscope F device packet)
                      (calibrated_accelerometer F device packet) (delta_time device packet))))
               \<or> isnan (element_z (FusionAhrsGetQuaternion F
                   (FusionAhrsUpdateNoMagnetometer F a (tracked_gyroscope F device packet)
                      (calibrated_accelerometer F device packet) (delta_time device packet))))
               \<or> isnan (element_w (FusionAhrsGetQuaternion F
                   (FusionAhrsUpdateNoMagnetometer F a (tracked_gyroscope F device packet)
                      (calibrated_accelerometer F device packet) (delta_time device packet))))
              then (DEVICE_IMU_ERROR_INVALID_VALUE, st', d, [])
              else (DEVICE_IMU_ERROR_NO_ERROR, st', d,
                    device_imu_callback device (timestamp packet) DEVICE_IMU_EVENT_UPDATE))
         \<and> ahrs d = Some (FusionAhrsUpdateNoMagnetometer F a (tracked_gyroscope F device packet)
                      (calibrated_accelerometer F device packet) (delta_time device packet))
         \<and> handle d = handle device \<and> callback d = callback device"
proof -
  define dev0 where "dev0 = device\<lparr>last_timestamp := timestamp packet,
     temperature := flt_add (flt_div (int_to_float (sint (pack16bit_signed (packet_temperature packet))))
                       (Fin (13248 / 100))) (Fin 25)\<rparr>"
  obtain gy ac mg where r: "readIMU_from_packet packet = (gy, ac, mg)"
    by (cases "readIMU_from_packet packet") auto
  obtain st1 d1 g1 a1 m1 where ac: "apply_calibration F st dev0 gy ac mg = (st1, d1, g1, a1, m1)"
    by (cases "apply_calibration F st dev0 gy ac mg") auto
  note o = apply_calibration_outputs [OF ac]
  have cal0: "calibration dev0 = calibration device" "offset dev0 = offset device"
    "ahrs dev0 = ahrs device" "callback dev0 = callback device" "handle dev0 = handle device"
    by (simp_all add: dev0_def)
  have g1: "g1 = calibrated_gyroscope F device packet"
    using o by (simp add: calibrated_gyroscope_def r cal0)
  have a1: "a1 = calibrated_accelerometer F device packet"
    using o by (simp add: calibrated_accelerometer_def r cal0)
  have d1: "ahrs d1 = Some a" "offset d1 = offset device" "callback d1 = callback device"
    "handle d1 = handle device"
    using o a by (simp_all add: cal0)
  have cb: "device_imu_callback (d\<lparr>ahrs := x\<rparr>) t e = device_imu_callback device t e"
    if "callback d = callback device" for d :: "('a, 'b) device_imu" and x t e
    using that by (simp add: device_imu_callback_def)
  show ?thesis
  proof (cases "offset device")
    case None
    then have tg: "tracked_gyroscope F device packet = g1"
      by (simp add: tracked_gyroscope_def g1)
    show ?thesis
      apply (rule exI [of _ st1])
      apply (rule exI [of _ "d1\<lparr>ahrs := Some (FusionAhrsUpdateNoMagnetometer F a g1 a1
                                 (delta_time device packet))\<rparr>"])
      unfolding device_imu_read_sample_def Let_def dev0_def [symmetric] r prod.case ac
      using None d1
      by (simp add: tg a1 [symmetric] delta_time_def device_imu_get_orientation_def Let_def
          device_imu_callback_def)
  next
    case (Some fo)
    obtain g2 fo2 where u: "FusionOffsetUpdate F fo g1 = (g2, fo2)"
      by (cases "FusionOffsetUpdate F fo g1") auto
    have tg: "tracked_gyroscope F device packet = g2"
      using u by (simp add: tracked_gyroscope_def g1 [symmetric] Some)
    show ?thesis
      apply (rule exI [of _ st1])
      apply (rule exI [of _ "d1\<lparr>offset := Some fo2,
                               ahrs := Some (FusionAhrsUpdateNoMagnetometer F a g2 a1
                                 (delta_time device packet))\<rparr>"])
      unfolding device_imu_read_sample_def Let_def dev0_def [symmetric] r prod.case ac
      using Some d1 u
      by (simp add: tg a1 [symmetric] delta_time_def device_imu_get_orientation_def Let_def
          device_imu_callback_def)
  qed
qed


lemma calibrated_ignore_magnetometer:
  "calibrated_gyroscope F device (with_magnetometer packet mm md mx my mz)
     = calibrated_gyroscope F device packet"
  "calibrated_accelerometer F device (with_magnetometer packet mm md mx my mz)
     = calibrated_accelerometer F device packet"
  "delta_time device (with_magnetometer packet mm md mx my mz) = delta_time device packet"
  by (simp_all add: calibrated_gyroscope_def calibrated_accelerometer_def
      delta_time_def with_magnetometer_def readIMU_from_packet_def Let_def)

lemma fusion_inputs_ignore_magnetometer:
  "tracked_gyroscope F device (with_magnetometer packet mm md mx my mz)
     = tracked_gyroscope F device packet
   \<and> calibrated_accelerometer F device (with_magnetometer packet mm md mx my mz)
     = calibrated_accelerometer F device packet
   \<and> delta_time device (with_magnetometer packet mm md mx my mz) = delta_time device packet"
  by (simp add: tracked_gyroscope_def calibrated_ignore_magnetometer split: option.splits)

lemma calibrated_handle:
  "calibrated_gyroscope F (device\<lparr>handle := v\<rparr>) packet = calibrated_gyroscope F device packet"
  "calibrated_accelerometer F (device\<lparr>handle := v\<rparr>) packet
     = calibrated_accelerometer F device packet"
  "delta_time (device\<lparr>handle := v\<rparr>) packet = delta_time device packet"
  by (simp_all add: calibrated_gyroscope_def calibrated_accelerometer_def delta_time_def)

lemma fusion_inputs_handle:
  "tracked_gyroscope F (device\<lparr>handle := v\<rparr>) packet = tracked_gyroscope F device packet"
  by (simp add: tracked_gyroscope_def calibrated_handle split: option.splits)

lemmas example_eval =
  device_imu_read_def device_imu_read_device_def
  device_imu_read_sample_def apply_calibration_def readIMU_from_packet_def
  device_imu_get_orientation_def device_imu_callback_def
  pre_biased_coordinate_system_def post_biased_coordinate_system_def
  example_externals_def mirror_fusion_def streaming_device_def zero_device_def
  example_calibration_def example_layout_def zero_divisor_report_def load_le64_def
  transport_def accept_all_def statics_initial_def hid_read_timeout_def deliver_def store_def
  MAX_PACKET_SIZE_def pack16bit_signed_def pack24bit_signed_def pack32bit_signed_def
  pack16bit_signed_swap_def pack32bit_signed_swap_def pack16bit_signed_bizarre_def
  int_to_float_def isnan_def is_finite_def GRAVITY_G_def FUSION_IDENTITY_QUATERNION_def
  FUSION_IDENTITY_MATRIX_def FUSION_VECTOR_ONES_def FUSION_VECTOR_ZERO_def

lemma example_hypotheses:
  "handle (streaming_device (transport [Report r] accept_all))
     = Some (transport [Report r] accept_all)"
  "sizeof_device_imu_packet_type (example_externals h) = 64"
  "incoming (transport [Report r] accept_all) = Report r # []"
  "ahrs (streaming_device g) = Some FUSION_IDENTITY_QUATERNION"
  "callback (streaming_device g)"
  by (simp_all add: streaming_device_def transport_def example_externals_def)

lemma example_signatures:
  "64 \<le> length nan_report"
  "signature (as_packet (example_externals h) (take 64 nan_report)) ! 0 = 0x01"
  "signature (as_packet (example_externals h) (take 64 nan_report)) ! 1 = 0x02"
  "64 \<le> length zero_divisor_report"
  "signature (as_packet (example_externals h) (take 64 zero_divisor_report)) ! 0 = 0x01"
  "signature (as_packet (example_externals h) (take 64 zero_divisor_report)) ! 1 = 0x02"
  by (simp_all add: nan_report_def zero_divisor_report_def example_externals_def
      example_layout_def)

text \<open>
  C4: for every accepted data frame (a report of at least 64 bytes with the signature
  \<open>(0x01, 0x02)\<close>, read by a session that has a fusion engine), \<open>device_imu_read\<close>
  is the function in which the magnetometer-free update is invoked without a test;
  the engine state it leaves is that update applied to the tracked calibrated
  gyroscope, the calibrated accelerometer and the time difference; and none of the
  three changes when the magnetometer fields of the frame are replaced by any others.
\<close>

theorem device_imu_read_fusion_update_is_magnetometer_free:
  assumes "handle device = Some h"
    and "sizeof_device_imu_packet_type P = 64"
    and "incoming h = Report bs # rest" and "64 \<le> length bs"
    and "signature (as_packet P (take 64 bs)) ! 0 = 0x01"
    and "signature (as_packet P (take 64 bs)) ! 1 = 0x02"
    and "ahrs device = Some a"
  shows "device_imu_read P F st (Some device) timeout =
           (case device_imu_read_sample_unconditional F st
                   (device\<lparr>handle :=
                      Some (h\<lparr>incoming := rest, read_sizes := read_sizes h @ [64]\<rparr>)\<rparr>)
                   (as_packet P (take 64 bs)) of
              (e, st', d, evs) \<Rightarrow> (e, st', Some d, evs))
         \<and> (\<exists>e st' d evs.
               device_imu_read P F st (Some device) timeout = (e, st', Some d, evs)
               \<and> ahrs d =
                   Some (FusionAhrsUpdateNoMagnetometer F a
                           (tracked_gyroscope F device (as_packet P (take 64 bs)))
                           (calibrated_accelerometer F device (as_packet P (take 64 bs)))
                           (delta_time device (as_packet P (take 64 bs)))))
         \<and> (\<forall>mm md mx my mz.
               tracked_gyroscope F device
                   (with_magnetometer (as_packet P (take 64 bs)) mm md mx my mz)
                 = tracked_gyroscope F device (as_packet P (take 64 bs))
               \<and> calibrated_accelerometer F device
                   (with_magnetometer (as_packet P (take 64 bs)) mm md mx my mz)
                 = calibrated_accelerometer F device (as_packet P (take 64 bs))
               \<and> delta_time device
                   (with_magnetometer (as_packet P (take 64 bs)) mm md mx my mz)
                 = delta_time device (as_packet P (take 64 bs)))"
proof -
  define dev where
    "dev = device\<lparr>handle := Some (h\<lparr>incoming := rest, read_sizes := read_sizes h @ [64]\<rparr>)\<rparr>"
  define pkt where "pkt = as_packet P (take 64 bs)"
  have rd: "device_imu_read_device P F st device timeout = device_imu_read_sample F st dev pkt"
    unfolding dev_def pkt_def using assms(1-6) by (rule device_imu_read_device_accepted)
  have a': "ahrs dev = Some a" using assms(7) by (simp add: dev_def)
  obtain st' d where
    res: "device_imu_read_sample F st dev pkt =
            (if isnan (element_x (FusionAhrsGetQuaternion F
                   (FusionAhrsUpdateNoMagnetometer F a (tracked_gyroscope F dev pkt)
                      (calibrated_accelerometer F dev pkt) (delta_time dev pkt))))
               \<or> isnan (element_y (FusionAhrsGetQuaternion F
                   (FusionAhrsUpdateNoMagnetometer F a (tracked_gyroscope F dev pkt)
                      (calibrated_accelerometer F dev pkt) (delta_time dev pkt))))
               \<or> isnan (element_z (FusionAhrsGetQuaternion F
                   (FusionAhrsUpdateNoMagnetometer F a (tracked_gyroscope F dev pkt)
                      (calibrated_accelerometer F dev pkt) (delta_time dev pkt))))
               \<or> isnan (element_w (FusionAhrsGetQuaternion F
                   (FusionAhrsUpdateNoMagnetometer F a (tracked_gyroscope F dev pkt)
                      (calibrated_accelerometer F dev pkt) (delta_time dev pkt))))
              then (DEVICE_IMU_ERROR_INVALID_VALUE, st', d, [])
              else (DEVICE_IMU_ERROR_NO_ERROR, st', d,
                    device_imu_callback dev (timestamp pkt) DEVICE_IMU_EVENT_UPDATE))"
    and ad: "ahrs d = Some (FusionAhrsUpdateNoMagnetometer F a (tracked_gyroscope F dev pkt)
                      (calibrated_accelerometer F dev pkt) (delta_time dev pkt))"
    using device_imu_read_sample_result [OF a', of F st pkt] by blast
  have inputs: "tracked_gyroscope F dev pkt = tracked_gyroscope F device pkt"
    "calibrated_accelerometer F dev pkt = calibrated_accelerometer F device pkt"
    "delta_time dev pkt = delta_time device pkt"
    by (simp_all add: dev_def fusion_inputs_handle calibrated_handle)
  have 1: "device_imu_read P F st (Some device) timeout =
           (case device_imu_read_sample_unconditional F st dev pkt of
              (e, st', d, evs) \<Rightarrow> (e, st', Some d, evs))"
    by (simp add: device_imu_read_def rd device_imu_read_sample_unconditional_eq)
  have 2: "\<exists>e st' d evs.
               device_imu_read P F st (Some device) timeout = (e, st', Some d, evs)
               \<and> ahrs d = Some (FusionAhrsUpdateNoMagnetometer F a
                           (tracked_gyroscope F device pkt)
                           (calibrated_accelerometer F device pkt)
                           (delta_time device pkt))"
    using ad by (auto simp: device_imu_read_def rd res inputs)
  show ?thesis
    using 1 2 fusion_inputs_ignore_magnetometer [of F device pkt]
    unfolding dev_def pkt_def by blast
qed


text \<open>An instance of the theorem for C4, at the frame \<open>zero_divisor_report\<close>.\<close>

theorem device_imu_read_fusion_update_is_magnetometer_free_witness:
  "handle (streaming_device (transport [Report zero_divisor_report] accept_all))
     = Some (transport [Report zero_divisor_report] accept_all)
   \<and> sizeof_device_imu_packet_type
         (example_externals (transport [Report zero_divisor_report] accept_all)) = 64
   \<and> incoming (transport [Report zero_divisor_report] accept_all)
       = Report zero_divisor_report # []
   \<and> 64 \<le> length zero_divisor_report
   \<and> signature (as_packet (example_externals (transport [Report zero_divisor_report] accept_all))
                   (take 64 zero_divisor_report)) ! 0 = 0x01
   \<and> signature (as_packet (example_externals (transport [Report zero_divisor_report] accept_all))
                   (take 64 zero_divisor_report)) ! 1 = 0x02
   \<and> ahrs (streaming_device (transport [Report zero_divisor_report] accept_all))
       = Some FUSION_IDENTITY_QUATERNION
   \<and> device_imu_read (example_externals (transport [Report zero_divisor_report] accept_all))
         mirror_fusion statics_initial
         (Some (streaming_device (transport [Report zero_divisor_report] accept_all))) 0
       = (case device_imu_read_sample_unconditional mirror_fusion statics_initial
                 ((streaming_device (transport [Report zero_divisor_report] accept_all))
                    \<lparr>handle :=
                       Some ((transport [Report zero_divisor_report] accept_all)
                               \<lparr>incoming := [],
                                read_sizes :=
                                  read_sizes (transport [Report zero_divisor_report] accept_all)
                                    @ [64]\<rparr>)\<rparr>)
                 (as_packet (example_externals (transport [Report zero_divisor_report] accept_all))
                    (take 64 zero_divisor_report)) of
            (e, st', d, evs) \<Rightarrow> (e, st', Some d, evs))"
  using device_imu_read_fusion_update_is_magnetometer_free
          [OF example_hypotheses(1) example_hypotheses(2) example_hypotheses(3)
              example_signatures(4) example_signatures(5) example_signatures(6)
              example_hypotheses(4),
           where F = mirror_fusion and st = statics_initial and timeout = 0]
        example_hypotheses example_signatures
  by blast





subsection \<open>Active calibration\<close>

lemma calibrate_loop_zero: "calibrate_loop P F st h loc 0 = Some (None, st, h, loc)"
  by (subst calibrate_loop.simps) simp

lemma deliver_cases:
  "deliver ev n buf = (t, b) \<Longrightarrow> t = - 1 \<or> 0 \<le> t"
  by (auto simp: deliver_def split: hid_event.splits)

lemma calibrate_loop_consumes:
  "calibrate_loop P F st h loc n = Some (None, st', h', loc') \<Longrightarrow>
     \<exists>consumed. incoming h = consumed @ incoming h'
                \<and> length (filter (is_data_frame P) consumed) = n"
proof (induction P F st h loc n arbitrary: st' h' loc' rule: calibrate_loop.induct)
  case (1 P F st h loc iterations)
  show ?case
  proof (cases "iterations > 0")
    case False
    then have "calibrate_loop P F st h loc iterations = Some (None, st, h, loc)"
      by (simp add: calibrate_loop_zero)
    with "1.prems" have "h' = h" by simp
    with False show ?thesis by (intro exI [of _ "[]"]) simp
  next
    case pos: True
    show ?thesis
    proof (cases "incoming h")
      case Nil
      with pos "1.prems" show ?thesis
        by (subst (asm) calibrate_loop.simps) (simp add: hid_read_def)
    next
      case (Cons ev rest)
      obtain t b where d: "deliver ev MAX_PACKET_SIZE
                             (replicate (sizeof_device_imu_packet_type P) 0) = (t, b)"
        by (cases "deliver ev MAX_PACKET_SIZE (replicate (sizeof_device_imu_packet_type P) 0)")
      have d64: "deliver ev 64 (replicate (sizeof_device_imu_packet_type P) 0) = (t, b)"
        using d by (simp add: MAX_PACKET_SIZE_def)
      define h1 where "h1 = h\<lparr>incoming := rest, read_sizes := read_sizes h @ [MAX_PACKET_SIZE]\<rparr>"
      have rd: "hid_read h (replicate (sizeof_device_imu_packet_type P) 0) MAX_PACKET_SIZE
                  = Some (t, b, h1)"
        by (simp add: hid_read_def Cons d h1_def)
      have inc1: "incoming h1 = rest" by (simp add: h1_def)
      note step = "1.prems" [unfolded calibrate_loop.simps [of P F st h loc iterations]]
      consider (err) "t = - 1" | (zero) "t = 0"
        | (short) "t \<noteq> - 1" "t \<noteq> 0" "int MAX_PACKET_SIZE \<noteq> t"
        | (skip) "t = int MAX_PACKET_SIZE"
            "signature (as_packet P b) ! 0 \<noteq> 0x01 \<or> signature (as_packet P b) ! 1 \<noteq> 0x02"
        | (data) "t = int MAX_PACKET_SIZE"
            "signature (as_packet P b) ! 0 = 0x01" "signature (as_packet P b) ! 1 = 0x02"
        by (auto simp: MAX_PACKET_SIZE_def)
      then show ?thesis
      proof cases
        case err
        with step pos rd show ?thesis by simp
      next
        case zero
        with step pos rd have "calibrate_loop P F st h1 loc iterations = Some (None, st', h', loc')"
          by simp
        from "1.IH"(1) [OF pos rd refl refl] zero this
        obtain consumed where c: "incoming h1 = consumed @ incoming h'"
          "length (filter (is_data_frame P) consumed) = iterations"
          using zero by auto
        have nd: "\<not> is_data_frame P ev"
          using zero by (simp add: is_data_frame_def d64 MAX_PACKET_SIZE_def)
        show ?thesis
          using c nd by (intro exI [of _ "ev # consumed"]) (simp add: Cons inc1)
      next
        case short
        with step pos rd show ?thesis by simp
      next
        case skip
        have t1: "t \<noteq> - 1" "t \<noteq> 0" using skip(1) by (simp_all add: MAX_PACKET_SIZE_def)
        with step pos rd skip
        have "calibrate_loop P F st h1 loc iterations = Some (None, st', h', loc')"
          by auto
        from "1.IH"(2) [OF pos rd refl refl] t1 skip this
        obtain consumed where c: "incoming h1 = consumed @ incoming h'"
          "length (filter (is_data_frame P) consumed) = iterations"
          using skip by auto
        have nd: "\<not> is_data_frame P ev"
          using skip by (auto simp: is_data_frame_def d64 MAX_PACKET_SIZE_def)
        show ?thesis
          using c nd by (intro exI [of _ "ev # consumed"]) (simp add: Cons inc1)
      next
        case data
        have t1: "t \<noteq> - 1" "t \<noteq> 0" using data(1) by (simp_all add: MAX_PACKET_SIZE_def)
        obtain gy ac mg where r: "readIMU_from_packet (as_packet P b) = (gy, ac, mg)"
          by (cases "readIMU_from_packet (as_packet P b)") auto
        have "\<exists>consumed. incoming h1 = consumed @ incoming h'
                \<and> length (filter (is_data_frame P) consumed) = iterations - 1"
          apply (rule "1.IH"(3) [OF pos rd refl refl t1(1) t1(2) _ _ refl r [symmetric] refl
                   refl refl refl refl refl refl refl refl,
                   where st' = st' and h' = h' and loc' = loc'])
          using data step pos rd r by (simp_all add: Let_def MAX_PACKET_SIZE_def)
        then obtain consumed where c: "incoming h1 = consumed @ incoming h'"
          "length (filter (is_data_frame P) consumed) = iterations - 1"
          by auto
        have yd: "is_data_frame P ev"
          using data by (simp add: is_data_frame_def d64 MAX_PACKET_SIZE_def)
        show ?thesis
          using c yd pos by (intro exI [of _ "ev # consumed"]) (simp add: Cons inc1)
      qed
    qed
  qed
qed


lemma device_imu_calibrate_error_keeps_calibration:
  assumes "device_imu_calibrate P F ind st device_ptr iterations gyro accel magnet
             = Some (e, st', dp')"
    and "e \<noteq> DEVICE_IMU_ERROR_NO_ERROR"
  shows "map_option calibration dp' = map_option calibration device_ptr"
  using assms
  by (auto simp: device_imu_calibrate_def Let_def
      split: option.splits if_splits prod.splits)

lemma device_imu_calibrate_zero_iterations:
  "\<exists>e. device_imu_calibrate P F ind st device_ptr 0 gyro accel magnet = Some (e, st, device_ptr)
       \<and> (e = DEVICE_IMU_ERROR_NO_ERROR \<longleftrightarrow>
            (\<exists>device. device_ptr = Some device \<and> handle device \<noteq> None
               \<and> calibration device \<noteq> None
               \<and> MAX_PACKET_SIZE = sizeof_device_imu_packet_type P))"
proof (cases device_ptr)
  case None
  then show ?thesis by (simp add: device_imu_calibrate_def)
next
  case (Some device)
  show ?thesis
  proof (cases "handle device")
    case None
    with Some show ?thesis by (simp add: device_imu_calibrate_def)
  next
    case h: (Some h)
    show ?thesis
    proof (cases "calibration device")
      case None
      with Some h show ?thesis by (simp add: device_imu_calibrate_def)
    next
      case c: (Some c)
      have same: "device\<lparr>handle := Some h, calibration := Some c\<rparr> = device"
        using h c by simp
      show ?thesis
        using Some h c same
        by (simp add: device_imu_calibrate_def calibrate_loop_zero flt_greater_def Let_def)
    qed
  qed
qed

lemma device_imu_calibrate_change_needs_all_frames:
  assumes "device_imu_calibrate P F ind st device_ptr iterations gyro accel magnet
             = Some (e, st', dp')"
    and "map_option calibration dp' \<noteq> map_option calibration device_ptr"
  shows "e = DEVICE_IMU_ERROR_NO_ERROR
         \<and> (\<exists>device h d' h' consumed.
               device_ptr = Some device \<and> handle device = Some h
               \<and> dp' = Some d' \<and> handle d' = Some h'
               \<and> incoming h = consumed @ incoming h'
               \<and> length (filter (is_data_frame P) consumed) = unat iterations)"
proof -
  have e: "e = DEVICE_IMU_ERROR_NO_ERROR"
    using assms device_imu_calibrate_error_keeps_calibration by blast
  from assms(2) obtain device where d: "device_ptr = Some device"
    using assms(1) by (cases device_ptr) (auto simp: device_imu_calibrate_def)
  from assms obtain h where h: "handle device = Some h"
    by (cases "handle device") (auto simp: device_imu_calibrate_def d)
  from assms obtain c where c: "calibration device = Some c"
    by (cases "calibration device") (auto simp: device_imu_calibrate_def d h)
  from assms obtain stl hl locl where
    l: "calibrate_loop P F st h (ind\<lparr>initialized := False\<rparr>) (unat iterations)
          = Some (None, stl, hl, locl)"
    and hd: "map_option handle dp' = Some (Some hl)"
    by (auto simp: device_imu_calibrate_def d h c Let_def
        split: option.splits if_splits prod.splits)
  from hd obtain d' where d': "dp' = Some d'" "handle d' = Some hl" by (cases dp') auto
  from calibrate_loop_consumes [OF l] obtain consumed where
    "incoming h = consumed @ incoming hl"
    "length (filter (is_data_frame P) consumed) = unat iterations" by blast
  with e d h d' show ?thesis by blast
qed

text \<open>
  C10: \<open>device_imu_calibrate\<close> changes the calibration record only after all requested
  iterations of valid data frames have been consumed. Whenever it returns an error (no
  device, no handle, no calibration allocated, wrong packet size, unplugged, unexpected
  transfer size), the record is what it was. With \<open>iterations = 0\<close> the call returns
  at once with the statics and the device unchanged, and its result is success exactly
  when the four guards pass. Whenever the record has changed, the call has returned
  success and the events taken from the transport contain exactly \<open>iterations\<close> data
  frames.
\<close>

theorem device_imu_calibrate_touches_calibration_only_after_all_iterations:
  "(\<forall>e st' dp'.
      device_imu_calibrate P F ind st device_ptr iterations gyro accel magnet = Some (e, st', dp')
      \<and> e \<noteq> DEVICE_IMU_ERROR_NO_ERROR
      \<longrightarrow> map_option calibration dp' = map_option calibration device_ptr)
   \<and> (\<exists>e. device_imu_calibrate P F ind st device_ptr 0 gyro accel magnet
              = Some (e, st, device_ptr)
          \<and> (e = DEVICE_IMU_ERROR_NO_ERROR \<longleftrightarrow>
               (\<exists>device. device_ptr = Some device \<and> handle device \<noteq> None
                  \<and> calibration device \<noteq> None
                  \<and> MAX_PACKET_SIZE = sizeof_device_imu_packet_type P)))
   \<and> (\<forall>e st' dp'.
        device_imu_calibrate P F ind st device_ptr iterations gyro accel magnet = Some (e, st', dp')
        \<and> map_option calibration dp' \<noteq> map_option calibration device_ptr
        \<longrightarrow> e = DEVICE_IMU_ERROR_NO_ERROR
            \<and> (\<exists>device h d' h' consumed.
                  device_ptr = Some device \<and> handle device = Some h
                  \<and> dp' = Some d' \<and> handle d' = Some h'
                  \<and> incoming h = consumed @ incoming h'
                  \<and> length (filter (is_data_frame P) consumed) = unat iterations))"
  using device_imu_calibrate_error_keeps_calibration [of P F ind st device_ptr iterations gyro accel magnet]
        device_imu_calibrate_zero_iterations [of P F ind st device_ptr gyro accel magnet]
        device_imu_calibrate_change_needs_all_frames [of P F ind st device_ptr iterations gyro accel magnet]
  by blast


text \<open>
  Instances of the theorem for C10: a transport that reports an error on the first
  read (the call returns the unplugged error, the record is unchanged), zero
  iterations (success, nothing changed), and one data frame with the magnetometer
  selected (success, the record changed, one data frame consumed).
\<close>

lemmas calibrate_eval =
  device_imu_calibrate_def calibrate_loop.simps hid_read_def blank_locals_def

lemma unplugged_run:
  "device_imu_calibrate (example_externals (transport [HidError] accept_all)) mirror_fusion
     blank_locals statics_initial (Some (streaming_device (transport [HidError] accept_all)))
     1 True True True
   = Some (DEVICE_IMU_ERROR_UNPLUGGED, statics_initial,
           Some ((streaming_device (transport [HidError] accept_all))
                   \<lparr>handle := Some ((transport [HidError] accept_all)
                                       \<lparr>incoming := [], read_sizes := [64]\<rparr>)\<rparr>))"
  by (simp add: calibrate_eval example_eval Let_def)

lemma calibrated_run:
  "\<exists>st' d'.
     device_imu_calibrate (example_externals (transport [Report zero_divisor_report] accept_all))
       mirror_fusion blank_locals statics_initial
       (Some (streaming_device (transport [Report zero_divisor_report] accept_all)))
       1 False False True
     = Some (DEVICE_IMU_ERROR_NO_ERROR, st', Some d')
     \<and> map_option softIronMatrix (calibration d') \<noteq> Some FUSION_IDENTITY_MATRIX"
  by (simp add: calibrate_eval example_eval iron_eval Let_def nth_append)


theorem device_imu_calibrate_touches_calibration_only_after_all_iterations_witness:
  "(\<exists>st' dp'.
      device_imu_calibrate (example_externals (transport [HidError] accept_all)) mirror_fusion
        blank_locals statics_initial (Some (streaming_device (transport [HidError] accept_all)))
        1 True True True
      = Some (DEVICE_IMU_ERROR_UNPLUGGED, st', dp')
      \<and> DEVICE_IMU_ERROR_UNPLUGGED \<noteq> DEVICE_IMU_ERROR_NO_ERROR
      \<and> map_option calibration dp' = Some (Some example_calibration))
   \<and> device_imu_calibrate (example_externals (transport [HidError] accept_all)) mirror_fusion
        blank_locals statics_initial (Some (streaming_device (transport [HidError] accept_all)))
        0 True True True
      = Some (DEVICE_IMU_ERROR_NO_ERROR, statics_initial,
              Some (streaming_device (transport [HidError] accept_all)))
   \<and> (\<exists>st' d' h' consumed.
        device_imu_calibrate (example_externals (transport [Report zero_divisor_report] accept_all))
          mirror_fusion blank_locals statics_initial
          (Some (streaming_device (transport [Report zero_divisor_report] accept_all)))
          1 False False True
        = Some (DEVICE_IMU_ERROR_NO_ERROR, st', Some d')
        \<and> calibration d' \<noteq> Some example_calibration
        \<and> handle d' = Some h'
        \<and> incoming (transport [Report zero_divisor_report] accept_all) = consumed @ incoming h'
        \<and> length (filter (is_data_frame
                     (example_externals (transport [Report zero_divisor_report] accept_all)))
                   consumed) = unat (1 :: u32))"
proof -
  let ?hu = "transport [HidError] accept_all"
  let ?hc = "transport [Report zero_divisor_report] accept_all"
  note u = device_imu_calibrate_touches_calibration_only_after_all_iterations
             [where P = "example_externals ?hu" and F = mirror_fusion and ind = blank_locals
                and st = statics_initial and device_ptr = "Some (streaming_device ?hu)"
                and iterations = 1 and gyro = True and accel = True and magnet = True]
  note c = device_imu_calibrate_touches_calibration_only_after_all_iterations
             [where P = "example_externals ?hc" and F = mirror_fusion and ind = blank_locals
                and st = statics_initial and device_ptr = "Some (streaming_device ?hc)"
                and iterations = 1 and gyro = False and accel = False and magnet = True]
  have cal: "calibration (streaming_device h) = Some example_calibration" for h
    by (simp add: streaming_device_def)
  have 1: "\<exists>st' dp'.
      device_imu_calibrate (example_externals ?hu) mirror_fusion
        blank_locals statics_initial (Some (streaming_device ?hu)) 1 True True True
      = Some (DEVICE_IMU_ERROR_UNPLUGGED, st', dp')
      \<and> DEVICE_IMU_ERROR_UNPLUGGED \<noteq> DEVICE_IMU_ERROR_NO_ERROR
      \<and> map_option calibration dp' = Some (Some example_calibration)"
    using u unplugged_run by (auto simp: cal)
  have guards: "\<exists>device. Some (streaming_device ?hu) = Some device \<and> handle device \<noteq> None
                  \<and> calibration device \<noteq> None
                  \<and> MAX_PACKET_SIZE = sizeof_device_imu_packet_type (example_externals ?hu)"
    by (simp add: streaming_device_def example_externals_def MAX_PACKET_SIZE_def)
  have 2: "device_imu_calibrate (example_externals ?hu) mirror_fusion
        blank_locals statics_initial (Some (streaming_device ?hu)) 0 True True True
      = Some (DEVICE_IMU_ERROR_NO_ERROR, statics_initial, Some (streaming_device ?hu))"
    using u guards by blast
  obtain st' d' where r: "device_imu_calibrate (example_externals ?hc)
       mirror_fusion blank_locals statics_initial (Some (streaming_device ?hc)) 1 False False True
     = Some (DEVICE_IMU_ERROR_NO_ERROR, st', Some d')"
    and ch: "map_option softIronMatrix (calibration d') \<noteq> Some FUSION_IDENTITY_MATRIX"
    using calibrated_run by blast
  have ne: "calibration d' \<noteq> Some example_calibration"
    using ch by (auto simp: example_calibration_def)
  then have "map_option calibration (Some d') \<noteq> map_option calibration (Some (streaming_device ?hc))"
    by (simp add: cal)
  with c r obtain h' consumed where
    "handle d' = Some h'" "incoming ?hc = consumed @ incoming h'"
    "length (filter (is_data_frame (example_externals ?hc)) consumed) = unat (1 :: u32)"
    by (fastforce simp: streaming_device_def)
  with r ne have 3: "\<exists>st' d' h' consumed.
        device_imu_calibrate (example_externals ?hc)
          mirror_fusion blank_locals statics_initial (Some (streaming_device ?hc)) 1 False False True
        = Some (DEVICE_IMU_ERROR_NO_ERROR, st', Some d')
        \<and> calibration d' \<noteq> Some example_calibration
        \<and> handle d' = Some h'
        \<and> incoming ?hc = consumed @ incoming h'
        \<and> length (filter (is_data_frame (example_externals ?hc)) consumed) = unat (1 :: u32)"
    by blast
  show ?thesis using 1 2 3 by blast
qed

subsection \<open>Opening a session\<close>

lemma exchanged_fields [simp]:
  "incoming (exchanged h fs ns rest) = rest"
  "written (exchanged h fs ns rest) = written h @ fs"
  "read_sizes (exchanged h fs ns rest) = read_sizes h @ ns"
  "write_result (exchanged h fs ns rest) = write_result h"
  by (simp_all add: exchanged_def)

lemma exchanged_exchanged:
  "exchanged (exchanged h fs ns r) gs ms r' = exchanged h (fs @ gs) (ns @ ms) r'"
  by (simp add: exchanged_def)

lemma send_request:
  "\<exists>st'. send_payload_msg crc st h msgid [] =
          Some (write_result h (length (written h)) 8 = 8, st',
                exchanged h [frame crc msgid []] [] (incoming h))"
  using send_payload_msg_eq [of "[]" crc st h msgid]
  by (simp add: exchanged_def)

lemma send_signal:
  "\<exists>st'. send_payload_msg_signal crc st h msgid v =
          Some (write_result h (length (written h)) 9 = 9, st',
                exchanged h [frame crc msgid [v]] [] (incoming h))"
  using send_payload_msg_eq [of "[v]" crc st h msgid]
  by (simp add: exchanged_def send_payload_msg_signal_def)

lemma recv_reply:
  assumes "incoming h = Report bs # rest" and "carries msgid payload bs"
    and "length payload = unat len" and "unat len \<le> 56"
  shows "\<exists>st'. recv_payload_msg st h msgid len =
           Some (Some payload, st', exchanged h [] [5 + 3 + unat len] rest)"
  using recv_payload_msg_Cons [OF assms(4) assms(1), of st msgid] assms(2,3)
  by (auto simp: carries_def exchanged_def)

lemma recv_failure:
  assumes "incoming h = ev # rest" and "unat len \<le> 56"
    and "\<not> (\<exists>bs. ev = Report bs \<and> 5 + 3 + unat len \<le> length bs \<and> bs ! 7 = msgid)"
  shows "\<exists>st'. recv_payload_msg st h msgid len =
           Some (None, st', exchanged h [] [5 + 3 + unat len] rest)"
  using recv_payload_msg_Cons [OF assms(2) assms(1), of st msgid] assms(3)
  by (cases ev) (auto simp: exchanged_def)

lemma device_imu_open_start_static_id:
  "device_imu_open_start P F st device h evs = Some (e, st', Some d, evs') \<Longrightarrow>
     static_id d = static_id device \<and> calibration d = calibration device"
  by (auto simp: device_imu_open_start_def Let_def split: option.splits if_splits prod.splits)

lemma device_imu_open_calibration_static_id:
  "device_imu_open_calibration P F st device h evs = Some (e, st', Some d, evs') \<Longrightarrow>
     static_id d = static_id device"
  by (auto simp: device_imu_open_calibration_def Let_def
      split: option.splits if_splits prod.splits
      dest!: device_imu_open_start_static_id)

lemma static_id_reset:
  "static_id (device_imu_reset_calibration device) = static_id device"
  by (simp add: device_imu_reset_calibration_def Let_def split: option.splits)

lemma device_imu_open_static_id_stage:
  "(write_result h (length (written h)) 8 \<noteq> 8 \<longrightarrow>
      (\<exists>st'. device_imu_open_static_id P F st device h evs
               = Some (DEVICE_IMU_ERROR_PAYLOAD_FAILED, st',
                       Some (device\<lparr>handle :=
                               Some (exchanged h
                                       [frame (crc32_checksum P)
                                          (DEVICE_IMU_MSG_GET_STATIC_ID P) []]
                                       [] (incoming h))\<rparr>),
                       evs)))
   \<and> (write_result h (length (written h)) 8 = 8
        \<and> incoming h = ev # rest
        \<and> \<not> (\<exists>bs. ev = Report bs \<and> 5 + 3 + 4 \<le> length bs
                  \<and> bs ! 7 = DEVICE_IMU_MSG_GET_STATIC_ID P) \<longrightarrow>
        (\<exists>st'. device_imu_open_static_id P F st device h evs
                 = device_imu_open_calibration P F st'
                     (device_imu_reset_calibration
                        (device\<lparr>static_id := 0x20220101,
                                calibration :=
                                  (if malloc_succeeds P 0 then Some (fresh_calibration P)
                                   else None)\<rparr>))
                     (exchanged h
                        [frame (crc32_checksum P) (DEVICE_IMU_MSG_GET_STATIC_ID P) []]
                        [5 + 3 + 4] rest)
                     evs)
        \<and> (\<forall>e st' d evs'.
              device_imu_open_static_id P F st device h evs = Some (e, st', Some d, evs')
              \<longrightarrow> static_id d = 0x20220101))"
proof -
  obtain st1 where s: "send_payload_msg (crc32_checksum P) st h (DEVICE_IMU_MSG_GET_STATIC_ID P) [] =
          Some (write_result h (length (written h)) 8 = 8, st1,
                exchanged h [frame (crc32_checksum P) (DEVICE_IMU_MSG_GET_STATIC_ID P) []] []
                  (incoming h))"
    using send_request by blast
  define h1 where
    "h1 = exchanged h [frame (crc32_checksum P) (DEVICE_IMU_MSG_GET_STATIC_ID P) []] [] (incoming h)"
  have A: "\<exists>st'. device_imu_open_static_id P F st device h evs
               = Some (DEVICE_IMU_ERROR_PAYLOAD_FAILED, st',
                       Some (device\<lparr>handle := Some h1\<rparr>), evs)"
    if "write_result h (length (written h)) 8 \<noteq> 8"
    using that by (simp add: device_imu_open_static_id_def s h1_def)
  have B: "(\<exists>st'. device_imu_open_static_id P F st device h evs
                 = device_imu_open_calibration P F st'
                     (device_imu_reset_calibration
                        (device\<lparr>static_id := 0x20220101,
                                calibration :=
                                  (if malloc_succeeds P 0 then Some (fresh_calibration P)
                                   else None)\<rparr>))
                     (exchanged h
                        [frame (crc32_checksum P) (DEVICE_IMU_MSG_GET_STATIC_ID P) []]
                        [5 + 3 + 4] rest)
                     evs)
        \<and> (\<forall>e st' d evs'.
              device_imu_open_static_id P F st device h evs = Some (e, st', Some d, evs')
              \<longrightarrow> static_id d = 0x20220101)"
    if w: "write_result h (length (written h)) 8 = 8" and i: "incoming h = ev # rest"
      and n: "\<not> (\<exists>bs. ev = Report bs \<and> 5 + 3 + 4 \<le> length bs
                  \<and> bs ! 7 = DEVICE_IMU_MSG_GET_STATIC_ID P)"
  proof -
    have i1: "incoming h1 = ev # rest" by (simp add: h1_def i)
    obtain st2 where r: "recv_payload_msg st1 h1 (DEVICE_IMU_MSG_GET_STATIC_ID P) 4 =
           Some (None, st2, exchanged h1 [] [5 + 3 + unat (4 :: u8)] rest)"
      using recv_failure [OF i1, of 4 "DEVICE_IMU_MSG_GET_STATIC_ID P" st1] n by auto
    have h2: "exchanged h1 [] [5 + 3 + unat (4 :: u8)] rest
                = exchanged h [frame (crc32_checksum P) (DEVICE_IMU_MSG_GET_STATIC_ID P) []]
                    [5 + 3 + 4] rest"
      by (simp add: h1_def exchanged_exchanged)
    define dev where "dev = device_imu_reset_calibration
                       (device\<lparr>static_id := 0x20220101,
                               calibration :=
                                 (if malloc_succeeds P 0 then Some (fresh_calibration P)
                                  else None)\<rparr>)"
    have sid: "static_id dev = 0x20220101"
      by (simp add: dev_def static_id_reset)
    have eq: "device_imu_open_static_id P F st device h evs
                = device_imu_open_calibration P F st2 dev
                    (exchanged h [frame (crc32_checksum P) (DEVICE_IMU_MSG_GET_STATIC_ID P) []]
                       [5 + 3 + 4] rest) evs"
      using w
      by (simp add: device_imu_open_static_id_def s h1_def [symmetric] r Let_def dev_def
          h2 [simplified])
    have "static_id d = 0x20220101"
      if "device_imu_open_static_id P F st device h evs = Some (e, st', Some d, evs')"
      for e st' d evs'
      using that device_imu_open_calibration_static_id [of P F st2 dev _ evs e st' d evs'] sid
      by (simp add: eq)
    with eq show ?thesis unfolding dev_def by blast
  qed
  show ?thesis using A B unfolding h1_def by blast
qed

lemmas open_eval =
  device_imu_open_def device_imu_open_static_id_def device_imu_open_calibration_def
  device_imu_open_start_def download_loop.simps install_calibration_def
  device_imu_reset_calibration_def send_payload_msg_signal_def send_payload_msg_def
  send_payload_def recv_payload_msg_def recv_payload_def hid_write_def hid_read_def
  packet_bytes_def bytes_from_length_def packet_of_bytes_def zero_packet_def
  json_object_get_vector_def json_object_get_quaternion_def json_object_object_get_def
  json_object_is_array_def json_object_array_length_def json_object_array_get_idx_def
  load_le32_def le16_def le32_def length_crc_def refuse_write_def
  static_id_reply_def length_reply_def

lemma download_step:
  assumes pos: "position < calibration_len"
    and w: "write_result h (length (written h)) 8 = 8"
    and i: "incoming h = Report bs # rest"
    and c: "carries (DEVICE_IMU_MSG_CAL_DATA_GET_NEXT_SEGMENT P) seg bs"
    and n: "length seg = (if calibration_len - position > 56 then 56
                          else calibration_len - position)"
  shows "\<exists>st'. download_loop P st h calibration_len position calibration_data =
           download_loop P st'
             (exchanged h
                [frame (crc32_checksum P) (DEVICE_IMU_MSG_CAL_DATA_GET_NEXT_SEGMENT P) []]
                [5 + 3 + length seg] rest)
             calibration_len (position + length seg) (store position seg calibration_data)"
proof -
  let ?m = "DEVICE_IMU_MSG_CAL_DATA_GET_NEXT_SEGMENT P"
  define h1 where "h1 = exchanged h [frame (crc32_checksum P) ?m []] [] (incoming h)"
  obtain st1 where s: "send_payload_msg (crc32_checksum P) st h ?m [] =
          Some (write_result h (length (written h)) 8 = 8, st1, h1)"
    using send_request unfolding h1_def by blast
  have le: "length seg \<le> 56" using n by (simp split: if_splits)
  have u: "unat (of_nat (length seg) :: u8) = length seg"
    using le by (simp add: unat_of_nat)
  have i1: "incoming h1 = Report bs # rest" by (simp add: h1_def i)
  obtain st2 where r: "recv_payload_msg st1 h1 ?m (of_nat (length seg)) =
           Some (Some seg, st2, exchanged h1 [] [5 + 3 + unat (of_nat (length seg) :: u8)] rest)"
    using recv_reply [OF i1 c, of "of_nat (length seg)" st1] u le by auto
  have h2: "exchanged h1 [] [5 + 3 + unat (of_nat (length seg) :: u8)] rest
              = exchanged h [frame (crc32_checksum P) ?m []] [5 + 3 + length seg] rest"
    by (simp add: h1_def exchanged_exchanged u)
  show ?thesis
    apply (rule exI [of _ st2])
    apply (subst download_loop.simps)
    using pos w n [symmetric]
    by (simp add: Let_def s r h2 [simplified] del: of_nat_add)
qed

lemma download_done:
  "\<not> position < calibration_len \<Longrightarrow>
     download_loop P st h calibration_len position calibration_data =
       Some (st, h, position, calibration_data)"
  by (subst download_loop.simps) simp

lemma download_130:
  fixes P :: externals
  defines "NEXT \<equiv> DEVICE_IMU_MSG_CAL_DATA_GET_NEXT_SEGMENT P"
  assumes blob: "length blob = 130"
    and w: "\<forall>k<3. write_result h (length (written h) + k) 8 = 8"
    and i: "incoming h = Report r1 # Report r2 # Report r3 # rest"
    and c1: "carries NEXT (take 56 blob) r1"
    and c2: "carries NEXT (take 56 (drop 56 blob)) r2"
    and c3: "carries NEXT (drop 112 blob) r3"
    and buf: "length buf = 131"
  shows "\<exists>st'. download_loop P st h 130 0 buf =
           Some (st',
                 exchanged h
                   [frame (crc32_checksum P) NEXT [], frame (crc32_checksum P) NEXT [],
                    frame (crc32_checksum P) NEXT []]
                   [5 + 3 + 56, 5 + 3 + 56, 5 + 3 + 18] rest,
                 130, blob @ drop 130 buf)"
proof -
  let ?F = "frame (crc32_checksum P) NEXT []"
  define s1 where "s1 = take 56 blob"
  define s2 where "s2 = take 56 (drop 56 blob)"
  define s3 where "s3 = drop 112 blob"
  have l: "length s1 = 56" "length s2 = 56" "length s3 = 18"
    using blob by (simp_all add: s1_def s2_def s3_def)
  have w0: "write_result h (length (written h)) 8 = 8"
    and w1: "write_result h (length (written h) + 1) 8 = 8"
    and w2: "write_result h (length (written h) + 2) 8 = 8"
    using w by (auto dest: spec [of _ 0] spec [of _ 1] spec [of _ 2])
  define h1 where "h1 = exchanged h [?F] [5 + 3 + 56] (Report r2 # Report r3 # rest)"
  define h2 where "h2 = exchanged h1 [?F] [5 + 3 + 56] (Report r3 # rest)"
  define h3 where "h3 = exchanged h2 [?F] [5 + 3 + 18] rest"
  obtain st1 where e1: "download_loop P st h 130 0 buf =
      download_loop P st1 h1 130 56 (store 0 s1 buf)"
    using download_step [of 0 130 h r1 "Report r2 # Report r3 # rest" P s1 st buf]
          w0 i c1 l
    by (auto simp: NEXT_def s1_def h1_def)
  obtain st2 where e2: "download_loop P st1 h1 130 56 (store 0 s1 buf) =
      download_loop P st2 h2 130 112 (store 56 s2 (store 0 s1 buf))"
    using download_step [of 56 130 h1 r2 "Report r3 # rest" P s2 st1 "store 0 s1 buf"]
          w1 c2 l
    by (auto simp: NEXT_def s2_def h1_def h2_def)
  obtain st3 where e3: "download_loop P st2 h2 130 112 (store 56 s2 (store 0 s1 buf)) =
      download_loop P st3 h3 130 130 (store 112 s3 (store 56 s2 (store 0 s1 buf)))"
    using download_step [of 112 130 h2 r3 rest P s3 st2 "store 56 s2 (store 0 s1 buf)"]
          w2 c3 l
    by (auto simp: NEXT_def s3_def h1_def h2_def h3_def)
  have e4: "download_loop P st3 h3 130 130 (store 112 s3 (store 56 s2 (store 0 s1 buf))) =
      Some (st3, h3, 130, store 112 s3 (store 56 s2 (store 0 s1 buf)))"
    by (rule download_done) simp
  have hh: "h3 = exchanged h [?F, ?F, ?F] [5 + 3 + 56, 5 + 3 + 56, 5 + 3 + 18] rest"
    by (simp add: h3_def h2_def h1_def exchanged_exchanged)
  have "take 56 blob @ take 56 (drop 56 blob) = take (56 + 56) blob"
    by (simp only: take_add)
  then have "(take 56 blob @ take 56 (drop 56 blob)) @ drop 112 blob = blob"
    by simp
  then have cat: "s1 @ s2 @ s3 = blob"
    unfolding s1_def s2_def s3_def by simp
  have bb: "store 112 s3 (store 56 s2 (store 0 s1 buf)) = (s1 @ s2 @ s3) @ drop 130 buf"
    using l buf by (simp add: store_def)
  show ?thesis
    using e1 e2 e3 e4 hh bb cat by auto
qed

lemma load_le32_le32_plain: "load_le32 (le32 w) = w"
  using load_le32_le32 [of w "[]"] by simp

text \<open>
  C6: when the device announces a calibration length of 130 bytes and answers the
  segment requests with the bytes of \<open>blob\<close> in pieces of 56, 56 and 18, the download
  writes the length request and exactly three segment requests, issues reads for
  \<open>8 + 4\<close>, \<open>8 + 56\<close>, \<open>8 + 56\<close> and \<open>8 + 18\<close> bytes in this order, consumes the four
  reports, and hands the parser the buffer \<open>blob\<close>, the concatenation of the three
  segments; the call goes on to start the stream with the calibration installed from
  that parse.
\<close>

theorem device_imu_open_downloads_130_bytes_in_three_segments:
  assumes blob: "length blob = 130"
    and w: "\<forall>k<4. write_result h (length (written h) + k) 8 = 8"
    and i: "incoming h = Report r0 # Report r1 # Report r2 # Report r3 # rest"
    and c0: "carries (DEVICE_IMU_MSG_GET_CAL_DATA_LENGTH P) (le32 130) r0"
    and c1: "carries (DEVICE_IMU_MSG_CAL_DATA_GET_NEXT_SEGMENT P) (take 56 blob) r1"
    and c2: "carries (DEVICE_IMU_MSG_CAL_DATA_GET_NEXT_SEGMENT P) (take 56 (drop 56 blob)) r2"
    and c3: "carries (DEVICE_IMU_MSG_CAL_DATA_GET_NEXT_SEGMENT P) (drop 112 blob) r3"
    and m: "malloc_succeeds P 1"
    and cal: "calibration device = Some c"
  shows "\<exists>st'. device_imu_open_calibration P F st device h evs =
           device_imu_open_start P F st'
             (device\<lparr>calibration :=
                Some (install_calibration P F (json_tokener_parse_ex P blob) c)\<rparr>)
             (exchanged h
                [frame (crc32_checksum P) (DEVICE_IMU_MSG_GET_CAL_DATA_LENGTH P) [],
                 frame (crc32_checksum P) (DEVICE_IMU_MSG_CAL_DATA_GET_NEXT_SEGMENT P) [],
                 frame (crc32_checksum P) (DEVICE_IMU_MSG_CAL_DATA_GET_NEXT_SEGMENT P) [],
                 frame (crc32_checksum P) (DEVICE_IMU_MSG_CAL_DATA_GET_NEXT_SEGMENT P) []]
                [5 + 3 + 4, 5 + 3 + 56, 5 + 3 + 56, 5 + 3 + 18] rest)
             evs"
proof -
  let ?L = "DEVICE_IMU_MSG_GET_CAL_DATA_LENGTH P"
  let ?N = "DEVICE_IMU_MSG_CAL_DATA_GET_NEXT_SEGMENT P"
  let ?F = "frame (crc32_checksum P) ?N []"
  have w0: "write_result h (length (written h)) 8 = 8"
    using w by (auto dest: spec [of _ 0])
  define h1 where "h1 = exchanged h [frame (crc32_checksum P) ?L []] [] (incoming h)"
  obtain st1 where s: "send_payload_msg (crc32_checksum P) st h ?L [] = Some (True, st1, h1)"
    using send_request [of "crc32_checksum P" st h ?L] w0 unfolding h1_def by auto
  have i1: "incoming h1 = Report r0 # Report r1 # Report r2 # Report r3 # rest"
    by (simp add: h1_def i)
  define h2 where "h2 = exchanged h1 [] [5 + 3 + 4] (Report r1 # Report r2 # Report r3 # rest)"
  obtain st2 where r: "recv_payload_msg st1 h1 ?L 4 = Some (Some (le32 130), st2, h2)"
    using recv_reply [OF i1 c0, of 4 st1] unfolding h2_def by auto
  have w2: "\<forall>k<3. write_result h2 (length (written h2) + k) 8 = 8"
  proof (intro allI impI)
    fix k :: nat assume "k < 3"
    then have "Suc k < 4" by simp
    with w have "write_result h (length (written h) + Suc k) 8 = 8" by blast
    then show "write_result h2 (length (written h2) + k) 8 = 8"
      by (simp add: h2_def h1_def)
  qed
  have i2: "incoming h2 = Report r1 # Report r2 # Report r3 # rest"
    by (simp add: h2_def)
  define buf where "buf = map (fresh_bytes P) [0..<131]"
  have lb: "length buf = 131" by (simp add: buf_def)
  define h3 where "h3 = exchanged h2 [?F, ?F, ?F] [5 + 3 + 56, 5 + 3 + 56, 5 + 3 + 18] rest"
  obtain st3 where d: "download_loop P st2 h2 130 0 buf = Some (st3, h3, 130, blob @ drop 130 buf)"
    using download_130 [OF blob w2 i2 c1 c2 c3 lb, of st2] unfolding h3_def by blast
  have tk: "take 130 ((blob @ drop 130 buf)[130 := 0]) = blob"
    using blob by simp
  have hh: "h3 = exchanged h [frame (crc32_checksum P) ?L [], ?F, ?F, ?F]
                   [5 + 3 + 4, 5 + 3 + 56, 5 + 3 + 56, 5 + 3 + 18] rest"
    by (simp add: h3_def h2_def h1_def exchanged_exchanged)
  have n1: "(130 :: u32) + 1 \<noteq> 0" by simp
  have u1: "unat ((130 :: u32) + 1) = 131" by simp
  have u0: "unat (130 :: u32) = 130" by simp
  have "device_imu_open_calibration P F st device h evs =
           device_imu_open_start P F st3
             (device\<lparr>calibration :=
                Some (install_calibration P F (json_tokener_parse_ex P blob) c)\<rparr>) h3 evs"
    unfolding device_imu_open_calibration_def s option.case prod.case r Let_def
      load_le32_le32_plain
    using m cal n1
    by (simp only: simp_thms if_False if_True u1 u0 buf_def [symmetric] d option.case prod.case tk)
  then show ?thesis unfolding hh by blast
qed

lemma carries_reply_report: "carries msgid payload (reply_report msgid payload)"
  by (simp add: carries_def reply_report_def nth_append)

text \<open>An instance of the theorem for C6, at \<open>download_transport\<close>.\<close>

theorem device_imu_open_downloads_130_bytes_in_three_segments_witness:
  "length example_blob = 130
   \<and> write_result download_transport (length (written download_transport) + 0) 8 = 8
   \<and> write_result download_transport (length (written download_transport) + 1) 8 = 8
   \<and> write_result download_transport (length (written download_transport) + 2) 8 = 8
   \<and> write_result download_transport (length (written download_transport) + 3) 8 = 8
   \<and> incoming download_transport =
       Report (reply_report 0x14 (le32 130)) #
       Report (reply_report 0x15 (take 56 example_blob)) #
       Report (reply_report 0x15 (take 56 (drop 56 example_blob))) #
       Report (reply_report 0x15 (drop 112 example_blob)) # []
   \<and> carries (DEVICE_IMU_MSG_GET_CAL_DATA_LENGTH (example_externals download_transport))
         (le32 130) (reply_report 0x14 (le32 130))
   \<and> carries (DEVICE_IMU_MSG_CAL_DATA_GET_NEXT_SEGMENT (example_externals download_transport))
         (take 56 example_blob) (reply_report 0x15 (take 56 example_blob))
   \<and> malloc_succeeds (example_externals download_transport) 1
   \<and> calibration (streaming_device download_transport) = Some example_calibration
   \<and> (\<exists>st'.
         device_imu_open_calibration (example_externals download_transport) mirror_fusion
           statics_initial (streaming_device download_transport) download_transport []
         = device_imu_open_start (example_externals download_transport) mirror_fusion st'
             ((streaming_device download_transport)
                \<lparr>calibration :=
                   Some (install_calibration (example_externals download_transport) mirror_fusion
                           (json_tokener_parse_ex (example_externals download_transport)
                              example_blob)
                           example_calibration)\<rparr>)
             (exchanged download_transport
                [frame length_crc 0x14 [], frame length_crc 0x15 [], frame length_crc 0x15 [],
                 frame length_crc 0x15 []]
                [5 + 3 + 4, 5 + 3 + 56, 5 + 3 + 56, 5 + 3 + 18] [])
             [])"
proof -
  let ?P = "example_externals download_transport"
  have ids: "DEVICE_IMU_MSG_GET_CAL_DATA_LENGTH ?P = 0x14"
    "DEVICE_IMU_MSG_CAL_DATA_GET_NEXT_SEGMENT ?P = 0x15"
    "crc32_checksum ?P = length_crc" "malloc_succeeds ?P 1"
    by (simp_all add: example_externals_def)
  have blob: "length example_blob = 130" by (simp add: example_blob_def)
  have w: "\<forall>k<4. write_result download_transport (length (written download_transport) + k) 8 = 8"
    by (simp add: download_transport_def transport_def accept_all_def)
  have i: "incoming download_transport =
       Report (reply_report 0x14 (le32 130)) #
       Report (reply_report 0x15 (take 56 example_blob)) #
       Report (reply_report 0x15 (take 56 (drop 56 example_blob))) #
       Report (reply_report 0x15 (drop 112 example_blob)) # []"
    by (simp add: download_transport_def transport_def)
  have cal: "calibration (streaming_device download_transport) = Some example_calibration"
    by (simp add: streaming_device_def)
  note t = device_imu_open_downloads_130_bytes_in_three_segments
             [where P = ?P and F = mirror_fusion and st = statics_initial
                and device = "streaming_device download_transport" and evs = "[]",
              OF blob w i _ _ _ _ ids(4) cal, unfolded ids,
              OF carries_reply_report carries_reply_report carries_reply_report
                 carries_reply_report]
  have w0: "write_result download_transport (length (written download_transport) + 0) 8 = 8"
    and w1: "write_result download_transport (length (written download_transport) + 1) 8 = 8"
    and w2: "write_result download_transport (length (written download_transport) + 2) 8 = 8"
    and w3: "write_result download_transport (length (written download_transport) + 3) 8 = 8"
    by (simp_all add: download_transport_def transport_def accept_all_def)
  have c0: "carries (DEVICE_IMU_MSG_GET_CAL_DATA_LENGTH ?P) (le32 130)
              (reply_report 0x14 (le32 130))"
    and c1: "carries (DEVICE_IMU_MSG_CAL_DATA_GET_NEXT_SEGMENT ?P) (take 56 example_blob)
              (reply_report 0x15 (take 56 example_blob))"
    unfolding ids by (rule carries_reply_report)+
  from blob w0 w1 w2 w3 i c0 c1 ids(4) cal t show ?thesis
    by (intro conjI)
qed

lemma download_first_segment_fails:
  assumes pos: "0 < calibration_len"
    and i: "incoming h = ev # rest"
    and f: "write_result h (length (written h)) 8 \<noteq> 8
            \<or> \<not> (\<exists>bs. ev = Report bs
                      \<and> 5 + 3 + (if calibration_len > 56 then 56 else calibration_len) \<le> length bs
                      \<and> bs ! 7 = DEVICE_IMU_MSG_CAL_DATA_GET_NEXT_SEGMENT P)"
  shows "\<exists>st' h'. download_loop P st h calibration_len 0 calibration_data =
           Some (st', h', 0, calibration_data)"
proof -
  let ?m = "DEVICE_IMU_MSG_CAL_DATA_GET_NEXT_SEGMENT P"
  let ?n = "if calibration_len > 56 then 56 else calibration_len"
  define h1 where "h1 = exchanged h [frame (crc32_checksum P) ?m []] [] (incoming h)"
  obtain st1 where s: "send_payload_msg (crc32_checksum P) st h ?m [] =
          Some (write_result h (length (written h)) 8 = 8, st1, h1)"
    using send_request unfolding h1_def by blast
  show ?thesis
  proof (cases "write_result h (length (written h)) 8 = 8")
    case False
    then show ?thesis
      using pos by (subst download_loop.simps) (simp add: s Let_def)
  next
    case True
    have le: "?n \<le> 56" by simp
    have u: "unat (of_nat ?n :: u8) = ?n"
      using le by (simp add: unat_of_nat)
    have i1: "incoming h1 = ev # rest" by (simp add: h1_def i)
    have "\<not> (\<exists>bs. ev = Report bs \<and> 5 + 3 + unat (of_nat ?n :: u8) \<le> length bs \<and> bs ! 7 = ?m)"
      using f True unfolding u by blast
    from recv_failure [OF i1 _ this, of st1]
    obtain st2 where r: "recv_payload_msg st1 h1 ?m (of_nat ?n) =
           Some (None, st2, exchanged h1 [] [5 + 3 + unat (of_nat ?n :: u8)] rest)"
      using u le by auto
    show ?thesis
      apply (subst download_loop.simps)
      using pos True r
      by (simp add: s Let_def del: of_nat_add)
  qed
qed

text \<open>
  In general: when the first segment fails, the parser is handed the memory
  \<^verbatim>\<open>malloc\<close> returned, and the record is assigned from whatever it makes of it.
\<close>

lemma failed_first_segment_parses_fresh_memory:
  assumes w: "write_result h (length (written h)) 8 = 8"
    and i: "incoming h = Report r0 # ev # rest"
    and c0: "carries (DEVICE_IMU_MSG_GET_CAL_DATA_LENGTH P) (le32 len) r0"
    and l: "len \<noteq> 0" "len + 1 \<noteq> 0"
    and f: "write_result h (length (written h) + 1) 8 \<noteq> 8
            \<or> \<not> (\<exists>bs. ev = Report bs
                      \<and> 5 + 3 + (if unat len > 56 then 56 else unat len) \<le> length bs
                      \<and> bs ! 7 = DEVICE_IMU_MSG_CAL_DATA_GET_NEXT_SEGMENT P)"
    and m: "malloc_succeeds P 1"
    and cal: "calibration device = Some c"
  shows "\<exists>st' h'. device_imu_open_calibration P F st device h evs =
           device_imu_open_start P F st'
             (device\<lparr>calibration :=
                Some (install_calibration P F
                        (json_tokener_parse_ex P (map (fresh_bytes P) [0..<unat len])) c)\<rparr>)
             h' evs"
proof -
  let ?L = "DEVICE_IMU_MSG_GET_CAL_DATA_LENGTH P"
  define h1 where "h1 = exchanged h [frame (crc32_checksum P) ?L []] [] (incoming h)"
  obtain st1 where s: "send_payload_msg (crc32_checksum P) st h ?L [] = Some (True, st1, h1)"
    using send_request [of "crc32_checksum P" st h ?L] w unfolding h1_def by auto
  have i1: "incoming h1 = Report r0 # ev # rest" by (simp add: h1_def i)
  define h2 where "h2 = exchanged h1 [] [5 + 3 + 4] (ev # rest)"
  obtain st2 where r: "recv_payload_msg st1 h1 ?L 4 = Some (Some (le32 len), st2, h2)"
    using recv_reply [OF i1 c0, of 4 st1] unfolding h2_def by auto
  have i2: "incoming h2 = ev # rest" by (simp add: h2_def)
  have f2: "write_result h2 (length (written h2)) 8 \<noteq> 8
            \<or> \<not> (\<exists>bs. ev = Report bs
                      \<and> 5 + 3 + (if unat len > 56 then 56 else unat len) \<le> length bs
                      \<and> bs ! 7 = DEVICE_IMU_MSG_CAL_DATA_GET_NEXT_SEGMENT P)"
    using f by (simp add: h2_def h1_def)
  have pos: "0 < unat len" using l(1) by (simp add: unat_gt_0)
  define buf where "buf = map (fresh_bytes P) [0..<unat (len + 1)]"
  obtain st3 h3 where d: "download_loop P st2 h2 (unat len) 0 buf = Some (st3, h3, 0, buf)"
    using download_first_segment_fails [OF pos i2 f2, of st2 buf] by blast
  have u1: "unat (len + 1) = Suc (unat len)"
    using l(2) unatSuc [of len] by (simp add: add.commute)
  have tk: "take (unat len) (buf[unat len := 0]) = map (fresh_bytes P) [0..<unat len]"
    by (simp add: buf_def u1 take_map)
  have "device_imu_open_calibration P F st device h evs =
           device_imu_open_start P F st3
             (device\<lparr>calibration :=
                Some (install_calibration P F
                        (json_tokener_parse_ex P (map (fresh_bytes P) [0..<unat len])) c)\<rparr>)
             h3 evs"
    unfolding device_imu_open_calibration_def s option.case prod.case r Let_def
      load_le32_le32_plain
    using m cal l(2)
    by (simp only: simp_thms if_False if_True buf_def [symmetric] d option.case prod.case tk)
  then show ?thesis by blast
qed

lemma install_calibration_without_document:
  "gyroscopeSensitivity (install_calibration P F None c) = FUSION_VECTOR_ZERO"
  "accelerometerSensitivity (install_calibration P F None c) = FUSION_VECTOR_ZERO"
  "magnetometerSensitivity (install_calibration P F None c) = FUSION_VECTOR_ZERO"
  "noises (install_calibration P F None c) = FUSION_IDENTITY_QUATERNION"
  by (simp_all add: install_calibration_def json_object_object_get_def
      json_object_get_vector_def json_object_get_quaternion_def json_object_is_array_def
      Let_def)

text \<open>
  C1 says that a failed segment request or response aborts the download and that the
  calibration record keeps its default values. The source leaves the loop with
  \<^verbatim>\<open>break\<close> and goes on to parse the buffer and to assign the fields of the
  record from the parse result. In \<open>failed_segment_run\<close> the device announces 130 bytes
  and the read for the first segment fails: the call returns success, and the record
  holds the gyroscope sensitivity \<open>(0, 0, 0)\<close> and the noises \<open>(1, 0, 0, 0)\<close>, the values
  the JSON getters give for a missing entry, where
  \<^verbatim>\<open>device_imu_reset_calibration\<close> writes \<open>(1, 1, 1)\<close> and \<open>(0, 0, 0, 0)\<close>.
\<close>

theorem device_imu_open_failed_segment_overwrites_defaults:
  "failed_segment_run \<noteq> None
   \<and> fst (the failed_segment_run) = DEVICE_IMU_ERROR_NO_ERROR
   \<and> map_option (map_option gyroscopeSensitivity \<circ> calibration)
        (fst (snd (snd (the failed_segment_run)))) = Some (Some FUSION_VECTOR_ZERO)
   \<and> map_option (map_option noises \<circ> calibration)
        (fst (snd (snd (the failed_segment_run)))) = Some (Some FUSION_IDENTITY_QUATERNION)
   \<and> map_option (map_option gyroscopeSensitivity \<circ> calibration \<circ> device_imu_reset_calibration)
        (fst (snd (snd (the failed_segment_run)))) = Some (Some FUSION_VECTOR_ONES)
   \<and> map_option (map_option noises \<circ> calibration \<circ> device_imu_reset_calibration)
        (fst (snd (snd (the failed_segment_run))))
       = Some (Some (FUSION_IDENTITY_QUATERNION\<lparr>element_w := Fin 0\<rparr>))
   \<and> FUSION_VECTOR_ZERO \<noteq> FUSION_VECTOR_ONES
   \<and> FUSION_IDENTITY_QUATERNION \<noteq> FUSION_IDENTITY_QUATERNION\<lparr>element_w := Fin 0\<rparr>"
  by (simp add: failed_segment_run_def open_eval example_eval Let_def nth_append
      FUSION_VECTOR_ZERO_def FUSION_VECTOR_ONES_def FUSION_IDENTITY_QUATERNION_def)

lemma enumerate_loop_static_id:
  "static_id (enumerate_loop P device infos) = static_id device"
  by (induction infos) (simp_all add: Let_def)

lemma device_imu_read_sample_keeps:
  assumes "device_imu_read_sample F st device packet = (e, st', d, evs)"
  shows "handle d = handle device \<and> static_id d = static_id device"
proof -
  define dev0 where "dev0 = device\<lparr>last_timestamp := timestamp packet,
     temperature := flt_add (flt_div (int_to_float (sint (pack16bit_signed (packet_temperature packet))))
                       (Fin (13248 / 100))) (Fin 25)\<rparr>"
  obtain gy ac mg where r: "readIMU_from_packet packet = (gy, ac, mg)"
    by (cases "readIMU_from_packet packet") auto
  obtain st1 d1 g1 a1 m1 where ac: "apply_calibration F st dev0 gy ac mg = (st1, d1, g1, a1, m1)"
    by (cases "apply_calibration F st dev0 gy ac mg") auto
  have k: "handle d1 = handle device" "static_id d1 = static_id device"
    using apply_calibration_outputs [OF ac] by (simp_all add: dev0_def)
  show ?thesis
    using assms k
    unfolding device_imu_read_sample_def Let_def dev0_def [symmetric] r prod.case ac
    by (auto split: option.splits prod.splits if_splits)
qed

lemma device_imu_read_device_transport:
  assumes h: "handle device = Some h"
    and size: "sizeof_device_imu_packet_type P = 64"
    and res: "device_imu_read_device P F st device timeout = (e, st', d, evs)"
  shows "handle d = Some (exchanged h [] [64] (drop 1 (incoming h)))
         \<and> static_id d = static_id device"
proof -
  obtain t b h' where rd: "hid_read_timeout h (replicate 64 0) 64 timeout = (t, b, h')"
    by (cases "hid_read_timeout h (replicate 64 0) 64 timeout") auto
  have h': "h' = exchanged h [] [64] (drop 1 (incoming h))"
    using rd
    by (auto simp: hid_read_timeout_def exchanged_def Let_def
        split: list.splits prod.splits)
  define dev where "dev = device\<lparr>handle := Some h'\<rparr>"
  have dv: "handle dev = Some h'" "static_id dev = static_id device"
    by (simp_all add: dev_def)
  have "handle d = Some h' \<and> static_id d = static_id device"
    using res h size rd dv device_imu_read_sample_keeps [of F st dev "as_packet P b" e st' d evs]
    by (auto simp: device_imu_read_device_def MAX_PACKET_SIZE_def Let_def
        dev_def [symmetric] split: if_splits)
  then show ?thesis by (simp add: h')
qed

lemma device_imu_open_reaches_static_id:
  assumes init: "device_init P"
    and found: "handle (found_device P cb :: ('a, 'b) device_imu) = Some h0"
    and size: "sizeof_device_imu_packet_type P = 64"
    and stop: "write_result h0 (length (written h0)) 9 = 9"
  shows "\<exists>st1 (dev1 :: ('a, 'b) device_imu) evs.
           device_imu_open P F st (Some stale) cb =
             device_imu_open_static_id P F st1 dev1
               (exchanged h0
                  [frame (crc32_checksum P) (DEVICE_IMU_MSG_START_IMU_DATA P) [0]]
                  [64] (drop 1 (incoming h0)))
               evs
           \<and> static_id dev1 = 0"
proof -
  define D :: "('a, 'b) device_imu" where "D = found_device P cb"
  define h1 where "h1 = exchanged h0
                     [frame (crc32_checksum P) (DEVICE_IMU_MSG_START_IMU_DATA P) [0]] []
                     (incoming h0)"
  obtain st1 where s: "send_payload_msg_signal (crc32_checksum P) st h0
                         (DEVICE_IMU_MSG_START_IMU_DATA P) 0 = Some (True, st1, h1)"
    using send_signal [of "crc32_checksum P" st h0 "DEVICE_IMU_MSG_START_IMU_DATA P" 0] stop
    unfolding h1_def by auto
  have sidD: "static_id D = 0"
    by (simp add: D_def found_device_def cleared_device_def enumerate_loop_static_id
        zero_device_def)
  obtain e st2 d2 evs where
    rd: "device_imu_read_device P F st1 (D\<lparr>handle := Some h1\<rparr>) 10 = (e, st2, d2, evs)"
    by (cases "device_imu_read_device P F st1 (D\<lparr>handle := Some h1\<rparr>) 10") auto
  have k: "handle d2 = Some (exchanged h1 [] [64] (drop 1 (incoming h1)))"
    "static_id d2 = 0"
    using device_imu_read_device_transport [OF _ size rd, of h1] sidD by simp_all
  have hh: "exchanged h1 [] [64] (drop 1 (incoming h1))
              = exchanged h0 [frame (crc32_checksum P) (DEVICE_IMU_MSG_START_IMU_DATA P) [0]]
                  [64] (drop 1 (incoming h0))"
    by (simp add: h1_def exchanged_exchanged)
  have Deq: "enumerate_loop P
               (zero_device\<lparr>vendor_id := xreal_vendor_id P, product_id := 0, callback := cb\<rparr>)
               (hid_enumerate P (xreal_vendor_id P) 0) = D"
    by (simp add: D_def found_device_def cleared_device_def)
  have "device_imu_open P F st (Some stale) cb =
          device_imu_open_static_id P F st2 d2
            (exchanged h1 [] [64] (drop 1 (incoming h1))) evs"
    using init found [folded D_def]
    by (simp add: device_imu_open_def Let_def zero_device_def [symmetric] Deq s rd k)
  then show ?thesis using k(2) unfolding hh by blast
qed

text \<open>
  C9, as amended: in \<^verbatim>\<open>device_imu_open\<close>, once the device is found, the stop command
  is sent and the input is drained, a request for the static id that cannot be sent
  ends the call with the payload-failed error and the static id 0; if the request is
  sent and the reply is not received (the read fails or times out, the report is too
  short, or it carries another message id), the static id of the session is set to
  \<open>0x20220101\<close>, the call continues with the calibration download, and every result it
  returns carries that static id.
\<close>

theorem device_imu_open_static_id_fallback:
  assumes init: "device_init P"
    and found: "handle (found_device P cb :: ('a, 'b) device_imu) = Some h0"
    and size: "sizeof_device_imu_packet_type P = 64"
    and stop: "write_result h0 (length (written h0)) 9 = 9"
  shows "(write_result h0 (length (written h0) + 1) 8 \<noteq> 8 \<longrightarrow>
            (\<exists>st' (d :: ('a, 'b) device_imu) evs.
               device_imu_open P F st (Some stale) cb
                 = Some (DEVICE_IMU_ERROR_PAYLOAD_FAILED, st', Some d, evs)
               \<and> static_id d = 0))
         \<and> (write_result h0 (length (written h0) + 1) 8 = 8
              \<and> drop 1 (incoming h0) = ev # rest
              \<and> \<not> (\<exists>bs. ev = Report bs \<and> 5 + 3 + 4 \<le> length bs
                        \<and> bs ! 7 = DEVICE_IMU_MSG_GET_STATIC_ID P) \<longrightarrow>
              (\<exists>st' (dev :: ('a, 'b) device_imu) evs.
                 device_imu_open P F st (Some stale) cb
                   = device_imu_open_calibration P F st' dev
                       (exchanged h0
                          [frame (crc32_checksum P) (DEVICE_IMU_MSG_START_IMU_DATA P) [0],
                           frame (crc32_checksum P) (DEVICE_IMU_MSG_GET_STATIC_ID P) []]
                          [64, 5 + 3 + 4] rest)
                       evs
                 \<and> static_id dev = 0x20220101)
              \<and> (\<forall>e st' (d :: ('a, 'b) device_imu) evs.
                    device_imu_open P F st (Some stale) cb = Some (e, st', Some d, evs)
                    \<longrightarrow> static_id d = 0x20220101))"
proof -
  define h1 where "h1 = exchanged h0
                     [frame (crc32_checksum P) (DEVICE_IMU_MSG_START_IMU_DATA P) [0]]
                     [64] (drop 1 (incoming h0))"
  obtain st1 and dev1 :: "('a, 'b) device_imu" and evs1 where
    o: "device_imu_open P F st (Some stale) cb = device_imu_open_static_id P F st1 dev1 h1 evs1"
    and sid: "static_id dev1 = 0"
    using device_imu_open_reaches_static_id [OF init found size stop, of F st stale]
    unfolding h1_def by blast
  note stage = device_imu_open_static_id_stage [of h1 P F st1 dev1 evs1 ev rest]
  have wr: "write_result h1 (length (written h1)) 8
              = write_result h0 (length (written h0) + 1) 8"
    by (simp add: h1_def)
  have inc: "incoming h1 = drop 1 (incoming h0)" by (simp add: h1_def)
  have hh: "exchanged h1 [frame (crc32_checksum P) (DEVICE_IMU_MSG_GET_STATIC_ID P) []]
              [5 + 3 + 4] rest
            = exchanged h0
                [frame (crc32_checksum P) (DEVICE_IMU_MSG_START_IMU_DATA P) [0],
                 frame (crc32_checksum P) (DEVICE_IMU_MSG_GET_STATIC_ID P) []]
                [64, 5 + 3 + 4] rest"
    by (simp add: h1_def exchanged_exchanged)
  have A: "\<exists>st' (d :: ('a, 'b) device_imu) evs.
               device_imu_open P F st (Some stale) cb
                 = Some (DEVICE_IMU_ERROR_PAYLOAD_FAILED, st', Some d, evs)
               \<and> static_id d = 0"
    if "write_result h0 (length (written h0) + 1) 8 \<noteq> 8"
  proof -
    from stage that wr obtain st' where
      "device_imu_open_static_id P F st1 dev1 h1 evs1
         = Some (DEVICE_IMU_ERROR_PAYLOAD_FAILED, st',
                 Some (dev1\<lparr>handle :=
                         Some (exchanged h1
                                 [frame (crc32_checksum P) (DEVICE_IMU_MSG_GET_STATIC_ID P) []]
                                 [] (incoming h1))\<rparr>), evs1)"
      by auto
    moreover have "static_id (dev1\<lparr>handle := v\<rparr>) = 0" for v
      using sid by simp
    ultimately show ?thesis unfolding o by blast
  qed
  have B: "(\<exists>st' (dev :: ('a, 'b) device_imu) evs.
                 device_imu_open P F st (Some stale) cb
                   = device_imu_open_calibration P F st' dev
                       (exchanged h0
                          [frame (crc32_checksum P) (DEVICE_IMU_MSG_START_IMU_DATA P) [0],
                           frame (crc32_checksum P) (DEVICE_IMU_MSG_GET_STATIC_ID P) []]
                          [64, 5 + 3 + 4] rest)
                       evs
                 \<and> static_id dev = 0x20220101)
              \<and> (\<forall>e st' (d :: ('a, 'b) device_imu) evs.
                    device_imu_open P F st (Some stale) cb = Some (e, st', Some d, evs)
                    \<longrightarrow> static_id d = 0x20220101)"
    if t: "write_result h0 (length (written h0) + 1) 8 = 8"
      "drop 1 (incoming h0) = ev # rest"
      "\<not> (\<exists>bs. ev = Report bs \<and> 5 + 3 + 4 \<le> length bs
                \<and> bs ! 7 = DEVICE_IMU_MSG_GET_STATIC_ID P)"
  proof -
    from stage t wr inc obtain st' where
      e: "device_imu_open_static_id P F st1 dev1 h1 evs1
            = device_imu_open_calibration P F st'
                (device_imu_reset_calibration
                   (dev1\<lparr>static_id := 0x20220101,
                         calibration :=
                           (if malloc_succeeds P 0 then Some (fresh_calibration P)
                            else None)\<rparr>))
                (exchanged h1 [frame (crc32_checksum P) (DEVICE_IMU_MSG_GET_STATIC_ID P) []]
                   [5 + 3 + 4] rest)
                evs1"
      and a: "\<forall>e st' d evs'.
              device_imu_open_static_id P F st1 dev1 h1 evs1 = Some (e, st', Some d, evs')
              \<longrightarrow> static_id d = 0x20220101"
      by auto
    have s2: "static_id (device_imu_reset_calibration
                   (dev1\<lparr>static_id := 0x20220101,
                         calibration :=
                           (if malloc_succeeds P 0 then Some (fresh_calibration P)
                            else None)\<rparr>)) = 0x20220101"
      by (simp add: static_id_reset)
    show ?thesis
      using e a s2 unfolding o hh by blast
  qed
  show ?thesis using A B by blast
qed

text \<open>
  An instance of the theorem for C9: the reads for the static id and for the
  calibration length both fail, and the session opens with the fallback static id.
\<close>

theorem device_imu_open_static_id_fallback_witness:
  "device_init (example_externals (transport [NoData, HidError, HidError] accept_all))
   \<and> handle (found_device (example_externals (transport [NoData, HidError, HidError] accept_all))
               True :: (FusionQuaternion, unit) device_imu)
       = Some (transport [NoData, HidError, HidError] accept_all)
   \<and> sizeof_device_imu_packet_type
         (example_externals (transport [NoData, HidError, HidError] accept_all)) = 64
   \<and> write_result (transport [NoData, HidError, HidError] accept_all)
         (length (written (transport [NoData, HidError, HidError] accept_all))) 9 = 9
   \<and> write_result (transport [NoData, HidError, HidError] accept_all)
         (length (written (transport [NoData, HidError, HidError] accept_all)) + 1) 8 = 8
   \<and> drop 1 (incoming (transport [NoData, HidError, HidError] accept_all))
       = HidError # [HidError]
   \<and> (\<exists>st' d.
         device_imu_open (example_externals (transport [NoData, HidError, HidError] accept_all))
           mirror_fusion statics_initial (Some zero_device) True
         = Some (DEVICE_IMU_ERROR_NO_ERROR, st', Some d, [])
         \<and> static_id d = 0x20220101)"
proof -
  let ?h = "transport [NoData, HidError, HidError] accept_all"
  let ?P = "example_externals ?h"
  have init: "device_init ?P" by (simp add: example_externals_def)
  have found: "handle (found_device ?P True :: (FusionQuaternion, unit) device_imu) = Some ?h"
    by (simp add: found_device_def cleared_device_def example_externals_def Let_def)
  have size: "sizeof_device_imu_packet_type ?P = 64" by (simp add: example_externals_def)
  have stop: "write_result ?h (length (written ?h)) 9 = 9"
    by (simp add: transport_def accept_all_def)
  have w1: "write_result ?h (length (written ?h) + 1) 8 = 8"
    by (simp add: transport_def accept_all_def)
  have inc: "drop 1 (incoming ?h) = HidError # [HidError]" by (simp add: transport_def)
  have nr: "\<not> (\<exists>bs. HidError = Report bs \<and> 5 + 3 + 4 \<le> length bs
                  \<and> bs ! 7 = DEVICE_IMU_MSG_GET_STATIC_ID ?P)" by simp
  have run: "\<exists>st' d. device_imu_open ?P mirror_fusion statics_initial (Some zero_device) True
               = Some (DEVICE_IMU_ERROR_NO_ERROR, st', Some d, [])"
    by (simp add: open_eval example_eval Let_def)
  then obtain st' d where
    r: "device_imu_open ?P mirror_fusion statics_initial (Some zero_device) True
          = Some (DEVICE_IMU_ERROR_NO_ERROR, st', Some d, [])" by blast
  have "static_id d = 0x20220101"
    using device_imu_open_static_id_fallback
            [OF init found size stop, where F = mirror_fusion and st = statics_initial
               and stale = zero_device and ev = HidError and rest = "[HidError]"]
          w1 inc nr r
    by blast
  with r init found size stop w1 inc show ?thesis by blast
qed

text \<open>
  C9 as stated makes every failure to obtain the static id non-fatal. In
  \<open>unsent_static_id_run\<close> the write of the request is refused: the call returns the
  payload-failed error and the static id of the session is 0, not \<open>0x20220101\<close>.
\<close>

theorem device_imu_open_unsent_static_id_request_counterexample:
  "unsent_static_id_run \<noteq> None
   \<and> fst (the unsent_static_id_run) = DEVICE_IMU_ERROR_PAYLOAD_FAILED
   \<and> map_option static_id (fst (snd (snd (the unsent_static_id_run)))) = Some 0
   \<and> map_option static_id (fst (snd (snd (the unsent_static_id_run)))) \<noteq> Some 0x20220101"
  by (simp add: unsent_static_id_run_def open_eval example_eval Let_def)

end
